theory Spec2Isabelle
  imports Complex_Main
begin

section \<open>Vectors and tolerances\<close>

text \<open>
  The mesh geometry of \<^verbatim>\<open>egs_mesh.cpp\<close> computes with \<^verbatim>\<open>EGS_Float\<close>
  (a \<^verbatim>\<open>double\<close>). The embedding reads every \<^verbatim>\<open>EGS_Float\<close> as a real number:
  the arithmetic is exact, there is no rounding, no infinity and no NaN. Where the C++
  divides by zero (a NaN or an infinity there) the theorems below carry the hypothesis
  that excludes it. The one division by zero that the constructor lets through, the
  normal of a face with collinear nodes, is followed into \<^verbatim>\<open>hownear\<close> by a second
  embedding of the stored normals that has not-a-number.
\<close>

type_synonym EGS_Float = real

text \<open>
  Modelled from the spec: \<^verbatim>\<open>EGS_Vector\<close> (\<^verbatim>\<open>egs_vector.h\<close>) is not among the
  sources. It is the three-component vector the code uses it as: \<^verbatim>\<open>x\<close>, \<^verbatim>\<open>y\<close>,
  \<^verbatim>\<open>z\<close>, componentwise \<^verbatim>\<open>+\<close> and \<^verbatim>\<open>-\<close>, \<^verbatim>\<open>*\<close> as the scalar product
  or the product with a scalar, \<^verbatim>\<open>times\<close> as the cross product, \<^verbatim>\<open>length2\<close>,
  \<^verbatim>\<open>length\<close>, and \<^verbatim>\<open>normalize\<close>, which multiplies by \<^verbatim>\<open>1 / length\<close>.
\<close>

datatype EGS_Vector = Vec (vx: EGS_Float) (vy: EGS_Float) (vz: EGS_Float)

definition vadd :: "EGS_Vector \<Rightarrow> EGS_Vector \<Rightarrow> EGS_Vector" where
  "vadd a b = Vec (vx a + vx b) (vy a + vy b) (vz a + vz b)"

definition vsub :: "EGS_Vector \<Rightarrow> EGS_Vector \<Rightarrow> EGS_Vector" where
  "vsub a b = Vec (vx a - vx b) (vy a - vy b) (vz a - vz b)"

definition vscale :: "EGS_Float \<Rightarrow> EGS_Vector \<Rightarrow> EGS_Vector" where
  "vscale k a = Vec (k * vx a) (k * vy a) (k * vz a)"

definition dot :: "EGS_Vector \<Rightarrow> EGS_Vector \<Rightarrow> EGS_Float" where
  "dot a b = vx a * vx b + vy a * vy b + vz a * vz b"

definition cross :: "EGS_Vector \<Rightarrow> EGS_Vector \<Rightarrow> EGS_Vector" where
  "cross a b = Vec (vy a * vz b - vz a * vy b)
                   (vz a * vx b - vx a * vz b)
                   (vx a * vy b - vy a * vx b)"

definition length2 :: "EGS_Vector \<Rightarrow> EGS_Float" where
  "length2 a = vx a * vx a + vy a * vy a + vz a * vz a"

definition vlength :: "EGS_Vector \<Rightarrow> EGS_Float" where
  "vlength a = sqrt (length2 a)"

definition normalize :: "EGS_Vector \<Rightarrow> EGS_Vector" where
  "normalize a = vscale (1 / vlength a) a"

definition distance2 :: "EGS_Vector \<Rightarrow> EGS_Vector \<Rightarrow> EGS_Float" where
  "distance2 a b = length2 (vsub a b)"

definition distance :: "EGS_Vector \<Rightarrow> EGS_Vector \<Rightarrow> EGS_Float" where
  "distance a b = sqrt (distance2 a b)"

definition eps :: EGS_Float where
  "eps = 1 / 10 ^ 8"

definition approx_eq :: "EGS_Float \<Rightarrow> EGS_Float \<Rightarrow> EGS_Float \<Rightarrow> bool" where
  "approx_eq a b e \<longleftrightarrow> \<bar>a - b\<bar> \<le> e * (\<bar>a\<bar> + \<bar>b\<bar> + 1)"

definition is_zero :: "EGS_Vector \<Rightarrow> bool" where
  "is_zero v \<longleftrightarrow> approx_eq 0 (vlength v) eps"

definition min3 :: "EGS_Float \<Rightarrow> EGS_Float \<Rightarrow> EGS_Float \<Rightarrow> EGS_Float" where
  "min3 a b c = min (min a b) c"

definition max3 :: "EGS_Float \<Rightarrow> EGS_Float \<Rightarrow> EGS_Float \<Rightarrow> EGS_Float" where
  "max3 a b c = max (max a b) c"

section \<open>Geometric primitives\<close>

text \<open>\<^verbatim>\<open>closest_point_triangle\<close>: the vertex, edge and interior regions in the order of the source.\<close>

definition closest_point_triangle ::
  "EGS_Vector \<Rightarrow> EGS_Vector \<Rightarrow> EGS_Vector \<Rightarrow> EGS_Vector \<Rightarrow> EGS_Vector" where
  "closest_point_triangle P A B C =
    (let ab = vsub B A; ac = vsub C A; ao = vsub P A;
         d1 = dot ab ao; d2 = dot ac ao
     in if d1 \<le> 0 \<and> d2 \<le> 0 then A
     else let bo = vsub P B; d3 = dot ab bo; d4 = dot ac bo
     in if d3 \<ge> 0 \<and> d4 \<le> d3 then B
     else let vc = d1 * d4 - d3 * d2
     in if vc \<le> 0 \<and> d1 \<ge> 0 \<and> d3 \<le> 0 then vadd A (vscale (d1 / (d1 - d3)) ab)
     else let co = vsub P C; d5 = dot ab co; d6 = dot ac co
     in if d6 \<ge> 0 \<and> d5 \<le> d6 then C
     else let vb = d5 * d2 - d1 * d6
     in if vb \<le> 0 \<and> d2 \<ge> 0 \<and> d6 \<le> 0 then vadd A (vscale (d2 / (d2 - d6)) ac)
     else let va = d3 * d6 - d5 * d4
     in if va \<le> 0 \<and> (d4 - d3) \<ge> 0 \<and> (d5 - d6) \<ge> 0
        then vadd B (vscale ((d4 - d3) / ((d4 - d3) + (d5 - d6))) (vsub C B))
     else let denom = 1 / (va + vb + vc); v = vb * denom; w = vc * denom
     in vadd (vadd A (vscale v ab)) (vscale w ac))"

definition point_outside_of_plane ::
  "EGS_Vector \<Rightarrow> EGS_Vector \<Rightarrow> EGS_Vector \<Rightarrow> EGS_Vector \<Rightarrow> EGS_Vector \<Rightarrow> bool" where
  "point_outside_of_plane P A B C D \<longleftrightarrow>
     dot (vsub P A) (cross (vsub B A) (vsub C A)) *
     dot (vsub D A) (cross (vsub B A) (vsub C A)) < 0"

text \<open>
  \<^verbatim>\<open>closest_point_tetrahedron\<close>. The running minimum starts at the largest
  \<^verbatim>\<open>EGS_Float\<close>, which no squared distance exceeds: \<open>None\<close> stands for it, so
  the first face tested always replaces it.
\<close>

definition maybe_update_min_point ::
  "EGS_Vector \<Rightarrow> EGS_Float option \<times> EGS_Vector \<Rightarrow> EGS_Vector \<Rightarrow> EGS_Vector \<Rightarrow> EGS_Vector
     \<Rightarrow> EGS_Float option \<times> EGS_Vector" where
  "maybe_update_min_point P st A B C =
    (let q = closest_point_triangle P A B C; dis = distance2 q P
     in case fst st of
          None \<Rightarrow> (Some dis, q)
        | Some mn \<Rightarrow> if dis < mn then (Some dis, q) else st)"

definition closest_point_tetrahedron ::
  "EGS_Vector \<Rightarrow> EGS_Vector \<Rightarrow> EGS_Vector \<Rightarrow> EGS_Vector \<Rightarrow> EGS_Vector \<Rightarrow> EGS_Vector" where
  "closest_point_tetrahedron P A B C D =
    (let s0 = (None, P);
         s1 = (if point_outside_of_plane P A B C D then maybe_update_min_point P s0 A B C else s0);
         s2 = (if point_outside_of_plane P A C D B then maybe_update_min_point P s1 A C D else s1);
         s3 = (if point_outside_of_plane P A B D C then maybe_update_min_point P s2 A B D else s2);
         s4 = (if point_outside_of_plane P B D C A then maybe_update_min_point P s3 B D C else s3)
     in snd s4)"

text \<open>
  The two ray-triangle tests share the M\"oller-Trumbore quantities. Both take the
  current value of the out-parameter \<^verbatim>\<open>dist\<close> and return the \<^verbatim>\<open>int\<close> result as a
  truth value together with the value \<^verbatim>\<open>dist\<close> holds on return. Their local
  \<^verbatim>\<open>eps\<close> is \<open>1e-10\<close>. The comparisons are exact here. The source compares
  doubles: for a ray aimed at an edge or a corner of a face the rounding of \<^verbatim>\<open>u\<close>,
  \<^verbatim>\<open>v\<close> and \<^verbatim>\<open>u + v\<close> can decide the test the other way, and two faces that the
  ray meets at their common edge can get distances that differ in the last place.
\<close>

definition ray_eps :: EGS_Float where
  "ray_eps = 1 / 10 ^ 10"

definition mt_det :: "EGS_Vector \<Rightarrow> EGS_Vector \<Rightarrow> EGS_Vector \<Rightarrow> EGS_Vector \<Rightarrow> EGS_Float" where
  "mt_det v_norm a b c = dot (vsub b a) (cross v_norm (vsub c a))"

definition mt_u :: "EGS_Vector \<Rightarrow> EGS_Vector \<Rightarrow> EGS_Vector \<Rightarrow> EGS_Vector \<Rightarrow> EGS_Vector \<Rightarrow> EGS_Float" where
  "mt_u p v_norm a b c =
     dot (vsub p a) (cross v_norm (vsub c a)) * (1 / mt_det v_norm a b c)"

definition mt_v :: "EGS_Vector \<Rightarrow> EGS_Vector \<Rightarrow> EGS_Vector \<Rightarrow> EGS_Vector \<Rightarrow> EGS_Vector \<Rightarrow> EGS_Float" where
  "mt_v p v_norm a b c =
     dot v_norm (cross (vsub p a) (vsub b a)) * (1 / mt_det v_norm a b c)"

definition mt_dist :: "EGS_Vector \<Rightarrow> EGS_Vector \<Rightarrow> EGS_Vector \<Rightarrow> EGS_Vector \<Rightarrow> EGS_Vector \<Rightarrow> EGS_Float" where
  "mt_dist p v_norm a b c =
     dot (vsub c a) (cross (vsub p a) (vsub b a)) * (1 / mt_det v_norm a b c)"

definition exterior_triangle_ray_intersection ::
  "EGS_Vector \<Rightarrow> EGS_Vector \<Rightarrow> EGS_Vector \<Rightarrow> EGS_Vector \<Rightarrow> EGS_Vector \<Rightarrow> EGS_Float
     \<Rightarrow> bool \<times> EGS_Float" where
  "exterior_triangle_ray_intersection p v_norm a b c dist0 =
    (let det = mt_det v_norm a b c in
     if det > - ray_eps \<and> det < ray_eps then (False, dist0)
     else let u = mt_u p v_norm a b c in
     if u < 0 \<or> u > 1 then (False, dist0)
     else let v = mt_v p v_norm a b c in
     if v < 0 \<or> u + v > 1 then (False, dist0)
     else let dist' = mt_dist p v_norm a b c in
     if dist' < 0 then (False, dist')
     else (True, dist'))"

definition interior_triangle_ray_intersection ::
  "EGS_Vector \<Rightarrow> EGS_Vector \<Rightarrow> EGS_Vector \<Rightarrow> EGS_Vector \<Rightarrow> EGS_Vector \<Rightarrow> EGS_Vector
     \<Rightarrow> EGS_Float \<Rightarrow> bool \<times> EGS_Float" where
  "interior_triangle_ray_intersection p v_norm face_norm a b c dist0 =
    (if dot v_norm face_norm > - ray_eps then (False, dist0)
     else if dot face_norm (vsub p a) < 0 then (False, dist0)
     else let det = mt_det v_norm a b c in
     if det > - ray_eps \<and> det < ray_eps then (False, dist0)
     else let u = mt_u p v_norm a b c in
     if u < 0 \<or> u > 1 then (False, dist0)
     else let v = mt_v p v_norm a b c in
     if v < 0 \<or> u + v > 1 then (False, dist0)
     else let dist' = mt_dist p v_norm a b c in
     if dist' < 0 then (False, 0)
     else (True, dist'))"

section \<open>Bounding boxes\<close>

record BoundingBox =
  min_x :: EGS_Float
  max_x :: EGS_Float
  min_y :: EGS_Float
  max_y :: EGS_Float
  min_z :: EGS_Float
  max_z :: EGS_Float

definition mk_box ::
  "EGS_Float \<Rightarrow> EGS_Float \<Rightarrow> EGS_Float \<Rightarrow> EGS_Float \<Rightarrow> EGS_Float \<Rightarrow> EGS_Float \<Rightarrow> BoundingBox" where
  "mk_box x0 x1 y0 y1 z0 z1 =
     \<lparr>min_x = x0, max_x = x1, min_y = y0, max_y = y1, min_z = z0, max_z = z1\<rparr>"

definition mid_x :: "BoundingBox \<Rightarrow> EGS_Float" where
  "mid_x b = (min_x b + max_x b) / 2"

definition mid_y :: "BoundingBox \<Rightarrow> EGS_Float" where
  "mid_y b = (min_y b + max_y b) / 2"

definition mid_z :: "BoundingBox \<Rightarrow> EGS_Float" where
  "mid_z b = (min_z b + max_z b) / 2"

definition expand :: "BoundingBox \<Rightarrow> EGS_Float \<Rightarrow> BoundingBox" where
  "expand b delta =
     mk_box (min_x b - delta) (max_x b + delta) (min_y b - delta) (max_y b + delta)
            (min_z b - delta) (max_z b + delta)"

text \<open>
  \<^verbatim>\<open>intersects_triangle\<close>, the separating-axis test. One of the nine edge-cross axes
  ends the test with \<open>False\<close> when it is not skipped as near zero and the projections
  are apart by more than the box radius less \<^verbatim>\<open>eps\<close>; the loops have no other effect,
  so they are the existence of such an axis. The message printed for a near-zero
  triangle normal is not modelled.
\<close>

definition axis_separates ::
  "BoundingBox \<Rightarrow> EGS_Vector \<Rightarrow> EGS_Vector \<Rightarrow> EGS_Vector \<Rightarrow> EGS_Vector \<Rightarrow> EGS_Vector \<Rightarrow> bool" where
  "axis_separates bb v0 v1 v2 u f =
    (let ex = (max_x bb - min_x bb) / 2;
         ey = (max_y bb - min_y bb) / 2;
         ez = (max_z bb - min_z bb) / 2;
         a = cross u f
     in if is_zero a then False
        else let r = ex * \<bar>dot (Vec 1 0 0) a\<bar> + ey * \<bar>dot (Vec 0 1 0) a\<bar> + ez * \<bar>dot (Vec 0 0 1) a\<bar>;
                 p0 = dot v0 a; p1 = dot v1 a; p2 = dot v2 a
             in max (- max3 p0 p1 p2) (min3 p0 p1 p2) + eps > r)"

definition intersects_triangle ::
  "BoundingBox \<Rightarrow> EGS_Vector \<Rightarrow> EGS_Vector \<Rightarrow> EGS_Vector \<Rightarrow> bool" where
  "intersects_triangle bb a b c =
    (if min3 (vx a) (vx b) (vx c) \<ge> max_x bb \<or>
        min3 (vy a) (vy b) (vy c) \<ge> max_y bb \<or>
        min3 (vz a) (vz b) (vz c) \<ge> max_z bb \<or>
        max3 (vx a) (vx b) (vx c) \<le> min_x bb \<or>
        max3 (vy a) (vy b) (vy c) \<le> min_y bb \<or>
        max3 (vz a) (vz b) (vz c) \<le> min_z bb
     then False
     else
      let centre = Vec (mid_x bb) (mid_y bb) (mid_z bb);
          ex = (max_x bb - min_x bb) / 2;
          ey = (max_y bb - min_y bb) / 2;
          ez = (max_z bb - min_z bb) / 2;
          v0 = vsub a centre; v1 = vsub b centre; v2 = vsub c centre;
          edge_vecs = [vsub v1 v0, vsub v2 v1, vsub v0 v2];
          unit_vecs = [Vec 1 0 0, Vec 0 1 0, Vec 0 0 1]
      in if list_ex (\<lambda>u. list_ex (\<lambda>f. axis_separates bb v0 v1 v2 u f) edge_vecs) unit_vecs
         then False
         else if max3 (vx v0) (vx v1) (vx v2) \<le> - ex \<or> min3 (vx v0) (vx v1) (vx v2) \<ge> ex \<or>
                 max3 (vy v0) (vy v1) (vy v2) \<le> - ey \<or> min3 (vy v0) (vy v1) (vy v2) \<ge> ey \<or>
                 max3 (vz v0) (vz v1) (vz v2) \<le> - ez \<or> min3 (vz v0) (vz v1) (vz v2) \<ge> ez
         then False
         else
          let n = cross (edge_vecs ! 0) (edge_vecs ! 1);
              r = ex * \<bar>vx n\<bar> + ey * \<bar>vy n\<bar> + ez * \<bar>vz n\<bar>;
              s = dot n centre - dot n a
          in \<bar>s\<bar> \<le> r)"

text \<open>
  Modelled from the spec: \<^verbatim>\<open>EGS_Mesh::Nodes\<close> (\<^verbatim>\<open>egs_mesh.h\<close>) is not among the
  sources; it holds the coordinates \<^verbatim>\<open>A\<close>, \<^verbatim>\<open>B\<close>, \<^verbatim>\<open>C\<close>, \<^verbatim>\<open>D\<close> of the four
  nodes of one tetrahedron.
\<close>

datatype Nodes = Nodes (nA: EGS_Vector) (nB: EGS_Vector) (nC: EGS_Vector) (nD: EGS_Vector)

definition intersects_tetrahedron :: "BoundingBox \<Rightarrow> Nodes \<Rightarrow> bool" where
  "intersects_tetrahedron bb tet \<longleftrightarrow>
     intersects_triangle bb (nA tet) (nB tet) (nC tet) \<or>
     intersects_triangle bb (nA tet) (nC tet) (nD tet) \<or>
     intersects_triangle bb (nA tet) (nB tet) (nD tet) \<or>
     intersects_triangle bb (nB tet) (nC tet) (nD tet)"

definition min_interior_distance :: "BoundingBox \<Rightarrow> EGS_Vector \<Rightarrow> EGS_Float" where
  "min_interior_distance bb point =
     min (vx point - min_x bb) (min (vy point - min_y bb)
     (min (vz point - min_z bb) (min (max_x bb - vx point)
     (min (max_y bb - vy point) (max_z bb - vz point)))))"

definition clamp_coord :: "EGS_Float \<Rightarrow> EGS_Float \<Rightarrow> EGS_Float \<Rightarrow> EGS_Float" where
  "clamp_coord p lo hi = (let q = (if p < lo then lo else p) in if p > hi then hi else q)"

definition closest_point :: "BoundingBox \<Rightarrow> EGS_Vector \<Rightarrow> EGS_Vector" where
  "closest_point bb point =
     Vec (clamp_coord (vx point) (min_x bb) (max_x bb))
         (clamp_coord (vy point) (min_y bb) (max_y bb))
         (clamp_coord (vz point) (min_z bb) (max_z bb))"

definition contains :: "BoundingBox \<Rightarrow> EGS_Vector \<Rightarrow> bool" where
  "contains bb point \<longleftrightarrow>
     vx point \<ge> min_x bb \<and> vx point < max_x bb \<and>
     vy point \<ge> min_y bb \<and> vy point < max_y bb \<and>
     vz point \<ge> min_z bb \<and> vz point < max_z bb"

definition is_indivisible :: "BoundingBox \<Rightarrow> bool" where
  "is_indivisible bb \<longleftrightarrow>
     approx_eq (min_x bb) (mid_x bb) eps \<or>
     approx_eq (max_x bb) (mid_x bb) eps \<or>
     approx_eq (min_y bb) (mid_y bb) eps \<or>
     approx_eq (max_y bb) (mid_y bb) eps \<or>
     approx_eq (min_z bb) (mid_z bb) eps \<or>
     approx_eq (max_z bb) (mid_z bb) eps"

definition divide8 :: "BoundingBox \<Rightarrow> BoundingBox list" where
  "divide8 bb =
     [mk_box (min_x bb) (mid_x bb) (min_y bb) (mid_y bb) (min_z bb) (mid_z bb),
      mk_box (mid_x bb) (max_x bb) (min_y bb) (mid_y bb) (min_z bb) (mid_z bb),
      mk_box (min_x bb) (mid_x bb) (mid_y bb) (max_y bb) (min_z bb) (mid_z bb),
      mk_box (mid_x bb) (max_x bb) (mid_y bb) (max_y bb) (min_z bb) (mid_z bb),
      mk_box (min_x bb) (mid_x bb) (min_y bb) (mid_y bb) (mid_z bb) (max_z bb),
      mk_box (mid_x bb) (max_x bb) (min_y bb) (mid_y bb) (mid_z bb) (max_z bb),
      mk_box (min_x bb) (mid_x bb) (mid_y bb) (max_y bb) (mid_z bb) (max_z bb),
      mk_box (mid_x bb) (max_x bb) (mid_y bb) (max_y bb) (mid_z bb) (max_z bb)]"

section \<open>The mesh data store\<close>

text \<open>
  Modelled from the spec: the input records \<^verbatim>\<open>EGS_Mesh::Tetrahedron\<close>,
  \<^verbatim>\<open>EGS_Mesh::Node\<close> and \<^verbatim>\<open>EGS_Mesh::Medium\<close> are declared in
  \<^verbatim>\<open>egs_mesh.h\<close>, which is not among the sources. Their fields are the ones
  \<^verbatim>\<open>initializeElements\<close> reads.
\<close>

datatype Tetrahedron =
  Tetrahedron (t_tag: int) (t_medium_tag: int) (t_a: int) (t_b: int) (t_c: int) (t_d: int)

datatype MeshNode = MeshNode (n_tag: int) (n_x: EGS_Float) (n_y: EGS_Float) (n_z: EGS_Float)

datatype Medium = Medium (m_tag: int) (m_medium_name: string)

text \<open>
  Every \<^verbatim>\<open>std::runtime_error\<close> and \<^verbatim>\<open>std::out_of_range\<close> the constructor can throw,
  and the \<^verbatim>\<open>egsFatal\<close> of the lost-particle search, which ends the process.
\<close>

datatype mesh_error =
    MaxElementsExceeded
  | MaxNodesExceeded
  | DuplicateNodes
  | NoMeshNodeWithTag int
  | DuplicateMediumTag int
  | MediumTagOutOfRange
  | NonManifoldTopology
  | EmptyElementsVector
  | RegionOutOfBounds int
  | FatalInfiniteLoop int

text \<open>
  The arrays of \<^verbatim>\<open>EGS_Mesh\<close>. The two octrees are added to them by the record
  \<open>EGS_Mesh\<close> below: the octree constructor reads the node arrays only.
\<close>

record EGS_Mesh_data =
  elt_tags :: "int list"
  elt_node_indices :: "int list list"
  nodes :: "EGS_Vector list"
  medium_names :: "string list"
  medium_indices :: "int list"
  neighbours :: "int list list"
  boundary_faces :: "bool list"
  face_normals :: "EGS_Vector list list"

definition int_max :: nat where
  "int_max = 2147483647"

text \<open>
  \<^verbatim>\<open>std::unordered_map<int, int>\<close> as an association list with distinct keys:
  \<^verbatim>\<open>insert\<close> leaves an existing key alone and reports whether it inserted,
  \<^verbatim>\<open>size\<close> is the length.
\<close>

definition map_insert :: "(int \<times> int) list \<Rightarrow> int \<Rightarrow> int \<Rightarrow> (int \<times> int) list \<times> bool" where
  "map_insert m k v = (case map_of m k of None \<Rightarrow> (m @ [(k, v)], True) | Some _ \<Rightarrow> (m, False))"

fun build_node_map :: "MeshNode list \<Rightarrow> int \<Rightarrow> (int \<times> int) list \<Rightarrow> (int \<times> int) list" where
  "build_node_map [] i m = m"
| "build_node_map (n # ns) i m = build_node_map ns (i + 1) (fst (map_insert m (n_tag n) i))"

definition find_node :: "(int \<times> int) list \<Rightarrow> int \<Rightarrow> mesh_error + int" where
  "find_node node_map node_tag =
     (case map_of node_map node_tag of None \<Rightarrow> Inl (NoMeshNodeWithTag node_tag) | Some i \<Rightarrow> Inr i)"

definition element_indices :: "(int \<times> int) list \<Rightarrow> Tetrahedron \<Rightarrow> mesh_error + int list" where
  "element_indices node_map e =
     (case find_node node_map (t_a e) of Inl err \<Rightarrow> Inl err | Inr ka \<Rightarrow>
      case find_node node_map (t_b e) of Inl err \<Rightarrow> Inl err | Inr kb \<Rightarrow>
      case find_node node_map (t_c e) of Inl err \<Rightarrow> Inl err | Inr kc \<Rightarrow>
      case find_node node_map (t_d e) of Inl err \<Rightarrow> Inl err | Inr kd \<Rightarrow>
      Inr [ka, kb, kc, kd])"

fun all_element_indices :: "(int \<times> int) list \<Rightarrow> Tetrahedron list \<Rightarrow> mesh_error + int list list" where
  "all_element_indices node_map [] = Inr []"
| "all_element_indices node_map (e # es) =
     (case element_indices node_map e of Inl err \<Rightarrow> Inl err | Inr ix \<Rightarrow>
      case all_element_indices node_map es of Inl err \<Rightarrow> Inl err | Inr rest \<Rightarrow> Inr (ix # rest))"

fun build_medium_offsets ::
  "Medium list \<Rightarrow> int \<Rightarrow> (int \<times> int) list \<Rightarrow> mesh_error + (int \<times> int) list" where
  "build_medium_offsets [] i m = Inr m"
| "build_medium_offsets (x # xs) i m =
     (case map_insert m (m_tag x) i of
        (m', inserted) \<Rightarrow>
          if \<not> inserted then Inl (DuplicateMediumTag (m_tag x))
          else build_medium_offsets xs (i + 1) m')"

fun all_medium_indices :: "(int \<times> int) list \<Rightarrow> Tetrahedron list \<Rightarrow> mesh_error + int list" where
  "all_medium_indices offs [] = Inr []"
| "all_medium_indices offs (e # es) =
     (case map_of offs (t_medium_tag e) of None \<Rightarrow> Inl MediumTagOutOfRange | Some k \<Rightarrow>
      case all_medium_indices offs es of Inl err \<Rightarrow> Inl err | Inr rest \<Rightarrow> Inr (k # rest))"

definition initializeElements ::
  "Tetrahedron list \<Rightarrow> MeshNode list \<Rightarrow> Medium list \<Rightarrow> mesh_error + EGS_Mesh_data" where
  "initializeElements elements nds materials =
    (if length elements \<ge> int_max then Inl MaxElementsExceeded
     else if length nds \<ge> int_max then Inl MaxNodesExceeded
     else
      let node_map = build_node_map nds 0 [] in
      if length node_map \<noteq> length nds then Inl DuplicateNodes
      else
       case all_element_indices node_map elements of Inl err \<Rightarrow> Inl err | Inr ixs \<Rightarrow>
       case build_medium_offsets materials 0 [] of Inl err \<Rightarrow> Inl err | Inr offs \<Rightarrow>
       case all_medium_indices offs elements of Inl err \<Rightarrow> Inl err | Inr meds \<Rightarrow>
       Inr \<lparr>elt_tags = map t_tag elements,
            elt_node_indices = ixs,
            nodes = map (\<lambda>n. Vec (n_x n) (n_y n) (n_z n)) nds,
            medium_names = map m_medium_name materials,
            medium_indices = meds,
            neighbours = [],
            boundary_faces = [],
            face_normals = []\<rparr>)"

text \<open>
  Modelled from the spec: \<^verbatim>\<open>num_elements\<close>, \<^verbatim>\<open>element_nodes\<close> and
  \<^verbatim>\<open>is_boundary\<close> are defined in \<^verbatim>\<open>egs_mesh.h\<close>, which is not among the sources.
  The number of regions is the number of elements; the nodes of region \<open>i\<close> are the
  coordinates its four node indices point to; a region is a boundary region when one of
  its four faces has no neighbour. A region index outside the arrays is outside this
  model: the theorems about a region assume it is valid.
\<close>

definition num_elements :: "'a EGS_Mesh_data_scheme \<Rightarrow> int" where
  "num_elements m = int (length (elt_tags m))"

definition element_nodes :: "'a EGS_Mesh_data_scheme \<Rightarrow> int \<Rightarrow> Nodes" where
  "element_nodes m i =
    (let ix = elt_node_indices m ! nat i
     in Nodes (nodes m ! nat (ix ! 0)) (nodes m ! nat (ix ! 1))
              (nodes m ! nat (ix ! 2)) (nodes m ! nat (ix ! 3)))"

definition is_boundary :: "'a EGS_Mesh_data_scheme \<Rightarrow> int \<Rightarrow> bool" where
  "is_boundary m i \<longleftrightarrow>
     boundary_faces m ! (4 * nat i) \<or> boundary_faces m ! (4 * nat i + 1) \<or>
     boundary_faces m ! (4 * nat i + 2) \<or> boundary_faces m ! (4 * nat i + 3)"

section \<open>The neighbour graph\<close>

text \<open>
  Modelled from the spec: \<^verbatim>\<open>mesh_neighbours::tetrahedron_neighbours\<close>
  (\<^verbatim>\<open>mesh_neighbours.h\<close>) is not among the sources. Following section 4.2 of the
  specification: the key of a face is the sorted triple of its node indices, face \<open>i\<close>
  being the one opposite node \<open>i\<close>; a key that one (element, face) pair has is a boundary
  face (\<^verbatim>\<open>NONE\<close>, which is \<open>-1\<close>); a key that two pairs have links the two elements;
  a key that more than two pairs have fails construction.
\<close>

definition NONE :: int where
  "NONE = - 1"

definition face_key :: "int list \<Rightarrow> nat \<Rightarrow> int list" where
  "face_key ix i = sort (take i ix @ drop (Suc i) ix)"

definition all_faces :: "int list list \<Rightarrow> (int list \<times> int \<times> nat) list" where
  "all_faces elts =
     concat (map (\<lambda>(e, ix). map (\<lambda>i. (face_key ix i, (int e, i))) [0, 1, 2, 3])
                 (zip [0 ..< length elts] elts))"

definition face_neighbour ::
  "(int list \<times> int \<times> nat) list \<Rightarrow> int list \<Rightarrow> int \<Rightarrow> nat \<Rightarrow> mesh_error + int" where
  "face_neighbour faces ix e i =
     (case filter (\<lambda>(k, p). k = face_key ix i \<and> p \<noteq> (e, i)) faces of
        [] \<Rightarrow> Inr NONE
      | [(k, (e', i'))] \<Rightarrow> Inr e'
      | _ \<Rightarrow> Inl NonManifoldTopology)"

fun sequence_sum :: "('e + 'a) list \<Rightarrow> 'e + 'a list" where
  "sequence_sum [] = Inr []"
| "sequence_sum (x # xs) =
     (case x of Inl err \<Rightarrow> Inl err | Inr v \<Rightarrow>
      case sequence_sum xs of Inl err \<Rightarrow> Inl err | Inr vs \<Rightarrow> Inr (v # vs))"

definition tetrahedron_neighbours :: "int list list \<Rightarrow> mesh_error + int list list" where
  "tetrahedron_neighbours elts =
     (let faces = all_faces elts
      in sequence_sum
           (map (\<lambda>(e, ix). sequence_sum (map (\<lambda>i. face_neighbour faces ix (int e) i) [0, 1, 2, 3]))
                (zip [0 ..< length elts] elts)))"

definition initializeNeighbours :: "EGS_Mesh_data \<Rightarrow> mesh_error + EGS_Mesh_data" where
  "initializeNeighbours m =
     (case tetrahedron_neighbours (elt_node_indices m) of
        Inl err \<Rightarrow> Inl err
      | Inr ns \<Rightarrow> Inr (m\<lparr>neighbours := ns,
                          boundary_faces := concat (map (map (\<lambda>n. n = NONE)) ns)\<rparr>))"

section \<open>Face normals\<close>

definition get_normal ::
  "EGS_Vector \<Rightarrow> EGS_Vector \<Rightarrow> EGS_Vector \<Rightarrow> EGS_Vector \<Rightarrow> EGS_Vector" where
  "get_normal a b c d =
    (let normal = normalize (cross (vsub b a) (vsub c a))
     in if dot normal (vsub d a) < 0 then vscale (- 1) normal else normal)"

definition element_normals :: "Nodes \<Rightarrow> EGS_Vector list" where
  "element_normals n =
     [get_normal (nB n) (nC n) (nD n) (nA n),
      get_normal (nA n) (nC n) (nD n) (nB n),
      get_normal (nA n) (nB n) (nD n) (nC n),
      get_normal (nA n) (nB n) (nC n) (nD n)]"

definition initializeNormals :: "EGS_Mesh_data \<Rightarrow> EGS_Mesh_data" where
  "initializeNormals m =
     m\<lparr>face_normals :=
         map (\<lambda>i. element_normals (element_nodes m (int i))) [0 ..< nat (num_elements m)]\<rparr>"

section \<open>Point in tetrahedron\<close>

definition insideElement :: "'a EGS_Mesh_data_scheme \<Rightarrow> int \<Rightarrow> EGS_Vector \<Rightarrow> bool" where
  "insideElement m i x =
    (let n = element_nodes m i
     in if point_outside_of_plane x (nA n) (nB n) (nC n) (nD n) then False
        else if point_outside_of_plane x (nA n) (nC n) (nD n) (nB n) then False
        else if point_outside_of_plane x (nA n) (nB n) (nD n) (nC n) then False
        else if point_outside_of_plane x (nB n) (nC n) (nD n) (nA n) then False
        else True)"

section \<open>The octree\<close>

datatype Node = Node (elts_of: "int list") (children_of: "Node list") (bbox_of: BoundingBox)

definition isLeaf :: "Node \<Rightarrow> bool" where
  "isLeaf nd \<longleftrightarrow> children_of nd = []"

text \<open>
  The constructor of \<^verbatim>\<open>Node\<close>. It stops at a box that \<^verbatim>\<open>is_indivisible\<close>; a box
  that is not has an extent along \<open>x\<close> of more than \<open>2 * eps\<close>, and each octant has half
  of it, which is the measure of the termination proof.
\<close>

definition box_measure :: "BoundingBox \<Rightarrow> nat" where
  "box_measure bb = nat \<lfloor>\<bar>max_x bb - min_x bb\<bar> / eps\<rfloor>"

lemma floor_half_less: "(2::real) < w \<Longrightarrow> \<lfloor>w / 2\<rfloor> < \<lfloor>w\<rfloor>"
  by linarith

lemma box_measure_divide8:
  assumes "\<not> is_indivisible bb" and "b \<in> set (divide8 bb)"
  shows "box_measure b < box_measure bb"
proof -
  let ?W = "\<bar>max_x bb - min_x bb\<bar>"
  have e: "eps > 0" by (simp add: eps_def)
  from assms(1) have "\<not> approx_eq (min_x bb) (mid_x bb) eps"
    by (simp add: is_indivisible_def)
  then have "\<bar>min_x bb - mid_x bb\<bar> > eps * (\<bar>min_x bb\<bar> + \<bar>mid_x bb\<bar> + 1)"
    by (simp add: approx_eq_def)
  moreover have "eps * (\<bar>min_x bb\<bar> + \<bar>mid_x bb\<bar> + 1) \<ge> eps * 1"
    using e by (intro mult_left_mono) auto
  moreover have "\<bar>min_x bb - mid_x bb\<bar> = ?W / 2"
    by (simp add: mid_x_def abs_if field_simps)
  ultimately have "?W / 2 > eps"
    by linarith
  then have W: "?W / eps > 2"
    using e by (simp add: field_simps)
  from assms(2) have "\<bar>max_x b - min_x b\<bar> = ?W / 2"
    by (auto simp: divide8_def mk_box_def mid_x_def abs_if field_simps)
  then have "\<bar>max_x b - min_x b\<bar> / eps = (?W / 2) / eps"
    by (simp only:)
  then have "\<bar>max_x b - min_x b\<bar> / eps = (?W / eps) / 2"
    by (simp only: divide_divide_eq_left mult.commute)
  then have "box_measure b = nat \<lfloor>(?W / eps) / 2\<rfloor>"
    unfolding box_measure_def by (rule arg_cong)
  moreover have "\<lfloor>(?W / eps) / 2\<rfloor> < \<lfloor>?W / eps\<rfloor>"
    using W by (rule floor_half_less)
  moreover have "0 < \<lfloor>?W / eps\<rfloor>"
    using W by (simp add: floor_less_iff less_floor_iff)
  ultimately show ?thesis
    by (simp add: box_measure_def)
qed

function Node_ctor ::
  "int list \<Rightarrow> BoundingBox \<Rightarrow> nat \<Rightarrow> 'a EGS_Mesh_data_scheme \<Rightarrow> Node" where
  "Node_ctor elts bbox n_max mesh =
    (if is_indivisible bbox \<or> length elts < n_max then Node elts [] bbox
     else Node []
            (map (\<lambda>bb. Node_ctor
                         (filter (\<lambda>e. intersects_tetrahedron bb (element_nodes mesh e)) elts)
                         bb n_max mesh)
                 (divide8 bbox))
            bbox)"
  by pat_completeness auto
termination
  by (relation "measure (\<lambda>(elts, bbox, n_max, mesh). box_measure bbox)")
     (auto simp: box_measure_divide8)

declare Node_ctor.simps [simp del]

definition findOctant :: "Node \<Rightarrow> EGS_Vector \<Rightarrow> nat" where
  "findOctant nd p =
     (if vx p \<ge> mid_x (bbox_of nd) then 1 else 0) +
     (if vy p \<ge> mid_y (bbox_of nd) then 2 else 0) +
     (if vz p \<ge> mid_z (bbox_of nd) then 4 else 0)"

definition hownear_leaf_search ::
  "Node \<Rightarrow> EGS_Vector \<Rightarrow> 'a EGS_Mesh_data_scheme \<Rightarrow> EGS_Float" where
  "hownear_leaf_search nd p mesh =
    (let best_dist = min_interior_distance (bbox_of nd) p;
         best_dist2 =
           fold (\<lambda>e acc. let n = element_nodes mesh e
                          in min acc (distance2 p
                               (closest_point_tetrahedron p (nA n) (nB n) (nC n) (nD n))))
                (elts_of nd) (best_dist * best_dist)
     in sqrt best_dist2)"

text \<open>
  The descent of \<^verbatim>\<open>hownear_exterior\<close> and \<^verbatim>\<open>isWhere\<close>. The source indexes
  \<^verbatim>\<open>children\<close> with the octant and relies on an inner node having eight children,
  which \<open>Node_ctor\<close> guarantees (lemma \<open>Node_ctor_wf\<close> below); the last branch of the
  two functions is never taken on a tree the constructor built.
\<close>

lemma child_size_list: "k < length cs \<Longrightarrow> size (cs ! k) < Suc (size_list size cs)"
  by (metis less_Suc_eq not_less nth_mem size_list_estimation')

lemma child_size: "k < length (children_of nd) \<Longrightarrow> size (children_of nd ! k) < size nd"
  using child_size_list [of k "children_of nd"] by (cases nd) simp

function node_hownear_exterior ::
  "Node \<Rightarrow> EGS_Vector \<Rightarrow> 'a EGS_Mesh_data_scheme \<Rightarrow> EGS_Float" where
  "node_hownear_exterior nd p mesh =
    (if isLeaf nd then hownear_leaf_search nd p mesh
     else if findOctant nd p < length (children_of nd)
          then node_hownear_exterior (children_of nd ! findOctant nd p) p mesh
          else 0)"
  by pat_completeness auto
termination
  by (relation "measure (\<lambda>(nd, p, mesh). size nd)")
     (auto simp: isLeaf_def child_size split: Node.splits)

declare node_hownear_exterior.simps [simp del]

fun first_inside :: "'a EGS_Mesh_data_scheme \<Rightarrow> int list \<Rightarrow> EGS_Vector \<Rightarrow> int" where
  "first_inside mesh [] p = - 1"
| "first_inside mesh (e # es) p = (if insideElement mesh e p then e else first_inside mesh es p)"

function node_isWhere :: "Node \<Rightarrow> EGS_Vector \<Rightarrow> 'a EGS_Mesh_data_scheme \<Rightarrow> int" where
  "node_isWhere nd p mesh =
    (if isLeaf nd then first_inside mesh (elts_of nd) p
     else if findOctant nd p < length (children_of nd)
          then node_isWhere (children_of nd ! findOctant nd p) p mesh
          else - 1)"
  by pat_completeness auto
termination
  by (relation "measure (\<lambda>(nd, p, mesh). size nd)")
     (auto simp: isLeaf_def child_size split: Node.splits)

declare node_isWhere.simps [simp del]

text \<open>
  The constructor of \<^verbatim>\<open>EGS_Mesh_Octree\<close>. The bounds start at \<open>+\<close>\<^verbatim>\<open>INF\<close> and
  \<open>-\<close>\<^verbatim>\<open>INF\<close> and take the minimum and maximum over the elements; the element list is
  not empty there, so the bounds are those of the first element, widened by the others.
\<close>

definition tet_box :: "Nodes \<Rightarrow> BoundingBox" where
  "tet_box n =
     mk_box (min (vx (nA n)) (min (vx (nB n)) (min (vx (nC n)) (vx (nD n)))))
            (max (vx (nA n)) (max (vx (nB n)) (max (vx (nC n)) (vx (nD n)))))
            (min (vy (nA n)) (min (vy (nB n)) (min (vy (nC n)) (vy (nD n)))))
            (max (vy (nA n)) (max (vy (nB n)) (max (vy (nC n)) (vy (nD n)))))
            (min (vz (nA n)) (min (vz (nB n)) (min (vz (nC n)) (vz (nD n)))))
            (max (vz (nA n)) (max (vz (nB n)) (max (vz (nC n)) (vz (nD n)))))"

definition widen :: "BoundingBox \<Rightarrow> BoundingBox \<Rightarrow> BoundingBox" where
  "widen g t =
     mk_box (min (min_x g) (min_x t)) (max (max_x g) (max_x t))
            (min (min_y g) (min_y t)) (max (max_y g) (max_y t))
            (min (min_z g) (min_z t)) (max (max_z g) (max_z t))"

definition g_bounds :: "int list \<Rightarrow> 'a EGS_Mesh_data_scheme \<Rightarrow> BoundingBox" where
  "g_bounds elts mesh =
     fold (\<lambda>e g. widen g (tet_box (element_nodes mesh e))) (tl elts)
          (tet_box (element_nodes mesh (hd elts)))"

definition EGS_Mesh_Octree ::
  "int list \<Rightarrow> nat \<Rightarrow> 'a EGS_Mesh_data_scheme \<Rightarrow> mesh_error + Node" where
  "EGS_Mesh_Octree elts n_max mesh =
    (if elts = [] then Inl EmptyElementsVector
     else if length elts > int_max then Inl MaxElementsExceeded
     else Inr (Node_ctor elts (expand (g_bounds elts mesh) (1 / 10 ^ 8)) n_max mesh))"

definition octree_isWhere :: "Node \<Rightarrow> EGS_Vector \<Rightarrow> 'a EGS_Mesh_data_scheme \<Rightarrow> int" where
  "octree_isWhere rt p mesh =
     (if \<not> contains (bbox_of rt) p then - 1 else node_isWhere rt p mesh)"

definition octree_hownear_exterior ::
  "Node \<Rightarrow> EGS_Vector \<Rightarrow> 'a EGS_Mesh_data_scheme \<Rightarrow> EGS_Float" where
  "octree_hownear_exterior rt p mesh =
     (if \<not> contains (bbox_of rt) p then distance (closest_point (bbox_of rt) p) p
      else node_hownear_exterior rt p mesh)"

section \<open>The mesh and its queries\<close>

record EGS_Mesh = EGS_Mesh_data +
  volume_tree :: Node
  surface_tree :: Node

definition initializeOctrees :: "EGS_Mesh_data \<Rightarrow> mesh_error + Node \<times> Node" where
  "initializeOctrees m =
    (let elts = map int [0 ..< nat (num_elements m)];
         boundary_elts = filter (is_boundary m) elts
     in case EGS_Mesh_Octree elts 200 m of Inl err \<Rightarrow> Inl err | Inr vt \<Rightarrow>
        case EGS_Mesh_Octree boundary_elts 100 m of Inl err \<Rightarrow> Inl err | Inr st \<Rightarrow>
        Inr (vt, st))"

text \<open>
  The constructor of \<^verbatim>\<open>EGS_Mesh\<close>: elements, neighbours, octrees, normals. An
  exception of any step leaves no object. \<^verbatim>\<open>initializeOctrees\<close> reads the nodes and
  the boundary flags and \<^verbatim>\<open>initializeNormals\<close> reads the nodes, so the record is
  assembled once both are computed.
\<close>

definition EGS_Mesh_ctor ::
  "Tetrahedron list \<Rightarrow> MeshNode list \<Rightarrow> Medium list \<Rightarrow> mesh_error + EGS_Mesh" where
  "EGS_Mesh_ctor elements nds materials =
    (case initializeElements elements nds materials of Inl err \<Rightarrow> Inl err | Inr m1 \<Rightarrow>
     case initializeNeighbours m1 of Inl err \<Rightarrow> Inl err | Inr m2 \<Rightarrow>
     case initializeOctrees m2 of Inl err \<Rightarrow> Inl err | Inr (vt, st) \<Rightarrow>
     Inr (EGS_Mesh_data.extend (initializeNormals m2) (EGS_Mesh.fields vt st)))"

definition isWhere :: "EGS_Mesh \<Rightarrow> EGS_Vector \<Rightarrow> int" where
  "isWhere m x = octree_isWhere (volume_tree m) x m"

definition distance_to_plane :: "EGS_Vector \<Rightarrow> EGS_Vector \<Rightarrow> EGS_Vector \<Rightarrow> EGS_Float" where
  "distance_to_plane x unit_plane_normal plane_point =
     \<bar>dot unit_plane_normal (vsub x plane_point)\<bar>"

definition min_interior_face_dist ::
  "'a EGS_Mesh_data_scheme \<Rightarrow> int \<Rightarrow> EGS_Vector \<Rightarrow> EGS_Float" where
  "min_interior_face_dist m ireg x =
    (let n = element_nodes m ireg;
         min_dist = distance_to_plane x (face_normals m ! nat ireg ! 0) (nB n);
         min_dist = min min_dist (distance_to_plane x (face_normals m ! nat ireg ! 1) (nA n));
         min_dist = min min_dist (distance_to_plane x (face_normals m ! nat ireg ! 2) (nA n));
         min_dist = min min_dist (distance_to_plane x (face_normals m ! nat ireg ! 3) (nA n))
     in min_dist)"

definition min_exterior_face_dist :: "EGS_Mesh \<Rightarrow> EGS_Vector \<Rightarrow> EGS_Float" where
  "min_exterior_face_dist m x = octree_hownear_exterior (surface_tree m) x m"

definition hownear :: "EGS_Mesh \<Rightarrow> int \<Rightarrow> EGS_Vector \<Rightarrow> mesh_error + EGS_Float" where
  "hownear m ireg x =
    (if ireg > 0 \<and> ireg > num_elements m - 1 then Inl (RegionOutOfBounds ireg)
     else if ireg \<ge> 0 then Inr (min_interior_face_dist m ireg x)
     else Inr (min_exterior_face_dist m x))"

text \<open>
  \<^verbatim>\<open>howfar_interior_find_lost_particle\<close>: the neighbours of the region in order, then
  \<^verbatim>\<open>isWhere\<close>; \<^verbatim>\<open>egsFatal\<close> ends the run when \<^verbatim>\<open>isWhere\<close> answers the region
  the search started from.
\<close>

fun first_neighbour_inside ::
  "'a EGS_Mesh_data_scheme \<Rightarrow> int list \<Rightarrow> EGS_Vector \<Rightarrow> int option" where
  "first_neighbour_inside m [] x = None"
| "first_neighbour_inside m (neighbour # rest) x =
     (if neighbour = - 1 then first_neighbour_inside m rest x
      else if insideElement m neighbour x then Some neighbour
      else first_neighbour_inside m rest x)"

definition howfar_interior_find_lost_particle ::
  "EGS_Mesh \<Rightarrow> int \<Rightarrow> EGS_Vector \<Rightarrow> mesh_error + int" where
  "howfar_interior_find_lost_particle m ireg x =
    (case first_neighbour_inside m (neighbours m ! nat ireg) x of
       Some neighbour \<Rightarrow> Inr neighbour
     | None \<Rightarrow>
        let newreg = isWhere m x
        in if newreg = ireg then Inl (FatalInfiniteLoop ireg) else Inr newreg)"

text \<open>
  \<^verbatim>\<open>howfar_interior\<close>. \<open>hbt\<close> is \<^verbatim>\<open>EGS_BaseGeometry::halfBoundaryTolerance\<close>, a
  static of the base class that is set from the input file and is not among the sources.
  The result holds the region returned, the value of \<^verbatim>\<open>t\<close> on return, and the face
  whose normal is handed to \<^verbatim>\<open>update_normal\<close> (none when the normal is left alone).
  \<^verbatim>\<open>update_medium\<close> and \<^verbatim>\<open>update_normal\<close> are in \<^verbatim>\<open>egs_mesh.h\<close>; the values they
  write to \<^verbatim>\<open>newmed\<close> and \<^verbatim>\<open>normal\<close> are not modelled.
\<close>

definition face_nodes :: "Nodes \<Rightarrow> EGS_Vector list list" where
  "face_nodes n =
     [[nB n, nC n, nD n], [nA n, nC n, nD n], [nA n, nB n, nD n], [nA n, nB n, nC n]]"

record howfar_result =
  hf_newreg :: int
  hf_t :: EGS_Float
  hf_face :: "nat option"

text \<open>
  The loop over the four faces, with the variables \<^verbatim>\<open>is_lost\<close> and \<^verbatim>\<open>dist\<close> it
  updates. It ends with the face it returns through and the distance stored in \<^verbatim>\<open>t\<close>,
  or runs to the end and leaves \<^verbatim>\<open>is_lost\<close>.
\<close>

fun howfar_interior_loop ::
  "'a EGS_Mesh_data_scheme \<Rightarrow> EGS_Float \<Rightarrow> int \<Rightarrow> EGS_Vector \<Rightarrow> EGS_Vector \<Rightarrow> EGS_Float
     \<Rightarrow> nat list \<Rightarrow> bool \<Rightarrow> EGS_Float \<Rightarrow> (nat \<times> EGS_Float) option \<times> bool" where
  "howfar_interior_loop m hbt ireg x u t [] is_lost dist0 = (None, is_lost)"
| "howfar_interior_loop m hbt ireg x u t (i # rest) is_lost dist0 =
    (let fnorm = face_normals m ! nat ireg ! i;
         f = face_nodes (element_nodes m ireg) ! i
     in if \<not> (dot fnorm (vsub x (f ! 0)) \<ge> 0)
        then howfar_interior_loop m hbt ireg x u t rest is_lost dist0
        else
         case interior_triangle_ray_intersection x u fnorm (f ! 0) (f ! 1) (f ! 2) dist0 of
           (hit, dist1) \<Rightarrow>
             if \<not> hit then howfar_interior_loop m hbt ireg x u t rest is_lost dist1
             else if dist1 > t then howfar_interior_loop m hbt ireg x u t rest False dist1
             else (Some (i, if dist1 \<le> hbt then 0 else dist1), False))"

definition howfar_interior ::
  "EGS_Mesh \<Rightarrow> EGS_Float \<Rightarrow> int \<Rightarrow> EGS_Vector \<Rightarrow> EGS_Vector \<Rightarrow> EGS_Float
     \<Rightarrow> mesh_error + howfar_result" where
  "howfar_interior m hbt ireg x u t =
    (case howfar_interior_loop m hbt ireg x u t [0, 1, 2, 3] True (10 ^ 30) of
       (Some (i, d), is_lost) \<Rightarrow>
         Inr \<lparr>hf_newreg = neighbours m ! nat ireg ! i, hf_t = d, hf_face = Some i\<rparr>
     | (None, is_lost) \<Rightarrow>
         if \<not> is_lost then Inr \<lparr>hf_newreg = ireg, hf_t = t, hf_face = None\<rparr>
         else
          case howfar_interior_find_lost_particle m ireg x of
            Inl err \<Rightarrow> Inl err
          | Inr newreg \<Rightarrow> Inr \<lparr>hf_newreg = newreg, hf_t = 0, hf_face = None\<rparr>)"

section \<open>The interior ray-triangle test\<close>

text \<open>
  The test reaches its distance computation when the direction is favourable, the origin
  is on the non-negative side of the face plane, the determinant is away from zero and
  the barycentric coordinates are in range.
\<close>

definition reaches_distance ::
  "EGS_Vector \<Rightarrow> EGS_Vector \<Rightarrow> EGS_Vector \<Rightarrow> EGS_Vector \<Rightarrow> EGS_Vector \<Rightarrow> EGS_Vector \<Rightarrow> bool" where
  "reaches_distance p v_norm face_norm a b c \<longleftrightarrow>
     dot v_norm face_norm \<le> - ray_eps \<and> dot face_norm (vsub p a) \<ge> 0 \<and>
     (mt_det v_norm a b c \<le> - ray_eps \<or> mt_det v_norm a b c \<ge> ray_eps) \<and>
     0 \<le> mt_u p v_norm a b c \<and> mt_u p v_norm a b c \<le> 1 \<and>
     0 \<le> mt_v p v_norm a b c \<and> mt_u p v_norm a b c + mt_v p v_norm a b c \<le> 1"

section \<open>Qualifying faces and plane distances\<close>

text \<open>
  Face \<open>i\<close> of a region qualifies for a ray when the position is on the non-negative
  side of the stored normal and the interior ray-triangle test reports a hit; its distance
  is the parametric distance of that test. Both are the conditions and the value
  \<^verbatim>\<open>howfar_interior\<close> computes for the face.
\<close>

definition qualifies ::
  "'a EGS_Mesh_data_scheme \<Rightarrow> int \<Rightarrow> EGS_Vector \<Rightarrow> EGS_Vector \<Rightarrow> nat \<Rightarrow> bool" where
  "qualifies m ireg x u i \<longleftrightarrow>
    (let fnorm = face_normals m ! nat ireg ! i;
         f = face_nodes (element_nodes m ireg) ! i
     in dot fnorm (vsub x (f ! 0)) \<ge> 0 \<and>
        fst (interior_triangle_ray_intersection x u fnorm (f ! 0) (f ! 1) (f ! 2) 0))"

definition face_distance ::
  "'a EGS_Mesh_data_scheme \<Rightarrow> int \<Rightarrow> EGS_Vector \<Rightarrow> EGS_Vector \<Rightarrow> nat \<Rightarrow> EGS_Float" where
  "face_distance m ireg x u i =
    (let f = face_nodes (element_nodes m ireg) ! i
     in mt_dist x u (f ! 0) (f ! 1) (f ! 2))"




section \<open>The stored normals and hownear with not-a-number\<close>











section \<open>A mesh of one tetrahedron\<close>

text \<open>
  The records of a mesh with the single tetrahedron \<open>(0,0,0)\<close>, \<open>(2,0,0)\<close>, \<open>(0,1,0)\<close>,
  \<open>(0,0,1)\<close>, the mesh the constructor builds from them, and the positions and
  directions the theorems are instantiated at.
\<close>

definition ex_elements :: "Tetrahedron list" where
  "ex_elements = [Tetrahedron 1 1 1 2 3 4]"

definition ex_nodes :: "MeshNode list" where
  "ex_nodes = [MeshNode 1 0 0 0, MeshNode 2 2 0 0, MeshNode 3 0 1 0, MeshNode 4 0 0 1]"

definition ex_media :: "Medium list" where
  "ex_media = [Medium 1 ''water'']"

definition dup_nodes :: "MeshNode list" where
  "dup_nodes = [MeshNode 1 0 0 0, MeshNode 2 2 0 0, MeshNode 3 0 1 0, MeshNode 1 0 0 1]"

definition ex_box :: BoundingBox where
  "ex_box = mk_box (- (1 / 10 ^ 8)) (2 + 1 / 10 ^ 8) (- (1 / 10 ^ 8)) (1 + 1 / 10 ^ 8)
                   (- (1 / 10 ^ 8)) (1 + 1 / 10 ^ 8)"

definition ex_data :: EGS_Mesh_data where
  "ex_data =
     \<lparr>elt_tags = [1], elt_node_indices = [[0, 1, 2, 3]],
      nodes = [Vec 0 0 0, Vec 2 0 0, Vec 0 1 0, Vec 0 0 1],
      medium_names = [''water''], medium_indices = [0],
      neighbours = [[- 1, - 1, - 1, - 1]],
      boundary_faces = [True, True, True, True],
      face_normals = []\<rparr>"

definition ex_mesh :: EGS_Mesh where
  "ex_mesh =
     \<lparr>elt_tags = [1], elt_node_indices = [[0, 1, 2, 3]],
      nodes = [Vec 0 0 0, Vec 2 0 0, Vec 0 1 0, Vec 0 0 1],
      medium_names = [''water''], medium_indices = [0],
      neighbours = [[- 1, - 1, - 1, - 1]],
      boundary_faces = [True, True, True, True],
      face_normals =
        [[Vec (- (1 / 3)) (- (2 / 3)) (- (2 / 3)), Vec 1 0 0, Vec 0 1 0, Vec 0 0 1]],
      volume_tree = Node [0] [] ex_box,
      surface_tree = Node [0] [] ex_box\<rparr>"

definition ex_x :: EGS_Vector where
  "ex_x = Vec (1 / 2) (1 / 4) (1 / 2000)"

definition ex_u :: EGS_Vector where
  "ex_u = Vec 0 0 (- 1)"

definition ex_p :: EGS_Vector where
  "ex_p = Vec (1 / 2) (1 / 4) (1 / 8)"

definition ex_x_out :: EGS_Vector where
  "ex_x_out = Vec (- 1) (1 / 4) (1 / 4)"

definition ex_u_out :: EGS_Vector where
  "ex_u_out = Vec (- 1) 0 0"

definition ex_u_zero :: EGS_Vector where
  "ex_u_zero = Vec 0 0 0"

text \<open>
  A ray inside the one tetrahedron that is aimed at a point of the edge from node C to node
  D, which the faces B, C, D and A, C, D share.
\<close>

definition edge_x :: EGS_Vector where
  "edge_x = Vec (1 / 16) (1 / 16) (1 / 8)"

definition edge_u :: EGS_Vector where
  "edge_u = Vec (- (3 / 16)) (21 / 8) (- (3 / 16))"

section \<open>A mesh of two tetrahedra that share a face\<close>

text \<open>
  Region \<open>0\<close> is the tetrahedron of the mesh above and region \<open>1\<close> its mirror image below
  the face A, B, C, which the two share. The positions are on that face and \<open>1/2000\<close> above
  it in region \<open>0\<close>; the directions are a unit vector that crosses the face at an angle and
  the unit vector that points from the face into region \<open>0\<close>.
\<close>

definition tw_elements :: "Tetrahedron list" where
  "tw_elements = [Tetrahedron 1 1 1 2 3 4, Tetrahedron 2 1 1 2 3 5]"

definition tw_nodes :: "MeshNode list" where
  "tw_nodes = [MeshNode 1 0 0 0, MeshNode 2 2 0 0, MeshNode 3 0 1 0, MeshNode 4 0 0 1,
               MeshNode 5 0 0 (- 1)]"

definition tw_data :: EGS_Mesh_data where
  "tw_data =
     \<lparr>elt_tags = [1, 2], elt_node_indices = [[0, 1, 2, 3], [0, 1, 2, 4]],
      nodes = [Vec 0 0 0, Vec 2 0 0, Vec 0 1 0, Vec 0 0 1, Vec 0 0 (- 1)],
      medium_names = [''water''], medium_indices = [0, 0],
      neighbours = [[- 1, - 1, - 1, 1], [- 1, - 1, - 1, 0]],
      boundary_faces = [True, True, True, False, True, True, True, False],
      face_normals = []\<rparr>"

definition tw_box :: BoundingBox where
  "tw_box = mk_box (- (1 / 10 ^ 8)) (2 + 1 / 10 ^ 8) (- (1 / 10 ^ 8)) (1 + 1 / 10 ^ 8)
                   (- 1 - 1 / 10 ^ 8) (1 + 1 / 10 ^ 8)"

definition tw_mesh :: EGS_Mesh where
  "tw_mesh =
     \<lparr>elt_tags = [1, 2], elt_node_indices = [[0, 1, 2, 3], [0, 1, 2, 4]],
      nodes = [Vec 0 0 0, Vec 2 0 0, Vec 0 1 0, Vec 0 0 1, Vec 0 0 (- 1)],
      medium_names = [''water''], medium_indices = [0, 0],
      neighbours = [[- 1, - 1, - 1, 1], [- 1, - 1, - 1, 0]],
      boundary_faces = [True, True, True, False, True, True, True, False],
      face_normals =
        [[Vec (- (1 / 3)) (- (2 / 3)) (- (2 / 3)), Vec 1 0 0, Vec 0 1 0, Vec 0 0 1],
         [Vec (- (1 / 3)) (- (2 / 3)) (2 / 3), Vec 1 0 0, Vec 0 1 0, Vec 0 0 (- 1)]],
      volume_tree = Node [0, 1] [] tw_box,
      surface_tree = Node [0, 1] [] tw_box\<rparr>"

definition shared_x :: EGS_Vector where
  "shared_x = Vec (1 / 4) (1 / 4) 0"

definition near_x :: EGS_Vector where
  "near_x = Vec (1 / 4) (1 / 4) (1 / 2000)"

definition oblique_u :: EGS_Vector where
  "oblique_u = Vec (24 / 25) 0 (- (7 / 25))"

definition inward_u :: EGS_Vector where
  "inward_u = Vec 0 0 1"

section \<open>A flat tetrahedron\<close>






section \<open>A mesh of two hundred tetrahedra\<close>

text \<open>
  Two hundred tetrahedra with four nodes each of their own, so that every face is a
  boundary face. Region \<open>0\<close> spans the box from \<open>(0,0,0)\<close> to \<open>(2,2,2)\<close> and its
  edge from node A to node B passes the line \<open>x = y = 1\<close> at a distance of \<open>5e-10\<close>;
  the other regions are small and lie in the octant of large \<open>x\<close>, \<open>y\<close> and \<open>z\<close>.
\<close>

definition big_delta :: EGS_Float where
  "big_delta = 1 / 10 ^ 9"

definition big_tet :: Nodes where
  "big_tet = Nodes (Vec (2 - big_delta) 0 0) (Vec 0 (2 - big_delta) 0) (Vec 2 2 0) (Vec 2 2 2)"

definition filler :: "nat \<Rightarrow> Nodes" where
  "filler k =
     Nodes (Vec (3 / 2) (3 / 2) (1 + real k / 1000))
           (Vec (3 / 2 + 1 / 2000) (3 / 2) (1 + real k / 1000))
           (Vec (3 / 2) (3 / 2 + 1 / 2000) (1 + real k / 1000))
           (Vec (3 / 2) (3 / 2) (1 + real k / 1000 + 1 / 2000))"

definition big_tets :: "Nodes list" where
  "big_tets = big_tet # map filler [1 ..< 200]"

definition big_data :: EGS_Mesh_data where
  "big_data =
     \<lparr>elt_tags = map (\<lambda>k. int k + 1) [0 ..< 200],
      elt_node_indices = map (\<lambda>k. [4 * int k, 4 * int k + 1, 4 * int k + 2, 4 * int k + 3]) [0 ..< 200],
      nodes = concat (map (\<lambda>n. [nA n, nB n, nC n, nD n]) big_tets),
      medium_names = [''water''],
      medium_indices = replicate 200 0,
      neighbours = replicate 200 [- 1, - 1, - 1, - 1],
      boundary_faces = replicate 800 True,
      face_normals = []\<rparr>"

definition big_root :: BoundingBox where
  "big_root = mk_box (- (1 / 10 ^ 8)) (2 + 1 / 10 ^ 8) (- (1 / 10 ^ 8)) (2 + 1 / 10 ^ 8)
                     (- (1 / 10 ^ 8)) (2 + 1 / 10 ^ 8)"

definition big_octant0 :: BoundingBox where
  "big_octant0 = mk_box (- (1 / 10 ^ 8)) 1 (- (1 / 10 ^ 8)) 1 (- (1 / 10 ^ 8)) 1"

definition big_p :: EGS_Vector where
  "big_p = Vec (1 - big_delta / 2) (1 - big_delta / 2) 0"

definition big_coords :: "EGS_Vector list" where
  "big_coords = concat (map (\<lambda>n. [nA n, nB n, nC n, nD n]) big_tets)"

definition big_nodes :: "MeshNode list" where
  "big_nodes = map (\<lambda>i. MeshNode (int i + 1) (vx (big_coords ! i)) (vy (big_coords ! i))
                            (vz (big_coords ! i))) [0 ..< 800]"

definition big_elements :: "Tetrahedron list" where
  "big_elements =
     map (\<lambda>k. Tetrahedron (int k + 1) 1 (4 * int k + 1) (4 * int k + 2) (4 * int k + 3)
                 (4 * int k + 4)) [0 ..< 200]"

definition big_ix :: "nat \<Rightarrow> int list" where
  "big_ix k = [4 * int k, 4 * int k + 1, 4 * int k + 2, 4 * int k + 3]"

definition big_volume_tree :: Node where
  "big_volume_tree = Node_ctor (map int [0 ..< 200]) big_root 200 big_data"

definition big_surface_tree :: Node where
  "big_surface_tree = Node_ctor (map int [0 ..< 200]) big_root 100 big_data"

definition big_mesh :: EGS_Mesh where
  "big_mesh = EGS_Mesh_data.extend (initializeNormals big_data)
                (EGS_Mesh.fields big_volume_tree big_surface_tree)"

definition big_q :: EGS_Vector where
  "big_q = Vec (1 - big_delta / 4) (1 - big_delta / 4) (1 / 4000000002)"

section \<open>Points strictly inside a tetrahedron\<close>

text \<open>
  A point is strictly inside a tetrahedron when it is a combination of the four nodes with
  positive weights that sum to \<open>1\<close>. The closed box is the one the octree computes the
  bounds of the mesh with, before \<^verbatim>\<open>expand\<close> makes it strict.
\<close>

definition bary_point :: "Nodes \<Rightarrow> EGS_Float \<Rightarrow> EGS_Float \<Rightarrow> EGS_Float \<Rightarrow> EGS_Float \<Rightarrow> EGS_Vector" where
  "bary_point n l0 l1 l2 l3 =
     vadd (vadd (vscale l0 (nA n)) (vscale l1 (nB n))) (vadd (vscale l2 (nC n)) (vscale l3 (nD n)))"

definition strictly_inside :: "EGS_Vector \<Rightarrow> Nodes \<Rightarrow> bool" where
  "strictly_inside p n \<longleftrightarrow>
     (\<exists>l0 l1 l2 l3. 0 < l0 \<and> 0 < l1 \<and> 0 < l2 \<and> 0 < l3 \<and> l0 + l1 + l2 + l3 = 1 \<and>
        p = bary_point n l0 l1 l2 l3)"

definition in_closed_box :: "BoundingBox \<Rightarrow> EGS_Vector \<Rightarrow> bool" where
  "in_closed_box bb p \<longleftrightarrow>
     min_x bb \<le> vx p \<and> vx p \<le> max_x bb \<and> min_y bb \<le> vy p \<and> vy p \<le> max_y bb \<and>
     min_z bb \<le> vz p \<and> vz p \<le> max_z bb"

section \<open>A mesh of two overlapping tetrahedra\<close>

text \<open>
  Two tetrahedra on the same face A, B, C, with the fourth node of the second above the
  fourth node of the first, so that the second contains the first.
\<close>

definition ov_elements :: "Tetrahedron list" where
  "ov_elements = [Tetrahedron 1 1 1 2 3 4, Tetrahedron 2 1 1 2 3 5]"

definition ov_nodes :: "MeshNode list" where
  "ov_nodes = [MeshNode 1 0 0 0, MeshNode 2 2 0 0, MeshNode 3 0 1 0, MeshNode 4 0 0 1,
               MeshNode 5 0 0 2]"

definition ov_data :: EGS_Mesh_data where
  "ov_data =
     \<lparr>elt_tags = [1, 2], elt_node_indices = [[0, 1, 2, 3], [0, 1, 2, 4]],
      nodes = [Vec 0 0 0, Vec 2 0 0, Vec 0 1 0, Vec 0 0 1, Vec 0 0 2],
      medium_names = [''water''], medium_indices = [0, 0],
      neighbours = [[- 1, - 1, - 1, 1], [- 1, - 1, - 1, 0]],
      boundary_faces = [True, True, True, False, True, True, True, False],
      face_normals = []\<rparr>"

definition ov_box :: BoundingBox where
  "ov_box = mk_box (- (1 / 10 ^ 8)) (2 + 1 / 10 ^ 8) (- (1 / 10 ^ 8)) (1 + 1 / 10 ^ 8)
                   (- (1 / 10 ^ 8)) (2 + 1 / 10 ^ 8)"

definition ov_mesh :: EGS_Mesh where
  "ov_mesh = EGS_Mesh_data.extend (initializeNormals ov_data)
               (EGS_Mesh.fields (Node [0, 1] [] ov_box) (Node [0, 1] [] ov_box))"

section \<open>Vector algebra\<close>

lemma vsub_sel [simp]: "vx (vsub a b) = vx a - vx b" "vy (vsub a b) = vy a - vy b" "vz (vsub a b) = vz a - vz b"
  by (simp_all add: vsub_def)

lemma vadd_sel [simp]: "vx (vadd a b) = vx a + vx b" "vy (vadd a b) = vy a + vy b" "vz (vadd a b) = vz a + vz b"
  by (simp_all add: vadd_def)

lemma vscale_sel [simp]: "vx (vscale k a) = k * vx a" "vy (vscale k a) = k * vy a" "vz (vscale k a) = k * vz a"
  by (simp_all add: vscale_def)

lemma cross_sel [simp]:
  "vx (cross a b) = vy a * vz b - vz a * vy b"
  "vy (cross a b) = vz a * vx b - vx a * vz b"
  "vz (cross a b) = vx a * vy b - vy a * vx b"
  by (simp_all add: cross_def)

lemma dot_vscale_left: "dot (vscale k a) b = k * dot a b"
  by (simp add: dot_def algebra_simps)

lemma dot_commute: "dot a b = dot b a"
  by (simp add: dot_def mult.commute)

lemma dot_point_along:
  "dot nn (vsub (vadd x (vscale d u)) p0) = dot nn (vsub x p0) + d * dot nn u"
  by (simp add: dot_def algebra_simps)




lemma dot_cross_left: "dot (cross a b) a = 0" "dot (cross a b) b = 0"
  by (simp_all add: dot_def algebra_simps)

lemma get_normal_orth:
  "dot (get_normal a b c d) (vsub b a) = 0" "dot (get_normal a b c d) (vsub c a) = 0"
  using dot_cross_left [of "vsub b a" "vsub c a"]
  by (simp_all add: get_normal_def Let_def normalize_def dot_vscale_left)

lemma get_normal_inward: "0 \<le> dot (get_normal a b c d) (vsub d a)"
  by (simp add: get_normal_def Let_def dot_vscale_left)

lemma get_normal_all_inward:
  "w \<in> {a, b, c, d} \<Longrightarrow> 0 \<le> dot (get_normal a b c d) (vsub w a)"
proof -
  have "dot (get_normal a b c d) (vsub a a) = 0" by (simp add: dot_def)
  then show "w \<in> {a, b, c, d} \<Longrightarrow> 0 \<le> dot (get_normal a b c d) (vsub w a)"
    using get_normal_orth [of a b c d] get_normal_inward [of a b c d] by auto
qed

section \<open>What the constructor builds\<close>

lemma extend_sel:
  "nodes (EGS_Mesh_data.extend r (EGS_Mesh.fields vt st)) = nodes r"
  "elt_node_indices (EGS_Mesh_data.extend r (EGS_Mesh.fields vt st)) = elt_node_indices r"
  "elt_tags (EGS_Mesh_data.extend r (EGS_Mesh.fields vt st)) = elt_tags r"
  "neighbours (EGS_Mesh_data.extend r (EGS_Mesh.fields vt st)) = neighbours r"
  "boundary_faces (EGS_Mesh_data.extend r (EGS_Mesh.fields vt st)) = boundary_faces r"
  "face_normals (EGS_Mesh_data.extend r (EGS_Mesh.fields vt st)) = face_normals r"
  "volume_tree (EGS_Mesh_data.extend r (EGS_Mesh.fields vt st)) = vt"
  "surface_tree (EGS_Mesh_data.extend r (EGS_Mesh.fields vt st)) = st"
  by (simp_all add: EGS_Mesh_data.defs EGS_Mesh.defs)

lemma element_nodes_cong:
  "elt_node_indices m = elt_node_indices m' \<Longrightarrow> nodes m = nodes m' \<Longrightarrow>
   element_nodes m = element_nodes m'"
  by (rule ext) (simp add: element_nodes_def)

lemma initializeElements_fields:
  assumes "initializeElements els nds mats = Inr m"
  shows "elt_tags m = map t_tag els" "nodes m = map (\<lambda>n. Vec (n_x n) (n_y n) (n_z n)) nds"
  using assms by (auto simp: initializeElements_def Let_def split: if_splits sum.splits)

lemma initializeNeighbours_fields:
  assumes "initializeNeighbours m = Inr m'"
  shows "elt_tags m' = elt_tags m" "nodes m' = nodes m" "elt_node_indices m' = elt_node_indices m"
  using assms by (auto simp: initializeNeighbours_def split: sum.splits)

lemma initializeNormals_fields:
  "elt_tags (initializeNormals m) = elt_tags m" "nodes (initializeNormals m) = nodes m"
  "elt_node_indices (initializeNormals m) = elt_node_indices m"
  "neighbours (initializeNormals m) = neighbours m"
  "boundary_faces (initializeNormals m) = boundary_faces m"
  "face_normals (initializeNormals m) =
     map (\<lambda>i. element_normals (element_nodes m (int i))) [0 ..< nat (num_elements m)]"
  by (simp_all add: initializeNormals_def)

lemma ctor_cases:
  assumes "EGS_Mesh_ctor els nds mats = Inr m"
  obtains m1 m2 vt st where
    "initializeElements els nds mats = Inr m1"
    "initializeNeighbours m1 = Inr m2"
    "initializeOctrees m2 = Inr (vt, st)"
    "m = EGS_Mesh_data.extend (initializeNormals m2) (EGS_Mesh.fields vt st)"
  using assms by (auto simp: EGS_Mesh_ctor_def split: sum.splits)

lemma ctor_num_elements:
  assumes "EGS_Mesh_ctor els nds mats = Inr m"
  shows "num_elements m = int (length els)"
  using assms
  by (elim ctor_cases)
     (simp add: num_elements_def extend_sel initializeNormals_fields
        initializeNeighbours_fields initializeElements_fields)


section \<open>The constructor on the one-tetrahedron mesh\<close>

lemma ex_initializeElements:
  "initializeElements ex_elements ex_nodes ex_media =
     Inr \<lparr>elt_tags = [1], elt_node_indices = [[0, 1, 2, 3]],
          nodes = [Vec 0 0 0, Vec 2 0 0, Vec 0 1 0, Vec 0 0 1],
          medium_names = [''water''], medium_indices = [0],
          neighbours = [], boundary_faces = [], face_normals = []\<rparr>"
  by (simp add: initializeElements_def ex_elements_def ex_nodes_def ex_media_def int_max_def
      map_insert_def element_indices_def find_node_def Let_def)

lemma ex_neighbours: "tetrahedron_neighbours [[0, 1, 2, 3]] = Inr [[NONE, NONE, NONE, NONE]]"
  by (simp add: tetrahedron_neighbours_def all_faces_def face_neighbour_def face_key_def Let_def)

lemma ex_initializeNeighbours:
  "initializeNeighbours
     \<lparr>elt_tags = [1], elt_node_indices = [[0, 1, 2, 3]],
      nodes = [Vec 0 0 0, Vec 2 0 0, Vec 0 1 0, Vec 0 0 1],
      medium_names = [''water''], medium_indices = [0],
      neighbours = [], boundary_faces = [], face_normals = []\<rparr> = Inr ex_data"
  by (simp add: initializeNeighbours_def ex_neighbours ex_data_def NONE_def)

lemma ex_data_element_nodes:
  "element_nodes ex_data 0 = Nodes (Vec 0 0 0) (Vec 2 0 0) (Vec 0 1 0) (Vec 0 0 1)"
  by (simp add: element_nodes_def ex_data_def)

lemma ex_g_bounds: "expand (g_bounds [0] ex_data) (1 / 100000000) = ex_box"
  by (simp add: g_bounds_def ex_data_element_nodes tet_box_def expand_def mk_box_def ex_box_def)

lemma ex_initializeOctrees:
  "initializeOctrees ex_data = Inr (Node [0] [] ex_box, Node [0] [] ex_box)"
proof -
  have n: "num_elements ex_data = 1" by (simp add: num_elements_def ex_data_def)
  have b: "is_boundary ex_data 0" by (simp add: is_boundary_def ex_data_def)
  have t1: "EGS_Mesh_Octree [0] 200 ex_data = Inr (Node [0] [] ex_box)"
    by (simp add: EGS_Mesh_Octree_def int_max_def ex_g_bounds Node_ctor.simps)
  have t2: "EGS_Mesh_Octree [0] 100 ex_data = Inr (Node [0] [] ex_box)"
    by (simp add: EGS_Mesh_Octree_def int_max_def ex_g_bounds Node_ctor.simps)
  show ?thesis
    by (simp add: initializeOctrees_def n b t1 t2 Let_def)
qed

lemma ex_normals:
  "element_normals (Nodes (Vec 0 0 0) (Vec 2 0 0) (Vec 0 1 0) (Vec 0 0 1)) =
     [Vec (- (1 / 3)) (- (2 / 3)) (- (2 / 3)), Vec 1 0 0, Vec 0 1 0, Vec 0 0 1]"
  by (simp add: element_normals_def get_normal_def normalize_def vlength_def length2_def
      dot_def vscale_def Let_def)

lemma ex_initializeNormals:
  "EGS_Mesh_data.extend (initializeNormals ex_data)
     (EGS_Mesh.fields (Node [0] [] ex_box) (Node [0] [] ex_box)) = ex_mesh"
proof -
  have n: "num_elements ex_data = 1" by (simp add: num_elements_def ex_data_def)
  have "initializeNormals ex_data =
      ex_data\<lparr>face_normals :=
        [[Vec (- (1 / 3)) (- (2 / 3)) (- (2 / 3)), Vec 1 0 0, Vec 0 1 0, Vec 0 0 1]]\<rparr>"
    by (simp add: initializeNormals_def n ex_data_element_nodes ex_normals)
  then show ?thesis
    by (simp add: ex_mesh_def ex_data_def EGS_Mesh_data.defs EGS_Mesh.defs)
qed

lemma ex_ctor_eq: "EGS_Mesh_ctor ex_elements ex_nodes ex_media = Inr ex_mesh"
  by (simp add: EGS_Mesh_ctor_def ex_initializeElements ex_initializeNeighbours
      ex_initializeOctrees ex_initializeNormals)

lemma ex_mesh_element_nodes:
  "element_nodes ex_mesh 0 = Nodes (Vec 0 0 0) (Vec 2 0 0) (Vec 0 1 0) (Vec 0 0 1)"
  by (simp add: element_nodes_def ex_mesh_def)

lemma ex_mesh_num_elements: "num_elements ex_mesh = 1"
  by (simp add: num_elements_def ex_mesh_def)

lemma ex_face_nodes:
  "face_nodes (element_nodes ex_mesh 0) =
     [[Vec 2 0 0, Vec 0 1 0, Vec 0 0 1], [Vec 0 0 0, Vec 0 1 0, Vec 0 0 1],
      [Vec 0 0 0, Vec 2 0 0, Vec 0 0 1], [Vec 0 0 0, Vec 2 0 0, Vec 0 1 0]]"
  by (simp add: ex_mesh_element_nodes face_nodes_def)

lemma ex_mesh_face_normals:
  "face_normals ex_mesh ! 0 =
     [Vec (- (1 / 3)) (- (2 / 3)) (- (2 / 3)), Vec 1 0 0, Vec 0 1 0, Vec 0 0 1]"
  by (simp add: ex_mesh_def)

lemma ex_neighbours_mesh: "neighbours ex_mesh ! 0 = [- 1, - 1, - 1, - 1]"
  by (simp add: ex_mesh_def)

lemma less4_cases: "i < (4::nat) \<Longrightarrow> i = 0 \<or> i = 1 \<or> i = 2 \<or> i = 3"
  by linarith

section \<open>The constructor on the two tetrahedra that share a face\<close>

lemma tw_initializeElements:
  "initializeElements tw_elements tw_nodes ex_media =
     Inr \<lparr>elt_tags = [1, 2], elt_node_indices = [[0, 1, 2, 3], [0, 1, 2, 4]],
          nodes = [Vec 0 0 0, Vec 2 0 0, Vec 0 1 0, Vec 0 0 1, Vec 0 0 (- 1)],
          medium_names = [''water''], medium_indices = [0, 0],
          neighbours = [], boundary_faces = [], face_normals = []\<rparr>"
  by (simp add: initializeElements_def tw_elements_def tw_nodes_def ex_media_def int_max_def
      map_insert_def element_indices_def find_node_def Let_def)

lemma tw_neighbours:
  "tetrahedron_neighbours [[0, 1, 2, 3], [0, 1, 2, 4]] =
     Inr [[NONE, NONE, NONE, 1], [NONE, NONE, NONE, 0]]"
  by (simp add: tetrahedron_neighbours_def all_faces_def face_neighbour_def face_key_def Let_def)

lemma tw_initializeNeighbours:
  "initializeNeighbours
     \<lparr>elt_tags = [1, 2], elt_node_indices = [[0, 1, 2, 3], [0, 1, 2, 4]],
      nodes = [Vec 0 0 0, Vec 2 0 0, Vec 0 1 0, Vec 0 0 1, Vec 0 0 (- 1)],
      medium_names = [''water''], medium_indices = [0, 0],
      neighbours = [], boundary_faces = [], face_normals = []\<rparr> = Inr tw_data"
  by (simp add: initializeNeighbours_def tw_neighbours tw_data_def NONE_def)

lemma tw_data_element_nodes:
  "element_nodes tw_data 0 = Nodes (Vec 0 0 0) (Vec 2 0 0) (Vec 0 1 0) (Vec 0 0 1)"
  "element_nodes tw_data 1 = Nodes (Vec 0 0 0) (Vec 2 0 0) (Vec 0 1 0) (Vec 0 0 (- 1))"
  by (simp_all add: element_nodes_def tw_data_def)

lemma tw_g_bounds: "expand (g_bounds [0, 1] tw_data) (1 / 100000000) = tw_box"
  by (simp add: g_bounds_def tw_data_element_nodes tet_box_def widen_def expand_def mk_box_def
      tw_box_def)

lemma tw_initializeOctrees:
  "initializeOctrees tw_data = Inr (Node [0, 1] [] tw_box, Node [0, 1] [] tw_box)"
proof -
  have n: "num_elements tw_data = 2" by (simp add: num_elements_def tw_data_def)
  have u: "[0 ..< 2] = [0, 1]" by (simp add: upt_rec)
  have b: "is_boundary tw_data 0" "is_boundary tw_data 1"
    by (simp_all add: is_boundary_def tw_data_def)
  have t1: "EGS_Mesh_Octree [0, 1] 200 tw_data = Inr (Node [0, 1] [] tw_box)"
    by (simp add: EGS_Mesh_Octree_def int_max_def tw_g_bounds Node_ctor.simps)
  have t2: "EGS_Mesh_Octree [0, 1] 100 tw_data = Inr (Node [0, 1] [] tw_box)"
    by (simp add: EGS_Mesh_Octree_def int_max_def tw_g_bounds Node_ctor.simps)
  show ?thesis
    by (simp add: initializeOctrees_def n u b t1 t2 Let_def)
qed

lemma tw_normals:
  "element_normals (Nodes (Vec 0 0 0) (Vec 2 0 0) (Vec 0 1 0) (Vec 0 0 (- 1))) =
     [Vec (- (1 / 3)) (- (2 / 3)) (2 / 3), Vec 1 0 0, Vec 0 1 0, Vec 0 0 (- 1)]"
  by (simp add: element_normals_def get_normal_def normalize_def vlength_def length2_def
      dot_def vscale_def Let_def)

lemma tw_initializeNormals:
  "EGS_Mesh_data.extend (initializeNormals tw_data)
     (EGS_Mesh.fields (Node [0, 1] [] tw_box) (Node [0, 1] [] tw_box)) = tw_mesh"
proof -
  have n: "num_elements tw_data = 2" by (simp add: num_elements_def tw_data_def)
  have u: "[0 ..< 2] = [0, 1]" by (simp add: upt_rec)
  have "initializeNormals tw_data =
      tw_data\<lparr>face_normals :=
        [[Vec (- (1 / 3)) (- (2 / 3)) (- (2 / 3)), Vec 1 0 0, Vec 0 1 0, Vec 0 0 1],
         [Vec (- (1 / 3)) (- (2 / 3)) (2 / 3), Vec 1 0 0, Vec 0 1 0, Vec 0 0 (- 1)]]\<rparr>"
    by (simp add: initializeNormals_def n u tw_data_element_nodes ex_normals tw_normals)
  then show ?thesis
    by (simp add: tw_mesh_def tw_data_def EGS_Mesh_data.defs EGS_Mesh.defs)
qed

lemma tw_ctor_eq: "EGS_Mesh_ctor tw_elements tw_nodes ex_media = Inr tw_mesh"
  by (simp add: EGS_Mesh_ctor_def tw_initializeElements tw_initializeNeighbours
      tw_initializeOctrees tw_initializeNormals)

lemma tw_mesh_num_elements: "num_elements tw_mesh = 2"
  by (simp add: num_elements_def tw_mesh_def)

lemma tw_face_nodes:
  "face_nodes (element_nodes tw_mesh 0) =
     [[Vec 2 0 0, Vec 0 1 0, Vec 0 0 1], [Vec 0 0 0, Vec 0 1 0, Vec 0 0 1],
      [Vec 0 0 0, Vec 2 0 0, Vec 0 0 1], [Vec 0 0 0, Vec 2 0 0, Vec 0 1 0]]"
  by (simp add: element_nodes_def tw_mesh_def face_nodes_def)

lemma tw_mesh_face_normals:
  "face_normals tw_mesh ! 0 =
     [Vec (- (1 / 3)) (- (2 / 3)) (- (2 / 3)), Vec 1 0 0, Vec 0 1 0, Vec 0 0 1]"
  by (simp add: tw_mesh_def)

lemma tw_neighbours_mesh: "neighbours tw_mesh ! 0 = [- 1, - 1, - 1, 1]"
  by (simp add: tw_mesh_def)

section \<open>The constructor on the flat tetrahedron\<close>









section \<open>The out-parameter of the interior ray-triangle test\<close>

lemma interior_hit_iff:
  "fst (interior_triangle_ray_intersection p v n a b c dist0) \<longleftrightarrow>
     reaches_distance p v n a b c \<and> 0 \<le> mt_dist p v a b c"
  by (auto simp: interior_triangle_ray_intersection_def reaches_distance_def Let_def)

lemma interior_hit_dist:
  "fst (interior_triangle_ray_intersection p v n a b c dist0) \<Longrightarrow>
     snd (interior_triangle_ray_intersection p v n a b c dist0) = mt_dist p v a b c"
  by (auto simp: interior_triangle_ray_intersection_def Let_def split: if_splits)

text \<open>
  C10. When the computed parametric distance is negative the test reports no hit and
  leaves \<open>0\<close> in \<^verbatim>\<open>dist\<close>; in every other no-hit branch \<^verbatim>\<open>dist\<close> keeps the value
  it had at the call; a hit stores the computed distance.
\<close>

theorem interior_triangle_ray_intersection_dist_out:
  "interior_triangle_ray_intersection p v n a b c dist0 =
     (if reaches_distance p v n a b c
      then (if mt_dist p v a b c < 0 then (False, 0) else (True, mt_dist p v a b c))
      else (False, dist0))"
  by (auto simp: interior_triangle_ray_intersection_def reaches_distance_def Let_def)

section \<open>Stored face normals\<close>




section \<open>The distance to the nearest face plane of a region\<close>










section \<open>The loop over the faces of a region\<close>

lemma interior_fst_indep:
  "fst (interior_triangle_ray_intersection p v n a b c d0) =
   fst (interior_triangle_ray_intersection p v n a b c d1)"
  by (simp add: interior_hit_iff)

lemma loop_step_skip:
  assumes "\<not> qualifies m r x u i"
  shows "\<exists>d'. howfar_interior_loop m hbt r x u t (i # fs) lost d0 =
              howfar_interior_loop m hbt r x u t fs lost d'"
proof -
  let ?fn = "face_normals m ! nat r ! i"
  let ?f = "face_nodes (element_nodes m r) ! i"
  let ?res = "interior_triangle_ray_intersection x u ?fn (?f ! 0) (?f ! 1) (?f ! 2) d0"
  from assms have nq: "\<not> (dot ?fn (vsub x (?f ! 0)) \<ge> 0) \<or> \<not> fst ?res"
    using interior_fst_indep [of x u ?fn "?f ! 0" "?f ! 1" "?f ! 2" d0 0]
    by (simp add: qualifies_def Let_def)
  show ?thesis
  proof (cases "dot ?fn (vsub x (?f ! 0)) \<ge> 0")
    case False
    then show ?thesis by (auto simp: Let_def)
  next
    case True
    with nq have "\<not> fst ?res" by simp
    with True show ?thesis
      by (cases ?res) (auto simp: Let_def)
  qed
qed

lemma loop_step_qualifies:
  assumes "qualifies m r x u i"
  shows "howfar_interior_loop m hbt r x u t (i # fs) lost d0 =
          (if face_distance m r x u i > t
           then howfar_interior_loop m hbt r x u t fs False (face_distance m r x u i)
           else (Some (i, if face_distance m r x u i \<le> hbt then 0 else face_distance m r x u i),
                 False))"
proof -
  let ?fn = "face_normals m ! nat r ! i"
  let ?f = "face_nodes (element_nodes m r) ! i"
  let ?res = "interior_triangle_ray_intersection x u ?fn (?f ! 0) (?f ! 1) (?f ! 2) d0"
  from assms have q: "dot ?fn (vsub x (?f ! 0)) \<ge> 0" "fst ?res"
    using interior_fst_indep [of x u ?fn "?f ! 0" "?f ! 1" "?f ! 2" d0 0]
    by (simp_all add: qualifies_def Let_def)
  have d: "snd ?res = face_distance m r x u i"
    using interior_hit_dist [OF q(2)] by (simp add: face_distance_def Let_def)
  have res: "?res = (True, face_distance m r x u i)"
    using q(2) d by (cases ?res) simp
  show ?thesis
    using q(1) res by (simp add: Let_def)
qed

lemma howfar_interior_loop_find:
  "howfar_interior_loop m hbt r x u t fs lost d0 =
    (case find (\<lambda>i. qualifies m r x u i \<and> face_distance m r x u i \<le> t) fs of
       Some i \<Rightarrow> (Some (i, if face_distance m r x u i \<le> hbt then 0 else face_distance m r x u i), False)
     | None \<Rightarrow> (None, lost \<and> \<not> list_ex (qualifies m r x u) fs))"
proof (induction fs arbitrary: lost d0)
  case Nil
  show ?case by simp
next
  case (Cons i fs)
  show ?case
  proof (cases "qualifies m r x u i")
    case False
    obtain d' where "howfar_interior_loop m hbt r x u t (i # fs) lost d0 =
        howfar_interior_loop m hbt r x u t fs lost d'"
      using loop_step_skip [OF False] by blast
    also have "\<dots> =
      (case find (\<lambda>i. qualifies m r x u i \<and> face_distance m r x u i \<le> t) fs of
         Some i \<Rightarrow> (Some (i, if face_distance m r x u i \<le> hbt then 0 else face_distance m r x u i), False)
       | None \<Rightarrow> (None, lost \<and> \<not> list_ex (qualifies m r x u) fs))"
      by (rule Cons.IH)
    also have "\<dots> =
      (case find (\<lambda>i. qualifies m r x u i \<and> face_distance m r x u i \<le> t) (i # fs) of
         Some i \<Rightarrow> (Some (i, if face_distance m r x u i \<le> hbt then 0 else face_distance m r x u i), False)
       | None \<Rightarrow> (None, lost \<and> \<not> list_ex (qualifies m r x u) (i # fs)))"
      using False by (simp split: option.splits)
    finally show ?thesis .
  next
    case True
    show ?thesis
      using True
      by (simp add: loop_step_qualifies [OF True] Cons.IH del: howfar_interior_loop.simps
          split: option.splits)
  qed
qed

lemma qualifies_reaches:
  "qualifies m r x u i \<Longrightarrow>
   reaches_distance x u (face_normals m ! nat r ! i)
     (face_nodes (element_nodes m r) ! i ! 0) (face_nodes (element_nodes m r) ! i ! 1)
     (face_nodes (element_nodes m r) ! i ! 2)"
  by (simp add: qualifies_def Let_def interior_hit_iff)

lemma ex_qualifies:
  "\<not> qualifies ex_mesh 0 ex_x ex_u 0" "\<not> qualifies ex_mesh 0 ex_x ex_u 1"
  "\<not> qualifies ex_mesh 0 ex_x ex_u 2" "qualifies ex_mesh 0 ex_x ex_u 3"
  by (simp_all add: qualifies_def ex_face_nodes ex_mesh_face_normals interior_hit_iff
      reaches_distance_def mt_det_def mt_u_def mt_v_def mt_dist_def dot_def ray_eps_def
      ex_x_def ex_u_def)

lemma ex_face_distance: "face_distance ex_mesh 0 ex_x ex_u 3 = 1 / 2000"
  by (simp add: face_distance_def ex_face_nodes mt_det_def mt_dist_def dot_def ex_x_def ex_u_def)

lemma ex_qualifies_Suc: "\<not> qualifies ex_mesh 0 ex_x ex_u (Suc 0)"
  using ex_qualifies(2) by simp

lemma ex_find:
  "find (\<lambda>i. qualifies ex_mesh 0 ex_x ex_u i \<and> face_distance ex_mesh 0 ex_x ex_u i \<le> t)
     [0, 1, 2, 3] = (if 1 / 2000 \<le> t then Some 3 else None)"
  "list_ex (qualifies ex_mesh 0 ex_x ex_u) [0, 1, 2, 3]"
  using ex_qualifies ex_face_distance by (simp_all add: ex_qualifies_Suc)

text \<open>
  The loop as a search: \<^verbatim>\<open>howfar_interior\<close> returns through the first of the faces
  \<open>0\<close>, \<open>1\<close>, \<open>2\<close>, \<open>3\<close> that qualifies at a distance within \<^verbatim>\<open>t\<close>.
\<close>

lemma all_less_3: "(\<forall>k<(3::nat). P k) \<longleftrightarrow> P 0 \<and> P 1 \<and> P 2"
proof
  assume a: "\<forall>k<3. P k"
  have "(0::nat) < 3" "(1::nat) < 3" "(2::nat) < 3" by simp_all
  with a show "P 0 \<and> P 1 \<and> P 2" by blast
next
  assume a: "P 0 \<and> P 1 \<and> P 2"
  show "\<forall>k<3. P k"
  proof (intro allI impI)
    fix k :: nat assume "k < 3"
    then consider "k = 0" | "k = 1" | "k = 2" by linarith
    then show "P k" using a by cases simp_all
  qed
qed

lemma find_first_face:
  "find P [0, 1, 2, 3] = Some i \<longleftrightarrow> i < (4::nat) \<and> P i \<and> (\<forall>k<i. \<not> P k)"
proof -
  define xs :: "nat list" where "xs = [0, 1, 2, 3]"
  have len: "length xs = 4" by (simp add: xs_def)
  have ix: "xs ! j = j" if "j < 4" for j
  proof -
    from that consider "j = 0" | "j = 1" | "j = 2" | "j = 3" by linarith
    then show ?thesis by cases (simp_all add: xs_def)
  qed
  have "find P xs = Some i \<longleftrightarrow> i < 4 \<and> P i \<and> (\<forall>k<i. \<not> P k)"
  proof
    assume "find P xs = Some i"
    then obtain j where j: "j < length xs" "P (xs ! j)" "i = xs ! j" "\<forall>k<j. \<not> P (xs ! k)"
      unfolding find_Some_iff by blast
    from j(1) have j4: "j < 4" by (simp only: len)
    from j(3) j4 have ij: "i = j" by (simp only: ix)
    have "\<not> P k" if "k < j" for k
    proof -
      from that j4 have "k < 4" by simp
      then have "xs ! k = k" by (rule ix)
      with j(4) that show ?thesis by auto
    qed
    with j(2) j4 show "i < 4 \<and> P i \<and> (\<forall>k<i. \<not> P k)"
      unfolding ij by (simp add: ix)
  next
    assume a: "i < 4 \<and> P i \<and> (\<forall>k<i. \<not> P k)"
    have "\<not> P (xs ! k)" if "k < i" for k
    proof -
      from that a have "k < 4" by simp
      then have "xs ! k = k" by (rule ix)
      with a that show ?thesis by auto
    qed
    moreover from a have "xs ! i = i" by (intro ix) simp
    ultimately have "i < length xs \<and> P (xs ! i) \<and> i = xs ! i \<and> (\<forall>k<i. \<not> P (xs ! k))"
      using a by (simp add: len)
    then show "find P xs = Some i"
      unfolding find_Some_iff by blast
  qed
  then show ?thesis by (simp only: xs_def)
qed

lemma howfar_interior_find:
  "howfar_interior m hbt r x u t =
    (case find (\<lambda>i. qualifies m r x u i \<and> face_distance m r x u i \<le> t) [0, 1, 2, 3] of
       Some i \<Rightarrow>
         Inr \<lparr>hf_newreg = neighbours m ! nat r ! i,
              hf_t = (if face_distance m r x u i \<le> hbt then 0 else face_distance m r x u i),
              hf_face = Some i\<rparr>
     | None \<Rightarrow>
         if list_ex (qualifies m r x u) [0, 1, 2, 3]
         then Inr \<lparr>hf_newreg = r, hf_t = t, hf_face = None\<rparr>
         else case howfar_interior_find_lost_particle m r x of
                Inl err \<Rightarrow> Inl err
              | Inr newreg \<Rightarrow> Inr \<lparr>hf_newreg = newreg, hf_t = 0, hf_face = None\<rparr>)"
  unfolding howfar_interior_def howfar_interior_loop_find
  by (simp del: find.simps split: option.splits)

lemma howfar_interior_reports_iff:
  "howfar_interior m hbt r x u t = Inr res \<and> hf_face res = Some i \<longleftrightarrow>
     find (\<lambda>i. qualifies m r x u i \<and> face_distance m r x u i \<le> t) [0, 1, 2, 3] = Some i \<and>
     res = \<lparr>hf_newreg = neighbours m ! nat r ! i,
            hf_t = (if face_distance m r x u i \<le> hbt then 0 else face_distance m r x u i),
            hf_face = Some i\<rparr>"
  unfolding howfar_interior_find
  by (auto simp del: find.simps split: option.splits sum.splits)

lemma howfar_interior_first:
  assumes "i < 4" and "qualifies m r x u i" and "face_distance m r x u i \<le> t"
    and "\<forall>k<i. \<not> (qualifies m r x u k \<and> face_distance m r x u k \<le> t)"
  shows "howfar_interior m hbt r x u t =
           Inr \<lparr>hf_newreg = neighbours m ! nat r ! i,
                hf_t = (if face_distance m r x u i \<le> hbt then 0 else face_distance m r x u i),
                hf_face = Some i\<rparr>"
proof -
  have "find (\<lambda>i. qualifies m r x u i \<and> face_distance m r x u i \<le> t) [0, 1, 2, 3] = Some i"
    unfolding find_first_face using assms by blast
  then show ?thesis
    unfolding howfar_interior_find by simp
qed

lemma edge_qualifies:
  "qualifies ex_mesh 0 edge_x edge_u 0" "qualifies ex_mesh 0 edge_x edge_u 1"
  by (simp_all add: qualifies_def ex_face_nodes ex_mesh_face_normals interior_hit_iff
      reaches_distance_def mt_det_def mt_u_def mt_v_def mt_dist_def dot_def cross_def ray_eps_def
      edge_x_def edge_u_def)

lemma edge_face_distance:
  "face_distance ex_mesh 0 edge_x edge_u 0 = 1 / 3" "face_distance ex_mesh 0 edge_x edge_u 1 = 1 / 3"
  by (simp_all add: face_distance_def ex_face_nodes mt_det_def mt_dist_def dot_def cross_def
      edge_x_def edge_u_def)

text \<open>
  C2 (as amended). \<^verbatim>\<open>howfar_interior\<close> reports face \<open>i\<close> exactly when \<open>i\<close> is the first
  of the four faces, in the order B, C, D; A, C, D; A, B, D; A, B, C, that qualifies at a
  distance within \<^verbatim>\<open>t\<close>; it then returns the neighbour across that face and reports the
  distance of that face, or \<open>0\<close> when that distance is at or below the half-boundary
  tolerance. Nothing is said of the distances of the other qualifying faces. In the instance
  below the ray is aimed at the edge that faces \<open>0\<close> and \<open>1\<close> share: both qualify, and face
  \<open>0\<close> is reported.
\<close>

theorem howfar_interior_first_qualifying_face:
  "howfar_interior m hbt r x u t = Inr res \<and> hf_face res = Some i \<longleftrightarrow>
     i < 4 \<and> qualifies m r x u i \<and> face_distance m r x u i \<le> t \<and>
     (\<forall>k<i. \<not> (qualifies m r x u k \<and> face_distance m r x u k \<le> t)) \<and>
     res = \<lparr>hf_newreg = neighbours m ! nat r ! i,
            hf_t = (if face_distance m r x u i \<le> hbt then 0 else face_distance m r x u i),
            hf_face = Some i\<rparr>"
  unfolding howfar_interior_reports_iff find_first_face by blast

theorem howfar_interior_first_qualifying_face_witness:
  "qualifies ex_mesh 0 edge_x edge_u 0 \<and> face_distance ex_mesh 0 edge_x edge_u 0 = 1 / 3 \<and>
   qualifies ex_mesh 0 edge_x edge_u 1 \<and> face_distance ex_mesh 0 edge_x edge_u 1 = 1 / 3 \<and>
   howfar_interior ex_mesh (1 / 1000) 0 edge_x edge_u 1 =
     Inr \<lparr>hf_newreg = - 1, hf_t = 1 / 3, hf_face = Some 0\<rparr>"
proof -
  have "howfar_interior ex_mesh (1 / 1000) 0 edge_x edge_u 1 =
      Inr \<lparr>hf_newreg = - 1, hf_t = 1 / 3, hf_face = Some 0\<rparr> \<and>
      hf_face \<lparr>hf_newreg = - 1, hf_t = 1 / 3, hf_face = Some 0\<rparr> = Some 0"
    unfolding howfar_interior_first_qualifying_face
    by (simp add: edge_qualifies edge_face_distance ex_neighbours_mesh)
  then have "howfar_interior ex_mesh (1 / 1000) 0 edge_x edge_u 1 =
      Inr \<lparr>hf_newreg = - 1, hf_t = 1 / 3, hf_face = Some 0\<rparr>" ..
  with edge_qualifies edge_face_distance show ?thesis by blast
qed

text \<open>
  The claim as stated fails: with a tolerance of \<open>1/1000\<close>, face 3 of the one-tetrahedron
  mesh is the only face that qualifies, at distance \<open>1/2000\<close>, and the distance reported
  is \<open>0\<close>.
\<close>

theorem howfar_interior_distance_counterexample:
  "EGS_Mesh_ctor ex_elements ex_nodes ex_media = Inr ex_mesh \<and>
   \<not> qualifies ex_mesh 0 ex_x ex_u 0 \<and> \<not> qualifies ex_mesh 0 ex_x ex_u 1 \<and>
   \<not> qualifies ex_mesh 0 ex_x ex_u 2 \<and> qualifies ex_mesh 0 ex_x ex_u 3 \<and>
   face_distance ex_mesh 0 ex_x ex_u 3 = 1 / 2000 \<and>
   howfar_interior ex_mesh (1 / 1000) 0 ex_x ex_u 1 =
     Inr \<lparr>hf_newreg = - 1, hf_t = 0, hf_face = Some 3\<rparr>"
proof -
  have "howfar_interior ex_mesh (1 / 1000) 0 ex_x ex_u 1 =
     Inr \<lparr>hf_newreg = - 1, hf_t = 0, hf_face = Some 3\<rparr>"
    unfolding howfar_interior_def howfar_interior_loop_find ex_find
    by (simp add: ex_face_distance ex_neighbours_mesh)
  then show ?thesis
    using ex_ctor_eq ex_qualifies ex_face_distance by simp
qed

text \<open>
  The two tetrahedra that share the face A, B, C, for a particle in region \<open>0\<close>: the
  faces that qualify, and their distances, for the position \<open>1/2000\<close> above the shared
  face and the position on it, and a particle that moves straight down, across the face
  at an angle, or into region \<open>0\<close>.
\<close>

lemma tw_qualifies_down:
  "\<not> qualifies tw_mesh 0 x ex_u 0" "\<not> qualifies tw_mesh 0 x ex_u 1"
  "\<not> qualifies tw_mesh 0 x ex_u 2"
  by (simp_all add: qualifies_def tw_face_nodes tw_mesh_face_normals interior_hit_iff
      reaches_distance_def dot_def ray_eps_def ex_u_def)

lemma tw_ex_x:
  "qualifies tw_mesh 0 ex_x ex_u 3" "face_distance tw_mesh 0 ex_x ex_u 3 = 1 / 2000"
  by (simp_all add: qualifies_def face_distance_def tw_face_nodes tw_mesh_face_normals
      interior_hit_iff reaches_distance_def mt_det_def mt_u_def mt_v_def mt_dist_def dot_def
      cross_def ray_eps_def ex_x_def ex_u_def)

lemma tw_shared_x:
  "qualifies tw_mesh 0 shared_x ex_u 3" "face_distance tw_mesh 0 shared_x ex_u 3 = 0"
  by (simp_all add: qualifies_def face_distance_def tw_face_nodes tw_mesh_face_normals
      interior_hit_iff reaches_distance_def mt_det_def mt_u_def mt_v_def mt_dist_def dot_def
      cross_def ray_eps_def shared_x_def ex_u_def)

lemma tw_oblique:
  "\<not> qualifies tw_mesh 0 near_x oblique_u 0" "\<not> qualifies tw_mesh 0 near_x oblique_u 1"
  "\<not> qualifies tw_mesh 0 near_x oblique_u 2" "qualifies tw_mesh 0 near_x oblique_u 3"
  "face_distance tw_mesh 0 near_x oblique_u 3 = 1 / 560"
  by (simp_all add: qualifies_def face_distance_def tw_face_nodes tw_mesh_face_normals
      interior_hit_iff reaches_distance_def mt_det_def mt_u_def mt_v_def mt_dist_def dot_def
      cross_def ray_eps_def near_x_def oblique_u_def)

lemma tw_inward:
  "qualifies tw_mesh 0 shared_x inward_u 0" "face_distance tw_mesh 0 shared_x inward_u 0 = 5 / 8"
  "\<not> qualifies tw_mesh 0 shared_x inward_u 3"
  by (simp_all add: qualifies_def face_distance_def tw_face_nodes tw_mesh_face_normals
      interior_hit_iff reaches_distance_def mt_det_def mt_u_def mt_v_def mt_dist_def dot_def
      cross_def ray_eps_def shared_x_def inward_u_def)

lemma tw_oblique_howfar:
  "howfar_interior tw_mesh (1 / 1000) 0 near_x oblique_u 1 =
     Inr \<lparr>hf_newreg = 1, hf_t = 1 / 560, hf_face = Some 3\<rparr>"
proof -
  have "\<forall>k<3. \<not> (qualifies tw_mesh 0 near_x oblique_u k \<and>
      face_distance tw_mesh 0 near_x oblique_u k \<le> 1)"
    unfolding all_less_3 using tw_oblique(1-3) by blast
  from howfar_interior_first [OF _ tw_oblique(4) _ this, of "1 / 1000"]
  show ?thesis by (simp add: tw_oblique(5) tw_neighbours_mesh)
qed

lemma tw_inward_howfar:
  "howfar_interior tw_mesh (1 / 1000) 0 shared_x inward_u 1 =
     Inr \<lparr>hf_newreg = - 1, hf_t = 5 / 8, hf_face = Some 0\<rparr>"
  using howfar_interior_first [OF _ tw_inward(1), of 1 "1 / 1000"]
  by (simp add: tw_inward(2) tw_neighbours_mesh)

text \<open>
  C6 (as amended). Whenever the face \<^verbatim>\<open>howfar_interior\<close> returns through, the first that
  qualifies at a distance within \<^verbatim>\<open>t\<close>, has a distance at or below the half-boundary
  tolerance, the distance reported is exactly \<open>0\<close> and the region returned is the neighbour
  across that face, the neighbouring element when the face is shared. In the instances
  below the particle is \<open>1/2000\<close> above the shared face, and on it, and moves straight
  down into region \<open>1\<close>.
\<close>

theorem howfar_interior_snaps_to_zero:
  assumes "i < 4" and "qualifies m r x u i" and "face_distance m r x u i \<le> t"
    and "\<forall>k<i. \<not> (qualifies m r x u k \<and> face_distance m r x u k \<le> t)"
    and "face_distance m r x u i \<le> hbt"
  shows "howfar_interior m hbt r x u t =
           Inr \<lparr>hf_newreg = neighbours m ! nat r ! i, hf_t = 0, hf_face = Some i\<rparr>"
  using howfar_interior_first [OF assms(1-4), of hbt] assms(5) by simp

theorem howfar_interior_snaps_to_zero_witness:
  "EGS_Mesh_ctor tw_elements tw_nodes ex_media = Inr tw_mesh \<and>
   qualifies tw_mesh 0 ex_x ex_u 3 \<and> face_distance tw_mesh 0 ex_x ex_u 3 = 1 / 2000 \<and>
   howfar_interior tw_mesh (1 / 1000) 0 ex_x ex_u 1 =
     Inr \<lparr>hf_newreg = 1, hf_t = 0, hf_face = Some 3\<rparr> \<and>
   qualifies tw_mesh 0 shared_x ex_u 3 \<and> face_distance tw_mesh 0 shared_x ex_u 3 = 0 \<and>
   howfar_interior tw_mesh (1 / 1000) 0 shared_x ex_u 1 =
     Inr \<lparr>hf_newreg = 1, hf_t = 0, hf_face = Some 3\<rparr>"
proof -
  have a: "\<forall>k<3. \<not> (qualifies tw_mesh 0 ex_x ex_u k \<and> face_distance tw_mesh 0 ex_x ex_u k \<le> 1)"
    unfolding all_less_3 using tw_qualifies_down [of ex_x] by blast
  have b: "\<forall>k<3. \<not> (qualifies tw_mesh 0 shared_x ex_u k \<and>
      face_distance tw_mesh 0 shared_x ex_u k \<le> 1)"
    unfolding all_less_3 using tw_qualifies_down [of shared_x] by blast
  have 1: "howfar_interior tw_mesh (1 / 1000) 0 ex_x ex_u 1 =
      Inr \<lparr>hf_newreg = 1, hf_t = 0, hf_face = Some 3\<rparr>"
    using howfar_interior_snaps_to_zero [OF _ tw_ex_x(1) _ a, of "1 / 1000"]
    by (simp add: tw_ex_x(2) tw_neighbours_mesh)
  have 2: "howfar_interior tw_mesh (1 / 1000) 0 shared_x ex_u 1 =
      Inr \<lparr>hf_newreg = 1, hf_t = 0, hf_face = Some 3\<rparr>"
    using howfar_interior_snaps_to_zero [OF _ tw_shared_x(1) _ b, of "1 / 1000"]
    by (simp add: tw_shared_x(2) tw_neighbours_mesh)
  from tw_ctor_eq tw_ex_x 1 tw_shared_x 2 show ?thesis by blast
qed

text \<open>
  The claim as stated fails, with a tolerance of \<open>1/1000\<close>, in three ways. With \<^verbatim>\<open>t\<close>
  \<open>= 1/4000\<close> the only qualifying face is at distance \<open>1/2000\<close>, beyond \<^verbatim>\<open>t\<close>: the
  region is returned unchanged and \<^verbatim>\<open>t\<close> keeps the value \<open>1/4000\<close>. A particle
  \<open>1/2000\<close> from the shared face that crosses it at an angle has the distance \<open>1/560\<close>
  along its direction, which is reported as it is. A particle on the shared face that moves
  into region \<open>0\<close>, the region it is in, does not qualify at that face and gets the distance
  \<open>5/8\<close> to the face it leaves region \<open>0\<close> through.
\<close>

theorem howfar_interior_snap_counterexample:
  "EGS_Mesh_ctor ex_elements ex_nodes ex_media = Inr ex_mesh \<and>
   \<not> qualifies ex_mesh 0 ex_x ex_u 0 \<and> \<not> qualifies ex_mesh 0 ex_x ex_u 1 \<and>
   \<not> qualifies ex_mesh 0 ex_x ex_u 2 \<and> qualifies ex_mesh 0 ex_x ex_u 3 \<and>
   face_distance ex_mesh 0 ex_x ex_u 3 \<le> 1 / 1000 \<and>
   howfar_interior ex_mesh (1 / 1000) 0 ex_x ex_u (1 / 4000) =
     Inr \<lparr>hf_newreg = 0, hf_t = 1 / 4000, hf_face = None\<rparr> \<and>
   EGS_Mesh_ctor tw_elements tw_nodes ex_media = Inr tw_mesh \<and>
   neighbours tw_mesh ! 0 ! 3 = 1 \<and>
   distance_to_plane near_x (face_normals tw_mesh ! 0 ! 3) (Vec 0 0 0) = 1 / 2000 \<and>
   dot oblique_u (face_normals tw_mesh ! 0 ! 3) = - (7 / 25) \<and>
   howfar_interior tw_mesh (1 / 1000) 0 near_x oblique_u 1 =
     Inr \<lparr>hf_newreg = 1, hf_t = 1 / 560, hf_face = Some 3\<rparr> \<and>
   distance_to_plane shared_x (face_normals tw_mesh ! 0 ! 3) (Vec 0 0 0) = 0 \<and>
   howfar_interior tw_mesh (1 / 1000) 0 shared_x inward_u 1 =
     Inr \<lparr>hf_newreg = - 1, hf_t = 5 / 8, hf_face = Some 0\<rparr>"
proof -
  have 1: "howfar_interior ex_mesh (1 / 1000) 0 ex_x ex_u (1 / 4000) =
     Inr \<lparr>hf_newreg = 0, hf_t = 1 / 4000, hf_face = None\<rparr>"
    unfolding howfar_interior_def howfar_interior_loop_find ex_find(1)
    using ex_qualifies(4) by simp
  have 2: "face_distance ex_mesh 0 ex_x ex_u 3 \<le> 1 / 1000"
    by (simp add: ex_face_distance)
  have 3: "neighbours tw_mesh ! 0 ! 3 = 1" by (simp add: tw_neighbours_mesh)
  have 4: "distance_to_plane near_x (face_normals tw_mesh ! 0 ! 3) (Vec 0 0 0) = 1 / 2000"
    "dot oblique_u (face_normals tw_mesh ! 0 ! 3) = - (7 / 25)"
    "distance_to_plane shared_x (face_normals tw_mesh ! 0 ! 3) (Vec 0 0 0) = 0"
    by (simp_all add: distance_to_plane_def tw_mesh_face_normals dot_def near_x_def shared_x_def
        oblique_u_def)
  from ex_ctor_eq ex_qualifies 1 2 tw_ctor_eq 3 4 tw_oblique_howfar tw_inward_howfar
  show ?thesis by blast
qed

section \<open>The qualifying faces in exact arithmetic\<close>

text \<open>
  With the inward normals of the constructor and exact arithmetic, the faces of a region
  that qualify for a ray all have the same distance: the ray leaves the region where it
  first meets a face plane. The doubles of the source need not agree in the last place, and
  the theorems on \<^verbatim>\<open>howfar_interior\<close> above use nothing of this section.
\<close>

lemma mt_cramer:
  fixes x u a b c :: EGS_Vector
  defines "det \<equiv> mt_det u a b c"
  defines "un \<equiv> dot (vsub x a) (cross u (vsub c a))"
  defines "vn \<equiv> dot u (cross (vsub x a) (vsub b a))"
  defines "dn \<equiv> dot (vsub c a) (cross (vsub x a) (vsub b a))"
  shows "det * (vx x - vx a) = - dn * vx u + un * (vx b - vx a) + vn * (vx c - vx a)"
    and "det * (vy x - vy a) = - dn * vy u + un * (vy b - vy a) + vn * (vy c - vy a)"
    and "det * (vz x - vz a) = - dn * vz u + un * (vz b - vz a) + vn * (vz c - vz a)"
  unfolding det_def un_def vn_def dn_def mt_det_def dot_def
  by (simp_all add: algebra_simps)

lemma mt_point_dot:
  assumes det: "mt_det u a b c \<noteq> 0"
  shows "dot nn (vsub (vadd x (vscale (mt_dist x u a b c) u)) p0) =
         (1 - mt_u x u a b c - mt_v x u a b c) * dot nn (vsub a p0) +
         mt_u x u a b c * dot nn (vsub b p0) + mt_v x u a b c * dot nn (vsub c p0)"
proof -
  let ?det = "mt_det u a b c"
  let ?U = "mt_u x u a b c" and ?V = "mt_v x u a b c" and ?d = "mt_dist x u a b c"
  have U: "?det * ?U = dot (vsub x a) (cross u (vsub c a))"
    and V: "?det * ?V = dot u (cross (vsub x a) (vsub b a))"
    and D: "?det * ?d = dot (vsub c a) (cross (vsub x a) (vsub b a))"
    using det by (simp_all add: mt_u_def mt_v_def mt_dist_def)
  have cx: "?det * (vx x - vx a) = - (?det * ?d) * vx u + (?det * ?U) * (vx b - vx a) + (?det * ?V) * (vx c - vx a)"
    unfolding U V D by (rule mt_cramer)
  have cy: "?det * (vy x - vy a) = - (?det * ?d) * vy u + (?det * ?U) * (vy b - vy a) + (?det * ?V) * (vy c - vy a)"
    unfolding U V D by (rule mt_cramer)
  have cz: "?det * (vz x - vz a) = - (?det * ?d) * vz u + (?det * ?U) * (vz b - vz a) + (?det * ?V) * (vz c - vz a)"
    unfolding U V D by (rule mt_cramer)
  have px: "vx x + ?d * vx u = vx a + ?U * (vx b - vx a) + ?V * (vx c - vx a)"
  proof -
    have "?det * (vx x + ?d * vx u) = ?det * (vx a + ?U * (vx b - vx a) + ?V * (vx c - vx a))"
      using cx by (simp add: algebra_simps)
    then show ?thesis using det by simp
  qed
  have py: "vy x + ?d * vy u = vy a + ?U * (vy b - vy a) + ?V * (vy c - vy a)"
  proof -
    have "?det * (vy x + ?d * vy u) = ?det * (vy a + ?U * (vy b - vy a) + ?V * (vy c - vy a))"
      using cy by (simp add: algebra_simps)
    then show ?thesis using det by simp
  qed
  have pz: "vz x + ?d * vz u = vz a + ?U * (vz b - vz a) + ?V * (vz c - vz a)"
  proof -
    have "?det * (vz x + ?d * vz u) = ?det * (vz a + ?U * (vz b - vz a) + ?V * (vz c - vz a))"
      using cz by (simp add: algebra_simps)
    then show ?thesis using det by simp
  qed
  show ?thesis
    unfolding dot_def vsub_sel vadd_sel vscale_sel px py pz
    by (simp add: algebra_simps)
qed

lemma reaches_det: "reaches_distance x u nn a b c \<Longrightarrow> mt_det u a b c \<noteq> 0"
  by (auto simp: reaches_distance_def ray_eps_def)

lemma hit_point_on_plane:
  assumes "reaches_distance x u nn a b c"
    and "dot nn (vsub b a) = 0" and "dot nn (vsub c a) = 0"
  shows "dot nn (vsub x a) + mt_dist x u a b c * dot nn u = 0"
proof -
  have "dot nn (vsub a a) = 0" by (simp add: dot_def)
  then show ?thesis
    using mt_point_dot [OF reaches_det [OF assms(1)], of nn x a] assms(2,3)
    by (simp add: dot_point_along)
qed

lemma hit_point_in_halfspace:
  assumes "reaches_distance x u nj a b c"
    and "0 \<le> dot nn (vsub a p0)" and "0 \<le> dot nn (vsub b p0)" and "0 \<le> dot nn (vsub c p0)"
  shows "0 \<le> dot nn (vsub x p0) + mt_dist x u a b c * dot nn u"
proof -
  let ?U = "mt_u x u a b c" and ?V = "mt_v x u a b c"
  from assms(1) have r: "0 \<le> ?U" "0 \<le> ?V" "0 \<le> 1 - ?U - ?V"
    by (simp_all add: reaches_distance_def)
  have "0 \<le> (1 - ?U - ?V) * dot nn (vsub a p0) + ?U * dot nn (vsub b p0) + ?V * dot nn (vsub c p0)"
    using r assms(2-4) by (intro add_nonneg_nonneg mult_nonneg_nonneg)
  then show ?thesis
    using mt_point_dot [OF reaches_det [OF assms(1)], of nn x p0]
    by (simp add: dot_point_along)
qed

lemma face_distance_le:
  assumes hi: "reaches_distance x u (get_normal a b c d) a b c"
    and hj: "reaches_distance x u nj aj bj cj"
    and v: "aj \<in> {a, b, c, d}" "bj \<in> {a, b, c, d}" "cj \<in> {a, b, c, d}"
  shows "mt_dist x u aj bj cj \<le> mt_dist x u a b c"
proof -
  let ?n = "get_normal a b c d"
  have neg: "dot ?n u < 0"
    using hi by (simp add: reaches_distance_def dot_commute ray_eps_def)
  have 1: "dot ?n (vsub x a) + mt_dist x u a b c * dot ?n u = 0"
    using hi get_normal_orth [of a b c d] by (rule hit_point_on_plane)
  have 2: "0 \<le> dot ?n (vsub x a) + mt_dist x u aj bj cj * dot ?n u"
    using hj v by (intro hit_point_in_halfspace get_normal_all_inward)
  from 1 2 have "0 \<le> (mt_dist x u aj bj cj - mt_dist x u a b c) * dot ?n u"
    by (simp add: algebra_simps)
  with neg show ?thesis
    by (simp add: zero_le_mult_iff)
qed

lemma qualifying_distance_le:
  assumes fn: "face_normals m ! nat r = element_normals (element_nodes m r)"
    and "i < 4" and "j < 4" and qi: "qualifies m r x u i" and qj: "qualifies m r x u j"
  shows "face_distance m r x u j \<le> face_distance m r x u i"
proof -
  from \<open>i < 4\<close> consider "i = 0" | "i = 1" | "i = 2" | "i = 3" by linarith
  then show ?thesis
  proof cases
    case 1
    from \<open>j < 4\<close> consider "j = 0" | "j = 1" | "j = 2" | "j = 3" by linarith
    then show ?thesis
      using qualifies_reaches [OF qi] qualifies_reaches [OF qj] 1
      by cases
         (simp_all add: fn element_normals_def face_nodes_def face_distance_def face_distance_le)
  next
    case 2
    from \<open>j < 4\<close> consider "j = 0" | "j = 1" | "j = 2" | "j = 3" by linarith
    then show ?thesis
      using qualifies_reaches [OF qi] qualifies_reaches [OF qj] 2
      by cases
         (simp_all add: fn element_normals_def face_nodes_def face_distance_def face_distance_le)
  next
    case 3
    from \<open>j < 4\<close> consider "j = 0" | "j = 1" | "j = 2" | "j = 3" by linarith
    then show ?thesis
      using qualifies_reaches [OF qi] qualifies_reaches [OF qj] 3
      by cases
         (simp_all add: fn element_normals_def face_nodes_def face_distance_def face_distance_le)
  next
    case 4
    from \<open>j < 4\<close> consider "j = 0" | "j = 1" | "j = 2" | "j = 3" by linarith
    then show ?thesis
      using qualifies_reaches [OF qi] qualifies_reaches [OF qj] 4
      by cases
         (simp_all add: fn element_normals_def face_nodes_def face_distance_def face_distance_le)
  qed
qed

lemma qualifying_distance_eq:
  assumes "face_normals m ! nat r = element_normals (element_nodes m r)"
    and "i < 4" and "j < 4" and "qualifies m r x u i" and "qualifies m r x u j"
  shows "face_distance m r x u j = face_distance m r x u i"
  using qualifying_distance_le [OF assms(1) assms(2) assms(3) assms(4) assms(5)]
        qualifying_distance_le [OF assms(1) assms(3) assms(2) assms(5) assms(4)]
  by simp

section \<open>Lost particles\<close>

lemma first_neighbour_inside_find:
  "first_neighbour_inside m ns x = find (\<lambda>nb. nb \<noteq> - 1 \<and> insideElement m nb x) ns"
  by (induction ns) auto

lemma first_inside_sound:
  "first_inside m es p \<noteq> - 1 \<Longrightarrow> insideElement m (first_inside m es p) p"
  by (induction es) auto

lemma node_isWhere_sound:
  "node_isWhere nd p m \<noteq> - 1 \<Longrightarrow> insideElement m (node_isWhere nd p m) p"
proof (induction nd p m rule: node_isWhere.induct)
  case (1 nd p mesh)
  show ?case
  proof (cases "isLeaf nd")
    case True
    with "1.prems" show ?thesis
      by (simp add: node_isWhere.simps [of nd] first_inside_sound)
  next
    case False
    show ?thesis
    proof (cases "findOctant nd p < length (children_of nd)")
      case True
      with False "1.prems" "1.IH" show ?thesis
        by (simp add: node_isWhere.simps [of nd])
    next
      case oob: False
      with False "1.prems" show ?thesis
        by (simp add: node_isWhere.simps [of nd])
    qed
  qed
qed

lemma ex_insideElement: "insideElement ex_mesh 0 ex_p"
  by (simp add: insideElement_def ex_mesh_element_nodes point_outside_of_plane_def dot_def ex_p_def)

lemma ex_isWhere_inside: "isWhere ex_mesh ex_p = 0"
proof -
  have c: "contains ex_box ex_p"
    by (simp add: contains_def ex_box_def mk_box_def ex_p_def)
  have v: "volume_tree ex_mesh = Node [0] [] ex_box" by (simp add: ex_mesh_def)
  show ?thesis
    by (simp add: isWhere_def octree_isWhere_def v c node_isWhere.simps isLeaf_def ex_insideElement)
qed

lemma ex_lost: "\<not> list_ex (qualifies ex_mesh 0 ex_x_out ex_u_out) [0, 1, 2, 3]"
  by (simp add: qualifies_def ex_face_nodes ex_mesh_face_normals interior_hit_iff
      reaches_distance_def dot_def ray_eps_def ex_x_out_def ex_u_out_def)

lemma ex_lost_zero: "\<not> list_ex (qualifies ex_mesh 0 ex_p ex_u_zero) [0, 1, 2, 3]"
  by (simp add: qualifies_def ex_face_nodes ex_mesh_face_normals interior_hit_iff
      reaches_distance_def dot_def ray_eps_def ex_u_zero_def)

lemma ex_isWhere_outside: "isWhere ex_mesh ex_x_out = - 1"
proof -
  have c: "\<not> contains ex_box ex_x_out"
    by (simp add: contains_def ex_box_def mk_box_def ex_x_out_def)
  have v: "volume_tree ex_mesh = Node [0] [] ex_box" by (simp add: ex_mesh_def)
  show ?thesis
    by (simp add: isWhere_def octree_isWhere_def v c)
qed

text \<open>
  C3. When no face of the region qualifies, \<^verbatim>\<open>howfar_interior\<close> reports distance
  \<open>0\<close> and returns the first neighbour of the region, other than the sentinel, that
  contains the position by the point-in-tetrahedron test; when there is none it returns
  what \<^verbatim>\<open>isWhere\<close> finds in the volume tree, and the run ends fatally when that is the
  region itself.
\<close>

theorem howfar_interior_lost_particle:
  assumes "\<not> list_ex (qualifies m r x u) [0, 1, 2, 3]"
  shows "howfar_interior m hbt r x u t =
    (case find (\<lambda>nb. nb \<noteq> - 1 \<and> insideElement m nb x) (neighbours m ! nat r) of
       Some nb \<Rightarrow> Inr \<lparr>hf_newreg = nb, hf_t = 0, hf_face = None\<rparr>
     | None \<Rightarrow>
         if isWhere m x = r then Inl (FatalInfiniteLoop r)
         else Inr \<lparr>hf_newreg = isWhere m x, hf_t = 0, hf_face = None\<rparr>)"
proof -
  have "find (\<lambda>i. qualifies m r x u i \<and> face_distance m r x u i \<le> t) [0, 1, 2, 3] = None"
    using assms by simp
  then show ?thesis
    using assms
    by (simp add: howfar_interior_def howfar_interior_loop_find
        howfar_interior_find_lost_particle_def first_neighbour_inside_find Let_def
        del: find.simps split: option.splits)
qed

theorem howfar_interior_lost_particle_witness:
  "\<not> list_ex (qualifies ex_mesh 0 ex_x_out ex_u_out) [0, 1, 2, 3] \<and>
   howfar_interior ex_mesh (1 / 1000) 0 ex_x_out ex_u_out 1 =
     Inr \<lparr>hf_newreg = - 1, hf_t = 0, hf_face = None\<rparr> \<and>
   \<not> list_ex (qualifies ex_mesh 0 ex_p ex_u_zero) [0, 1, 2, 3] \<and>
   howfar_interior ex_mesh (1 / 1000) 0 ex_p ex_u_zero 1 = Inl (FatalInfiniteLoop 0)"
  using howfar_interior_lost_particle [OF ex_lost, of "1 / 1000" 1]
        howfar_interior_lost_particle [OF ex_lost_zero, of "1 / 1000" 1]
        ex_lost ex_lost_zero
  by (simp add: ex_neighbours_mesh ex_isWhere_outside ex_isWhere_inside)

section \<open>Soundness of point location\<close>

text \<open>
  C9. When \<^verbatim>\<open>isWhere\<close> returns a region other than \<open>-1\<close>, the point-in-tetrahedron
  test accepts the position for that region: the position is outside none of its four
  face planes.
\<close>

theorem isWhere_sound:
  assumes "isWhere m p = e" and "e \<noteq> - 1"
  shows "insideElement m e p \<and>
         (let n = element_nodes m e
          in \<not> point_outside_of_plane p (nA n) (nB n) (nC n) (nD n) \<and>
             \<not> point_outside_of_plane p (nA n) (nC n) (nD n) (nB n) \<and>
             \<not> point_outside_of_plane p (nA n) (nB n) (nD n) (nC n) \<and>
             \<not> point_outside_of_plane p (nB n) (nC n) (nD n) (nA n))"
proof -
  have "node_isWhere (volume_tree m) p m = e"
    using assms by (auto simp: isWhere_def octree_isWhere_def split: if_splits)
  with assms(2) have "insideElement m e p"
    using node_isWhere_sound [of "volume_tree m" p m] by simp
  then show ?thesis
    by (auto simp: insideElement_def Let_def split: if_splits)
qed

theorem isWhere_sound_witness:
  "isWhere ex_mesh ex_p = 0 \<and> (0::int) \<noteq> - 1 \<and> insideElement ex_mesh 0 ex_p \<and>
   \<not> point_outside_of_plane ex_p (Vec 0 0 0) (Vec 2 0 0) (Vec 0 1 0) (Vec 0 0 1)"
  using isWhere_sound [OF ex_isWhere_inside] ex_isWhere_inside
  by (simp add: ex_mesh_element_nodes Let_def)

section \<open>Duplicate node tags\<close>

lemma map_insert_keys:
  "distinct (map fst m) \<Longrightarrow>
   distinct (map fst (fst (map_insert m k v))) \<and>
   fst ` set (fst (map_insert m k v)) = insert k (fst ` set m)"
  by (force simp: map_insert_def map_of_eq_None_iff split: option.splits dest: map_of_SomeD)

lemma build_node_map_keys:
  "distinct (map fst m) \<Longrightarrow>
   distinct (map fst (build_node_map ns i m)) \<and>
   fst ` set (build_node_map ns i m) = fst ` set m \<union> n_tag ` set ns"
proof (induction ns arbitrary: i m)
  case Nil
  then show ?case by simp
next
  case (Cons n ns)
  from map_insert_keys [OF Cons.prems, of "n_tag n" i]
  have d: "distinct (map fst (fst (map_insert m (n_tag n) i)))"
    and s: "fst ` set (fst (map_insert m (n_tag n) i)) = insert (n_tag n) (fst ` set m)"
    by simp_all
  from Cons.IH [OF d, of "i + 1"] s show ?case by auto
qed

lemma build_node_map_length:
  "length (build_node_map ns 0 []) = length ns \<longleftrightarrow> distinct (map n_tag ns)"
proof -
  let ?r = "build_node_map ns 0 []"
  have d: "distinct (map fst ?r)" and s: "fst ` set ?r = n_tag ` set ns"
    using build_node_map_keys [of "[]" ns 0] by simp_all
  have "length ?r = length (map fst ?r)" by simp
  also have "\<dots> = card (set (map fst ?r))" using distinct_card [OF d] by simp
  also have "\<dots> = card (set (map n_tag ns))" using s by simp
  finally have "length ?r = card (set (map n_tag ns))" .
  then show ?thesis
    using card_distinct [of "map n_tag ns"] distinct_card [of "map n_tag ns"] by auto
qed

lemma replicate_not_distinct: "Suc 0 < n \<Longrightarrow> \<not> distinct (replicate n x)"
proof -
  assume "Suc 0 < n"
  then have "n = Suc (Suc (n - 2))" by simp
  then have "replicate n x = x # x # replicate (n - 2) x"
    by (metis replicate_Suc)
  then show ?thesis by simp
qed

lemma initializeElements_duplicate:
  assumes "\<not> distinct (map n_tag nds)"
  shows "initializeElements els nds mats =
           Inl (if length els \<ge> int_max then MaxElementsExceeded
                else if length nds \<ge> int_max then MaxNodesExceeded
                else DuplicateNodes)"
proof -
  have len: "length (build_node_map nds 0 []) \<noteq> length nds"
    using assms build_node_map_length by blast
  show ?thesis
    unfolding initializeElements_def Let_def using len by simp
qed

text \<open>
  C8 (as amended). When two node records share a tag, construction fails and no mesh is
  built: with the duplicate-nodes error when the numbers of elements and of nodes are
  below the largest \<^verbatim>\<open>int\<close>, and with the capacity error that is checked first
  otherwise.
\<close>

theorem duplicate_node_tags_fail:
  assumes "\<not> distinct (map n_tag nds)"
  shows "EGS_Mesh_ctor els nds mats =
           Inl (if length els \<ge> int_max then MaxElementsExceeded
                else if length nds \<ge> int_max then MaxNodesExceeded
                else DuplicateNodes)"
  unfolding EGS_Mesh_ctor_def initializeElements_duplicate [OF assms] by simp

theorem duplicate_node_tags_fail_witness:
  "\<not> distinct (map n_tag dup_nodes) \<and>
   EGS_Mesh_ctor ex_elements dup_nodes ex_media = Inl DuplicateNodes"
proof -
  have d: "\<not> distinct (map n_tag dup_nodes)" by (simp add: dup_nodes_def)
  have l: "\<not> length ex_elements \<ge> int_max" "\<not> length dup_nodes \<ge> int_max"
    by (simp_all add: ex_elements_def dup_nodes_def int_max_def)
  show ?thesis
    using duplicate_node_tags_fail [OF d, of ex_elements ex_media] d l
    by simp
qed

text \<open>
  The claim as stated fails: a list of \<open>2147483647\<close> node records with one tag is refused
  for its size before the tags are looked at.
\<close>

theorem duplicate_node_tags_capacity_counterexample:
  "\<not> distinct (map n_tag (replicate int_max (MeshNode 1 0 0 0))) \<and>
   EGS_Mesh_ctor [] (replicate int_max (MeshNode 1 0 0 0)) [] = Inl MaxNodesExceeded \<and>
   MaxNodesExceeded \<noteq> DuplicateNodes"
proof -
  have "Suc 0 < int_max" by (simp add: int_max_def)
  then have d: "\<not> distinct (map n_tag (replicate int_max (MeshNode 1 0 0 0)))"
    by (simp add: replicate_not_distinct)
  have z: "\<not> length ([] :: Tetrahedron list) \<ge> int_max" by (simp add: int_max_def)
  have "initializeElements [] (replicate int_max (MeshNode 1 0 0 0)) [] = Inl MaxNodesExceeded"
    unfolding initializeElements_def using z by simp
  then have "EGS_Mesh_ctor [] (replicate int_max (MeshNode 1 0 0 0)) [] = Inl MaxNodesExceeded"
    unfolding EGS_Mesh_ctor_def by simp
  with d show ?thesis by simp
qed

section \<open>The octree of the two hundred tetrahedra\<close>

lemma nth_concat_blocks:
  "\<forall>x \<in> set xs. length (f x) = 4 \<Longrightarrow> k < length xs \<Longrightarrow> j < 4 \<Longrightarrow>
   concat (map f xs) ! (4 * k + j) = f (xs ! k) ! j"
proof (induction xs arbitrary: k)
  case Nil
  then show ?case by simp
next
  case (Cons x xs)
  show ?case
  proof (cases k)
    case 0
    with Cons.prems show ?thesis by (simp add: nth_append)
  next
    case (Suc k')
    with Cons.prems have "concat (map f xs) ! (4 * k' + j) = f (xs ! k') ! j"
      by (intro Cons.IH) auto
    with Suc Cons.prems show ?thesis by (simp add: nth_append)
  qed
qed

lemma big_tets_length: "length big_tets = 200"
  by (simp add: big_tets_def)

lemma big_element_nodes:
  assumes "k < 200"
  shows "element_nodes big_data (int k) = big_tets ! k"
proof -
  have len: "k < length big_tets" using assms by (simp add: big_tets_length)
  have b: "\<forall>x \<in> set big_tets. length [nA x, nB x, nC x, nD x] = 4" by simp
  have n: "nodes big_data ! (4 * k + j) = [nA (big_tets ! k), nB (big_tets ! k), nC (big_tets ! k), nD (big_tets ! k)] ! j"
    if "j < 4" for j
    using nth_concat_blocks [OF b len that] by (simp add: big_data_def)
  have ix: "elt_node_indices big_data ! k = [4 * int k, 4 * int k + 1, 4 * int k + 2, 4 * int k + 3]"
    using assms by (simp add: big_data_def)
  have c: "nat (4 * int k) = 4 * k + 0" "nat (4 * int k + 1) = 4 * k + 1"
    "nat (4 * int k + 2) = 4 * k + 2" "nat (4 * int k + 3) = 4 * k + 3"
    by (simp_all add: nat_add_distrib nat_mult_distrib)
  have n0: "nodes big_data ! nat (4 * int k) = nA (big_tets ! k)"
    unfolding c using n [of 0] by simp
  have n1: "nodes big_data ! nat (4 * int k + 1) = nB (big_tets ! k)"
    unfolding c using n [of 1] by simp
  have n2: "nodes big_data ! nat (4 * int k + 2) = nC (big_tets ! k)"
    unfolding c using n [of 2] by simp
  have n3: "nodes big_data ! nat (4 * int k + 3) = nD (big_tets ! k)"
    unfolding c using n [of 3] by simp
  show ?thesis
    by (simp add: element_nodes_def ix n0 n1 n2 n3)
qed

lemma big_tets_nth:
  "big_tets ! 0 = big_tet" "1 \<le> k \<Longrightarrow> k < 200 \<Longrightarrow> big_tets ! k = filler k"
proof -
  show "big_tets ! 0 = big_tet" by (simp add: big_tets_def)
  assume k: "1 \<le> k" "k < 200"
  then obtain j where j: "k = Suc j" by (cases k) auto
  have jl: "j < length [1 ..< 200]" using k j by simp
  have "map filler [1 ..< 200] ! j = filler ([1 ..< 200] ! j)"
    using jl by (rule nth_map)
  moreover have "[1 ..< 200] ! j = 1 + j"
    using k j by (intro nth_upt) simp
  ultimately have "map filler [1 ..< 200] ! j = filler (1 + j)" by simp
  with j show "big_tets ! k = filler k" by (simp add: big_tets_def)
qed

lemma tet_box_big: "tet_box big_tet = mk_box 0 2 0 2 0 2"
  by (simp add: tet_box_def big_tet_def big_delta_def)

lemma widen_filler: "k < 200 \<Longrightarrow> widen (mk_box 0 2 0 2 0 2) (tet_box (filler k)) = mk_box 0 2 0 2 0 2"
  by (simp add: widen_def tet_box_def filler_def mk_box_def min_def max_def field_simps)

lemma fold_widen_fixed:
  "\<forall>e \<in> set es. widen g (tet_box (en e)) = g \<Longrightarrow>
   fold (\<lambda>e g. widen g (tet_box (en e))) es g = g"
  by (induction es) simp_all

lemma big_elts: "map int [0 ..< 200] = 0 # map int [1 ..< 200]"
  by (simp add: upt_conv_Cons)

lemma big_g_bounds: "g_bounds (map int [0 ..< 200]) big_data = mk_box 0 2 0 2 0 2"
proof -
  have 0: "element_nodes big_data 0 = big_tet"
    using big_element_nodes [of 0] by (simp add: big_tets_nth)
  have "widen (mk_box 0 2 0 2 0 2) (tet_box (element_nodes big_data e)) = mk_box 0 2 0 2 0 2"
    if "e \<in> set (map int [1 ..< 200])" for e
  proof -
    from that obtain k where k: "e = int k" "1 \<le> k" "k < 200" by auto
    then show ?thesis
      using big_element_nodes [of k] by (simp add: big_tets_nth widen_filler)
  qed
  then have "fold (\<lambda>e g. widen g (tet_box (element_nodes big_data e))) (map int [1 ..< 200])
      (mk_box 0 2 0 2 0 2) = mk_box 0 2 0 2 0 2"
    by (intro fold_widen_fixed) blast
  then show ?thesis
    unfolding g_bounds_def big_elts by (simp add: 0 tet_box_big)
qed

lemma big_root_expand: "expand (mk_box 0 2 0 2 0 2) (1 / 10 ^ 8) = big_root"
  by (simp add: expand_def mk_box_def big_root_def)

lemma big_root_divisible: "\<not> is_indivisible big_root"
  by (simp add: is_indivisible_def approx_eq_def mid_x_def mid_y_def mid_z_def big_root_def
      mk_box_def eps_def)

lemma big_divide8: "divide8 big_root ! 0 = big_octant0" "length (divide8 big_root) = 8"
  by (simp_all add: divide8_def big_root_def big_octant0_def mk_box_def mid_x_def mid_y_def mid_z_def)

lemma intersects_triangle_beyond_x:
  "max_x bb \<le> vx a \<Longrightarrow> max_x bb \<le> vx b \<Longrightarrow> max_x bb \<le> vx c \<Longrightarrow>
   \<not> intersects_triangle bb a b c"
  by (simp add: intersects_triangle_def min3_def)

lemma intersects_triangle_beyond_y:
  "max_y bb \<le> vy a \<Longrightarrow> max_y bb \<le> vy b \<Longrightarrow> max_y bb \<le> vy c \<Longrightarrow>
   \<not> intersects_triangle bb a b c"
  by (simp add: intersects_triangle_def min3_def)

lemma filler_not_in_octant0: "\<not> intersects_tetrahedron big_octant0 (filler k)"
  by (simp add: intersects_tetrahedron_def intersects_triangle_beyond_x filler_def
      big_octant0_def mk_box_def)

lemma not_is_zero: "1 \<le> length2 a \<Longrightarrow> \<not> is_zero a"
proof -
  assume "1 \<le> length2 a"
  then have "1 \<le> vlength a" by (simp add: vlength_def)
  then have "eps * (vlength a + 1) < vlength a"
    by (simp add: eps_def)
  with \<open>1 \<le> vlength a\<close> show ?thesis
    by (simp add: is_zero_def approx_eq_def)
qed

lemma axis_z_edge0_separates:
  "axis_separates bb (vsub a (Vec (mid_x bb) (mid_y bb) (mid_z bb)))
     (vsub b (Vec (mid_x bb) (mid_y bb) (mid_z bb))) (vsub c (Vec (mid_x bb) (mid_y bb) (mid_z bb)))
     (Vec 0 0 1)
     (vsub (vsub b (Vec (mid_x bb) (mid_y bb) (mid_z bb))) (vsub a (Vec (mid_x bb) (mid_y bb) (mid_z bb)))) \<Longrightarrow>
   \<not> intersects_triangle bb a b c"
  by (simp add: intersects_triangle_def Let_def)

lemma big_face_separated:
  assumes "vx c + vy c \<ge> 2 - big_delta"
  shows "\<not> intersects_triangle big_octant0 (Vec (2 - big_delta) 0 0) (Vec 0 (2 - big_delta) 0) c"
proof (rule axis_z_edge0_separates)
  let ?ctr = "Vec (mid_x big_octant0) (mid_y big_octant0) (mid_z big_octant0)"
  let ?v0 = "vsub (Vec (2 - big_delta) 0 0) ?ctr"
  let ?v1 = "vsub (Vec 0 (2 - big_delta) 0) ?ctr"
  let ?a = "cross (Vec 0 0 1) (vsub ?v1 ?v0)"
  have a: "?a = Vec (- (2 - big_delta)) (- (2 - big_delta)) 0"
    by (simp add: cross_def)
  have "1 \<le> length2 ?a"
    unfolding a by (simp add: length2_def big_delta_def)
  then have nz: "\<not> is_zero ?a" by (rule not_is_zero)
  have mid: "mid_x big_octant0 = (1 - 1 / 10 ^ 8) / 2" "mid_y big_octant0 = (1 - 1 / 10 ^ 8) / 2"
    by (simp_all add: mid_x_def mid_y_def big_octant0_def mk_box_def)
  have ext: "max_x big_octant0 - min_x big_octant0 = 1 + 1 / 10 ^ 8"
    "max_y big_octant0 - min_y big_octant0 = 1 + 1 / 10 ^ 8"
    by (simp_all add: big_octant0_def mk_box_def)
  have my: "mid_y big_octant0 = mid_x big_octant0"
    by (simp add: mid)
  have pg: "dot (vsub w ?ctr) ?a = - (2 - big_delta) * (vx w + vy w - 2 * mid_x big_octant0)" for w
    unfolding a my by (simp add: dot_def algebra_simps)
  have m2: "2 * mid_x big_octant0 = 1 - 1 / 10 ^ 8"
    by (simp add: mid)
  have p01: "dot ?v0 ?a = - (2 - big_delta) * (1 - big_delta + 1 / 10 ^ 8)"
    "dot ?v1 ?a = - (2 - big_delta) * (1 - big_delta + 1 / 10 ^ 8)"
    unfolding pg m2 by simp_all
  have p2: "dot (vsub c ?ctr) ?a = - (2 - big_delta) * (vx c + vy c - 1 + 1 / 10 ^ 8)"
    unfolding pg m2 by simp
  have d: "0 < 2 - big_delta" by (simp add: big_delta_def)
  have le: "dot (vsub c ?ctr) ?a \<le> dot ?v0 ?a"
    unfolding p01 p2 using assms d by (simp add: mult_le_cancel_left)
  have mx: "max3 (dot ?v0 ?a) (dot ?v1 ?a) (dot (vsub c ?ctr) ?a) = dot ?v0 ?a"
    using le by (simp add: max3_def p01)
  have r: "(max_x big_octant0 - min_x big_octant0) / 2 * \<bar>dot (Vec 1 0 0) ?a\<bar> +
        (max_y big_octant0 - min_y big_octant0) / 2 * \<bar>dot (Vec 0 1 0) ?a\<bar> +
        (max_z big_octant0 - min_z big_octant0) / 2 * \<bar>dot (Vec 0 0 1) ?a\<bar> =
        (1 + 1 / 10 ^ 8) * (2 - big_delta)"
    unfolding a ext using d by (simp add: dot_def)
  have "(1 + 1 / 10 ^ 8) * (2 - big_delta) < - dot ?v0 ?a + eps"
    unfolding p01 by (simp add: big_delta_def eps_def)
  then have "(1 + 1 / 10 ^ 8) * (2 - big_delta) <
      max (- max3 (dot ?v0 ?a) (dot ?v1 ?a) (dot (vsub c ?ctr) ?a))
          (min3 (dot ?v0 ?a) (dot ?v1 ?a) (dot (vsub c ?ctr) ?a)) + eps"
    unfolding mx by simp
  then show "axis_separates big_octant0 ?v0 ?v1 (vsub c ?ctr) (Vec 0 0 1) (vsub ?v1 ?v0)"
    unfolding axis_separates_def Let_def using nz r by simp
qed

lemma big_tet_not_in_octant0: "\<not> intersects_tetrahedron big_octant0 big_tet"
proof -
  have 1: "\<not> intersects_triangle big_octant0 (Vec (2 - big_delta) 0 0) (Vec 0 (2 - big_delta) 0) (Vec 2 2 0)"
    by (rule big_face_separated) (simp add: big_delta_def)
  have 2: "\<not> intersects_triangle big_octant0 (Vec (2 - big_delta) 0 0) (Vec 0 (2 - big_delta) 0) (Vec 2 2 2)"
    by (rule big_face_separated) (simp add: big_delta_def)
  have 3: "\<not> intersects_triangle big_octant0 (Vec (2 - big_delta) 0 0) (Vec 2 2 0) (Vec 2 2 2)"
    by (rule intersects_triangle_beyond_x) (simp_all add: big_octant0_def mk_box_def big_delta_def)
  have 4: "\<not> intersects_triangle big_octant0 (Vec 0 (2 - big_delta) 0) (Vec 2 2 0) (Vec 2 2 2)"
    by (rule intersects_triangle_beyond_y) (simp_all add: big_octant0_def mk_box_def big_delta_def)
  show ?thesis
    by (simp add: intersects_tetrahedron_def big_tet_def 1 2 3 4)
qed

lemma big_octant0_empty:
  "filter (\<lambda>e. intersects_tetrahedron big_octant0 (element_nodes big_data e))
     (map int [0 ..< 200]) = []"
proof -
  have "\<not> intersects_tetrahedron big_octant0 (element_nodes big_data e)"
    if "e \<in> set (map int [0 ..< 200])" for e
  proof -
    from that obtain k where k: "e = int k" "k < 200" by auto
    show ?thesis
    proof (cases "k = 0")
      case True
      with k show ?thesis
        using big_element_nodes [of 0] by (simp add: big_tets_nth big_tet_not_in_octant0)
    next
      case False
      with k have "big_tets ! k = filler k" by (intro big_tets_nth) simp_all
      with k show ?thesis
        using big_element_nodes [of k] by (simp add: filler_not_in_octant0)
    qed
  qed
  then show ?thesis by (simp only: filter_empty_conv) blast
qed

lemma big_Node_ctor:
  assumes "0 < n" and "n \<le> 200"
  shows "\<exists>cs. Node_ctor (map int [0 ..< 200]) big_root n big_data = Node [] cs big_root \<and>
              length cs = 8 \<and> cs ! 0 = Node [] [] big_octant0"
proof -
  let ?cs = "map (\<lambda>bb. Node_ctor
      (filter (\<lambda>e. intersects_tetrahedron bb (element_nodes big_data e)) (map int [0 ..< 200]))
      bb n big_data) (divide8 big_root)"
  have "\<not> (is_indivisible big_root \<or> length (map int [0 ..< 200]) < n)"
    using assms(2) by (simp add: big_root_divisible)
  then have 1: "Node_ctor (map int [0 ..< 200]) big_root n big_data = Node [] ?cs big_root"
    by (subst Node_ctor.simps) (simp only: if_False)
  have 2: "length ?cs = 8" by (simp add: big_divide8)
  have "?cs ! 0 = Node_ctor
      (filter (\<lambda>e. intersects_tetrahedron big_octant0 (element_nodes big_data e)) (map int [0 ..< 200]))
      big_octant0 n big_data"
    using nth_map [of 0 "divide8 big_root"] by (simp add: big_divide8)
  also have "\<dots> = Node_ctor [] big_octant0 n big_data"
    by (simp only: big_octant0_empty)
  also have "\<dots> = Node [] [] big_octant0"
    using assms(1) by (subst Node_ctor.simps) simp
  finally have 3: "?cs ! 0 = Node [] [] big_octant0" .
  from 1 2 3 show ?thesis by blast
qed

lemma big_octree:
  assumes "0 < n" and "n \<le> 200"
  shows "\<exists>cs. EGS_Mesh_Octree (map int [0 ..< 200]) n big_data = Inr (Node [] cs big_root) \<and>
              length cs = 8 \<and> cs ! 0 = Node [] [] big_octant0"
proof -
  have "EGS_Mesh_Octree (map int [0 ..< 200]) n big_data =
      Inr (Node_ctor (map int [0 ..< 200]) big_root n big_data)"
    unfolding EGS_Mesh_Octree_def big_g_bounds big_root_expand
    by (simp add: int_max_def)
  with big_Node_ctor [OF assms] show ?thesis by auto
qed

lemma big_p_in_root: "contains big_root big_p"
  by (simp add: contains_def big_root_def big_p_def mk_box_def big_delta_def)

lemma big_p_octant: "findOctant (Node es cs big_root) big_p = 0"
  by (simp add: findOctant_def mid_x_def mid_y_def mid_z_def big_root_def mk_box_def big_p_def
      big_delta_def)

lemma big_p_wall: "min_interior_distance big_octant0 big_p = big_delta / 2"
  by (simp add: min_interior_distance_def big_octant0_def mk_box_def big_p_def big_delta_def)

lemma big_hownear_tree:
  assumes "length cs = 8" and "cs ! 0 = Node [] [] big_octant0"
  shows "octree_hownear_exterior (Node [] cs big_root) big_p mesh = big_delta / 2"
proof -
  have leaf: "node_hownear_exterior (Node [] [] big_octant0) big_p mesh = big_delta / 2"
    by (subst node_hownear_exterior.simps)
       (simp add: isLeaf_def hownear_leaf_search_def big_p_wall big_delta_def)
  have "cs \<noteq> []" using assms(1) by auto
  then have "node_hownear_exterior (Node [] cs big_root) big_p mesh =
      node_hownear_exterior (cs ! 0) big_p mesh"
    using assms(1) by (subst node_hownear_exterior.simps) (simp add: isLeaf_def big_p_octant)
  then show ?thesis
    by (simp add: octree_hownear_exterior_def big_p_in_root assms(2) leaf)
qed

lemma big_isWhere_tree:
  assumes "length cs = 8" and "cs ! 0 = Node [] [] big_octant0"
  shows "octree_isWhere (Node [] cs big_root) big_p mesh = - 1"
proof -
  have leaf: "node_isWhere (Node [] [] big_octant0) big_p mesh = - 1"
    by (subst node_isWhere.simps) (simp add: isLeaf_def)
  have "cs \<noteq> []" using assms(1) by auto
  then have "node_isWhere (Node [] cs big_root) big_p mesh = node_isWhere (cs ! 0) big_p mesh"
    using assms(1) by (subst node_isWhere.simps) (simp add: isLeaf_def big_p_octant)
  then show ?thesis
    by (simp add: octree_isWhere_def big_p_in_root assms(2) leaf)
qed

lemma map_of_map_insert:
  "map_of (fst (map_insert m k v)) t =
     (case map_of m t of Some w \<Rightarrow> Some w | None \<Rightarrow> if t = k then Some v else None)"
  by (auto simp: map_insert_def map_add_def split: option.splits)

lemma upt_shift: "map (\<lambda>i. j + int i) [0 ..< Suc l] = j # map (\<lambda>i. j + 1 + int i) [0 ..< l]"
proof -
  have "[0 ..< Suc l] = 0 # map Suc [0 ..< l]"
    by (simp add: upt_conv_Cons map_Suc_upt del: upt_Suc)
  then show ?thesis by (simp add: comp_def del: upt_Suc)
qed

lemma build_node_map_lookup_gen:
  "map_of (build_node_map ns j m) t =
     (case map_of m t of
        Some w \<Rightarrow> Some w
      | None \<Rightarrow> map_of (zip (map n_tag ns) (map (\<lambda>i. j + int i) [0 ..< length ns])) t)"
proof (induction ns arbitrary: j m)
  case Nil
  show ?case by (simp split: option.splits)
next
  case (Cons n ns)
  have z: "zip (map n_tag (n # ns)) (map (\<lambda>i. j + int i) [0 ..< length (n # ns)]) =
      (n_tag n, j) # zip (map n_tag ns) (map (\<lambda>i. j + 1 + int i) [0 ..< length ns])"
    using upt_shift [of j "length ns"] by simp
  show ?case
    unfolding z
    by (simp add: Cons.IH map_of_map_insert del: upt_Suc split: option.splits)
qed

lemma build_node_map_lookup:
  assumes "distinct (map n_tag ns)" and "i < length ns"
  shows "map_of (build_node_map ns 0 []) (n_tag (ns ! i)) = Some (int i)"
proof -
  let ?xs = "map n_tag ns" and ?ys = "map (\<lambda>i. 0 + int i) [0 ..< length ns]"
  have "map_of (zip ?xs ?ys) (?xs ! i) = Some (?ys ! i)"
    using assms by (intro map_of_zip_nth) simp_all
  then show ?thesis
    using assms(2) by (simp add: build_node_map_lookup_gen)
qed

lemma all_element_indices_map:
  "\<forall>e \<in> set es. element_indices nm e = Inr (f e) \<Longrightarrow>
   all_element_indices nm es = Inr (map f es)"
  by (induction es) simp_all

lemma all_medium_indices_map:
  "\<forall>e \<in> set es. map_of offs (t_medium_tag e) = Some (f e) \<Longrightarrow>
   all_medium_indices offs es = Inr (map f es)"
  by (induction es) simp_all

lemma big_nodes_tags: "map n_tag big_nodes = map (\<lambda>i. int i + 1) [0 ..< 800]"
  by (simp add: big_nodes_def comp_def)

lemma big_nodes_distinct: "distinct (map n_tag big_nodes)"
  unfolding big_nodes_tags by (simp add: distinct_map inj_on_def)

lemma big_node_lookup:
  assumes "i < 800"
  shows "find_node (build_node_map big_nodes 0 []) (int i + 1) = Inr (int i)"
proof -
  have l: "i < length big_nodes" using assms by (simp add: big_nodes_def)
  have "n_tag (big_nodes ! i) = int i + 1"
    using assms by (simp add: big_nodes_def)
  with build_node_map_lookup [OF big_nodes_distinct l] show ?thesis
    by (simp add: find_node_def)
qed

lemma big_element_indices:
  assumes "k < 200"
  shows "element_indices (build_node_map big_nodes 0 [])
           (Tetrahedron (int k + 1) 1 (4 * int k + 1) (4 * int k + 2) (4 * int k + 3) (4 * int k + 4)) =
         Inr [4 * int k, 4 * int k + 1, 4 * int k + 2, 4 * int k + 3]"
proof -
  have "find_node (build_node_map big_nodes 0 []) (4 * int k + 1) = Inr (4 * int k)"
    using big_node_lookup [of "4 * k"] assms by (simp add: add.commute)
  moreover have "find_node (build_node_map big_nodes 0 []) (4 * int k + 2) = Inr (4 * int k + 1)"
    using big_node_lookup [of "4 * k + 1"] assms by (simp add: add.commute)
  moreover have "find_node (build_node_map big_nodes 0 []) (4 * int k + 3) = Inr (4 * int k + 2)"
    using big_node_lookup [of "4 * k + 2"] assms by (simp add: add.commute)
  moreover have "find_node (build_node_map big_nodes 0 []) (4 * int k + 4) = Inr (4 * int k + 3)"
    using big_node_lookup [of "4 * k + 3"] assms by (simp add: add.commute)
  ultimately show ?thesis by (simp add: element_indices_def)
qed

lemma big_coords_length: "length big_coords = 800"
proof -
  have "length (concat (map (\<lambda>n. [nA n, nB n, nC n, nD n]) xs)) = 4 * length xs" for xs :: "Nodes list"
    by (induction xs) simp_all
  then show ?thesis by (simp add: big_coords_def big_tets_length)
qed

lemma big_nodes_coords: "map (\<lambda>n. Vec (n_x n) (n_y n) (n_z n)) big_nodes = big_coords"
proof -
  have "map (\<lambda>n. Vec (n_x n) (n_y n) (n_z n)) big_nodes = map (\<lambda>i. big_coords ! i) [0 ..< 800]"
    by (simp add: big_nodes_def comp_def)
  also have "\<dots> = big_coords"
    using map_nth [of big_coords] by (simp add: big_coords_length)
  finally show ?thesis .
qed

lemma big_initializeElements:
  "initializeElements big_elements big_nodes [Medium 1 ''water''] =
     Inr \<lparr>elt_tags = map (\<lambda>k. int k + 1) [0 ..< 200],
          elt_node_indices =
            map (\<lambda>k. [4 * int k, 4 * int k + 1, 4 * int k + 2, 4 * int k + 3]) [0 ..< 200],
          nodes = big_coords,
          medium_names = [''water''],
          medium_indices = replicate 200 0,
          neighbours = [], boundary_faces = [], face_normals = []\<rparr>"
proof -
  let ?nm = "build_node_map big_nodes 0 []"
  have len: "length ?nm = length big_nodes"
    using big_nodes_distinct by (simp add: build_node_map_length)
  have ix: "all_element_indices ?nm big_elements =
      Inr (map (\<lambda>e. [t_a e - 1, t_a e, t_a e + 1, t_a e + 2]) big_elements)"
    by (rule all_element_indices_map) (auto simp: big_elements_def big_element_indices)
  have ix': "map (\<lambda>e. [t_a e - 1, t_a e, t_a e + 1, t_a e + 2]) big_elements =
      map (\<lambda>k. [4 * int k, 4 * int k + 1, 4 * int k + 2, 4 * int k + 3]) [0 ..< 200]"
    by (simp add: big_elements_def comp_def)
  have offs: "build_medium_offsets [Medium 1 ''water''] 0 [] = Inr [(1, 0)]"
    by (simp add: map_insert_def)
  have med: "all_medium_indices [(1, 0)] big_elements = Inr (map (\<lambda>e. 0) big_elements)"
    by (rule all_medium_indices_map) (auto simp: big_elements_def)
  have med': "map (\<lambda>e. 0::int) big_elements = replicate 200 0"
    by (simp add: big_elements_def map_replicate_const)
  have tags: "map t_tag big_elements = map (\<lambda>k. int k + 1) [0 ..< 200]"
    by (simp add: big_elements_def comp_def)
  have sz: "\<not> int_max \<le> length big_elements" "\<not> int_max \<le> length big_nodes"
    by (simp_all add: big_elements_def big_nodes_def int_max_def)
  show ?thesis
    unfolding initializeElements_def Let_def
    by (simp only: sz len ix ix' offs med med' tags big_nodes_coords if_False simp_thms
        sum.case list.map) simp
qed

lemma face_key_big:
  "face_key (big_ix k) 0 = [4 * int k + 1, 4 * int k + 2, 4 * int k + 3]"
  "face_key (big_ix k) 1 = [4 * int k, 4 * int k + 2, 4 * int k + 3]"
  "face_key (big_ix k) 2 = [4 * int k, 4 * int k + 1, 4 * int k + 3]"
  "face_key (big_ix k) 3 = [4 * int k, 4 * int k + 1, 4 * int k + 2]"
  by (simp_all add: face_key_def big_ix_def numeral_2_eq_2 numeral_3_eq_3)

lemma face_key_big_Suc:
  "face_key (big_ix k) (Suc 0) = [4 * int k, 4 * int k + 2, 4 * int k + 3]"
  using face_key_big(2) [of k] by simp

lemma face_key_big_decode:
  assumes "i < 4"
  shows "hd (face_key (big_ix k) i) div 4 = int k"
    and "6 - sum_list (map (\<lambda>x. x mod 4) (face_key (big_ix k) i)) = int i"
proof -
  from assms consider "i = 0" | "i = 1" | "i = 2" | "i = 3" by linarith
  then show "hd (face_key (big_ix k) i) div 4 = int k"
    by cases (simp_all add: face_key_big face_key_big_Suc)
  from assms consider "i = 0" | "i = 1" | "i = 2" | "i = 3" by linarith
  then show "6 - sum_list (map (\<lambda>x. x mod 4) (face_key (big_ix k) i)) = int i"
    by cases (simp_all add: face_key_big face_key_big_Suc mod_simps)
qed

lemma face_key_big_inj:
  assumes "i < 4" and "i' < 4" and "face_key (big_ix k) i = face_key (big_ix k') i'"
  shows "k = k' \<and> i = i'"
  using face_key_big_decode [OF assms(1), of k] face_key_big_decode [OF assms(2), of k'] assms(3)
  by simp

lemma zip_upt_map: "zip [0 ..< length (map f [0 ..< n])] (map f [0 ..< n]) = map (\<lambda>k. (k, f k)) [0 ..< n]"
  by (simp add: zip_map2 zip_same_conv_map)

lemma sequence_sum_map_Inr:
  "\<forall>x \<in> set xs. f x = Inr (g x) \<Longrightarrow> sequence_sum (map f xs) = Inr (map g xs)"
  by (induction xs) simp_all

lemma big_all_faces_member:
  assumes "p \<in> set (all_faces (map big_ix [0 ..< n]))"
  shows "\<exists>k' i'. i' < 4 \<and> p = (face_key (big_ix k') i', (int k', i'))"
  using assms unfolding all_faces_def zip_upt_map by auto

lemma big_face_neighbour:
  assumes "i < 4"
  shows "face_neighbour (all_faces (map big_ix [0 ..< n])) (big_ix k) (int k) i = Inr NONE"
proof -
  have "\<not> (case p of (key, q) \<Rightarrow> key = face_key (big_ix k) i \<and> q \<noteq> (int k, i))"
    if "p \<in> set (all_faces (map big_ix [0 ..< n]))" for p
  proof -
    from big_all_faces_member [OF that] obtain k' i' where
      p: "i' < 4" "p = (face_key (big_ix k') i', (int k', i'))" by blast
    show ?thesis
      using face_key_big_inj [OF p(1) assms, of k' k] by (auto simp: p(2))
  qed
  then have "filter (\<lambda>(key, q). key = face_key (big_ix k) i \<and> q \<noteq> (int k, i))
      (all_faces (map big_ix [0 ..< n])) = []"
    by (simp only: filter_empty_conv) blast
  then show ?thesis
    by (simp add: face_neighbour_def)
qed

lemma big_tetrahedron_neighbours:
  "tetrahedron_neighbours (map big_ix [0 ..< n]) = Inr (replicate n [NONE, NONE, NONE, NONE])"
proof -
  let ?faces = "all_faces (map big_ix [0 ..< n])"
  have inner: "(case x of (e, ix) \<Rightarrow>
        sequence_sum (map (\<lambda>i. face_neighbour ?faces ix (int e) i) [0, 1, 2, 3])) =
      Inr ((\<lambda>x. [NONE, NONE, NONE, NONE]) x)"
    if "x \<in> set (map (\<lambda>k. (k, big_ix k)) [0 ..< n])" for x
  proof -
    from that obtain k where x: "x = (k, big_ix k)" by auto
    show ?thesis
      by (simp add: x big_face_neighbour)
  qed
  have "tetrahedron_neighbours (map big_ix [0 ..< n]) =
      sequence_sum (map (\<lambda>(e, ix).
        sequence_sum (map (\<lambda>i. face_neighbour ?faces ix (int e) i) [0, 1, 2, 3]))
        (map (\<lambda>k. (k, big_ix k)) [0 ..< n]))"
    unfolding tetrahedron_neighbours_def Let_def zip_upt_map ..
  also have "\<dots> = Inr (map (\<lambda>x. [NONE, NONE, NONE, NONE]) (map (\<lambda>k. (k, big_ix k)) [0 ..< n]))"
    by (rule sequence_sum_map_Inr) (use inner in blast)
  also have "map (\<lambda>x. [NONE, NONE, NONE, NONE]) (map (\<lambda>k. (k, big_ix k)) [0 ..< n]) =
      replicate n [NONE, NONE, NONE, NONE]"
    by (simp add: map_replicate_const)
  finally show ?thesis .
qed

lemma concat_replicate4: "concat (replicate n [x, x, x, x]) = replicate (4 * n) x"
proof (induction n)
  case 0
  show ?case by simp
next
  case (Suc n)
  have "4 * Suc n = Suc (Suc (Suc (Suc (4 * n))))" by simp
  then show ?case using Suc by (simp only: replicate_Suc concat.simps) simp
qed

lemma big_initializeNeighbours:
  "initializeNeighbours
     \<lparr>elt_tags = map (\<lambda>k. int k + 1) [0 ..< 200],
      elt_node_indices =
        map (\<lambda>k. [4 * int k, 4 * int k + 1, 4 * int k + 2, 4 * int k + 3]) [0 ..< 200],
      nodes = big_coords,
      medium_names = [''water''],
      medium_indices = replicate 200 0,
      neighbours = [], boundary_faces = [], face_normals = []\<rparr> = Inr big_data"
proof -
  have ix: "map (\<lambda>k. [4 * int k, 4 * int k + 1, 4 * int k + 2, 4 * int k + 3]) [0 ..< 200] =
      map big_ix [0 ..< 200]"
    by (simp add: big_ix_def)
  have b: "concat (map (map (\<lambda>n. n = NONE)) (replicate 200 [NONE, NONE, NONE, NONE])) =
      replicate 800 True"
    using concat_replicate4 [of 200 True] by simp
  have nb: "replicate 200 [NONE, NONE, NONE, NONE] = replicate 200 [- 1, - 1, - 1, - 1]"
    by (simp add: NONE_def)
  show ?thesis
    unfolding initializeNeighbours_def
    by (simp only: EGS_Mesh_data.simps ix big_tetrahedron_neighbours sum.case b)
       (simp add: big_data_def big_coords_def ix nb)
qed

lemma big_num_elements: "num_elements big_data = 200"
  by (simp add: num_elements_def big_data_def)

lemma big_is_boundary: "k < 200 \<Longrightarrow> is_boundary big_data (int k)"
  by (simp add: is_boundary_def big_data_def)

lemma big_boundary_elts: "filter (is_boundary big_data) (map int [0 ..< 200]) = map int [0 ..< 200]"
  by (simp only: filter_id_conv) (auto simp: big_is_boundary)

lemma big_octree_eq:
  "EGS_Mesh_Octree (map int [0 ..< 200]) 200 big_data = Inr big_volume_tree"
  "EGS_Mesh_Octree (map int [0 ..< 200]) 100 big_data = Inr big_surface_tree"
  unfolding EGS_Mesh_Octree_def big_g_bounds big_root_expand big_volume_tree_def
    big_surface_tree_def
  by (simp_all add: int_max_def)

lemma big_initializeOctrees:
  "initializeOctrees big_data = Inr (big_volume_tree, big_surface_tree)"
  unfolding initializeOctrees_def Let_def big_num_elements
  by (simp only: nat_numeral big_boundary_elts big_octree_eq sum.case)

lemma big_ctor_eq: "EGS_Mesh_ctor big_elements big_nodes [Medium 1 ''water''] = Inr big_mesh"
  unfolding EGS_Mesh_ctor_def
  by (simp only: big_initializeElements big_initializeNeighbours big_initializeOctrees
      sum.case prod.case big_mesh_def)

lemma big_trees:
  "\<exists>cs. big_volume_tree = Node [] cs big_root \<and> length cs = 8 \<and> cs ! 0 = Node [] [] big_octant0"
  "\<exists>cs. big_surface_tree = Node [] cs big_root \<and> length cs = 8 \<and> cs ! 0 = Node [] [] big_octant0"
  unfolding big_volume_tree_def big_surface_tree_def
  by (rule big_Node_ctor; simp)+

lemma big_mesh_trees:
  "volume_tree big_mesh = big_volume_tree" "surface_tree big_mesh = big_surface_tree"
  by (simp_all add: big_mesh_def extend_sel)

lemma big_mesh_element_nodes: "element_nodes big_mesh = element_nodes big_data"
  by (rule element_nodes_cong) (simp_all add: big_mesh_def extend_sel initializeNormals_fields)

lemma big_hownear: "hownear big_mesh (- 1) big_p = Inr (big_delta / 2)"
proof -
  from big_trees(2) obtain cs where
    cs: "big_surface_tree = Node [] cs big_root" "length cs = 8" "cs ! 0 = Node [] [] big_octant0"
    by blast
  have "octree_hownear_exterior big_surface_tree big_p big_mesh = big_delta / 2"
    unfolding cs(1) using cs(2,3) by (rule big_hownear_tree)
  then show ?thesis
    by (simp add: hownear_def min_exterior_face_dist_def big_mesh_trees)
qed

text \<open>
  C5 (the code at a failing input). The constructor accepts the two hundred tetrahedra.
  The position is the midpoint of the edge from node A to node B of region \<open>0\<close>, a point
  of the boundary face A, B, C of that region, so its distance to the nearest boundary
  face is \<open>0\<close>; \<^verbatim>\<open>hownear\<close> in the outside state returns \<open>5e-10\<close>. The separating
  axis test adds \<^verbatim>\<open>eps\<close> to the projection interval and drops region \<open>0\<close> from the
  octant that holds the position.
\<close>

theorem hownear_exterior_overestimates:
  "EGS_Mesh_ctor big_elements big_nodes ex_media = Inr big_mesh \<and>
   element_nodes big_mesh 0 = big_tet \<and> boundary_faces big_mesh ! 3 \<and>
   big_p = vadd (nA big_tet) (vscale (1 / 2) (vsub (nB big_tet) (nA big_tet))) \<and>
   distance big_p big_p = 0 \<and>
   hownear big_mesh (- 1) big_p = Inr (1 / 2000000000)"
proof -
  have 1: "element_nodes big_mesh 0 = big_tet"
    using big_element_nodes [of 0] by (simp add: big_mesh_element_nodes big_tets_nth)
  have 2: "boundary_faces big_mesh ! 3"
    by (simp add: big_mesh_def extend_sel initializeNormals_fields big_data_def)
  have 3: "big_p = vadd (nA big_tet) (vscale (1 / 2) (vsub (nB big_tet) (nA big_tet)))"
    by (simp add: big_p_def big_tet_def vadd_def vscale_def vsub_def field_simps)
  have 4: "distance big_p big_p = 0"
    by (simp add: distance_def distance2_def length2_def)
  have 5: "hownear big_mesh (- 1) big_p = Inr (1 / 2000000000)"
    using big_hownear by (simp add: big_delta_def)
  from big_ctor_eq 1 2 3 4 5 show ?thesis
    by (simp only: ex_media_def simp_thms)
qed

section \<open>Point location\<close>

text \<open>
  A point strictly inside a tetrahedron is inside the bounding box of the tetrahedron, and
  \<^verbatim>\<open>insideElement\<close> accepts it: the signed distance of the point to the plane of a
  face is the weight of the opposite node times the signed distance of that node.
\<close>

lemma convex_bounds:
  fixes l0 l1 l2 l3 :: real
  assumes "0 \<le> l0" "0 \<le> l1" "0 \<le> l2" "0 \<le> l3" "l0 + l1 + l2 + l3 = 1"
  shows "min a (min b (min c d)) \<le> l0 * a + l1 * b + l2 * c + l3 * d"
    and "l0 * a + l1 * b + l2 * c + l3 * d \<le> max a (max b (max c d))"
proof -
  define lo where "lo = min a (min b (min c d))"
  define hi where "hi = max a (max b (max c d))"
  have b: "lo \<le> a" "lo \<le> b" "lo \<le> c" "lo \<le> d" "a \<le> hi" "b \<le> hi" "c \<le> hi" "d \<le> hi"
    by (simp_all add: lo_def hi_def)
  have lo: "l0 * lo \<le> l0 * a" "l1 * lo \<le> l1 * b" "l2 * lo \<le> l2 * c" "l3 * lo \<le> l3 * d"
    using assms(1-4) b by (simp_all add: mult_left_mono)
  have hi: "l0 * a \<le> l0 * hi" "l1 * b \<le> l1 * hi" "l2 * c \<le> l2 * hi" "l3 * d \<le> l3 * hi"
    using assms(1-4) b by (simp_all add: mult_left_mono)
  have "lo = (l0 + l1 + l2 + l3) * lo" using assms(5) by simp
  also have "\<dots> = l0 * lo + l1 * lo + l2 * lo + l3 * lo" by (simp only: distrib_right)
  finally have "lo \<le> l0 * a + l1 * b + l2 * c + l3 * d" using lo by linarith
  then show "min a (min b (min c d)) \<le> l0 * a + l1 * b + l2 * c + l3 * d"
    by (simp only: lo_def)
  have "hi = (l0 + l1 + l2 + l3) * hi" using assms(5) by simp
  also have "\<dots> = l0 * hi + l1 * hi + l2 * hi + l3 * hi" by (simp only: distrib_right)
  finally have "l0 * a + l1 * b + l2 * c + l3 * d \<le> hi" using hi by linarith
  then show "l0 * a + l1 * b + l2 * c + l3 * d \<le> max a (max b (max c d))"
    by (simp only: hi_def)
qed

lemma strictly_inside_tet_box:
  assumes "strictly_inside p n"
  shows "in_closed_box (tet_box n) p"
proof -
  from assms obtain l0 l1 l2 l3 where
    l': "0 < l0" "0 < l1" "0 < l2" "0 < l3" "l0 + l1 + l2 + l3 = 1"
    and p: "p = bary_point n l0 l1 l2 l3"
    unfolding strictly_inside_def by blast
  from l' have l: "0 \<le> l0" "0 \<le> l1" "0 \<le> l2" "0 \<le> l3" "l0 + l1 + l2 + l3 = 1"
    by simp_all
  have x: "vx p = l0 * vx (nA n) + l1 * vx (nB n) + l2 * vx (nC n) + l3 * vx (nD n)"
    and y: "vy p = l0 * vy (nA n) + l1 * vy (nB n) + l2 * vy (nC n) + l3 * vy (nD n)"
    and z: "vz p = l0 * vz (nA n) + l1 * vz (nB n) + l2 * vz (nC n) + l3 * vz (nD n)"
    by (simp_all add: p bary_point_def)
  show ?thesis
    unfolding in_closed_box_def tet_box_def mk_box_def x y z
    using convex_bounds [OF l] by simp
qed

lemma dot_linear3:
  assumes "vx w = k1 * vx e1 + k2 * vx e2 + k3 * vx e3"
    and "vy w = k1 * vy e1 + k2 * vy e2 + k3 * vy e3"
    and "vz w = k1 * vz e1 + k2 * vz e2 + k3 * vz e3"
  shows "dot w nn = k1 * dot e1 nn + k2 * dot e2 nn + k3 * dot e3 nn"
  unfolding dot_def assms by (simp add: algebra_simps)

lemma bary_plane:
  fixes a b c d :: EGS_Vector
  assumes "la + lb + lc + ld = 1"
    and "vx p = la * vx a + lb * vx b + lc * vx c + ld * vx d"
    and "vy p = la * vy a + lb * vy b + lc * vy c + ld * vy d"
    and "vz p = la * vz a + lb * vz b + lc * vz c + ld * vz d"
  shows "dot (vsub p a) (cross (vsub b a) (vsub c a)) =
         ld * dot (vsub d a) (cross (vsub b a) (vsub c a))"
proof -
  let ?N = "cross (vsub b a) (vsub c a)"
  have la: "la = 1 - lb - lc - ld" using assms(1) by simp
  have "dot (vsub p a) ?N =
      lb * dot (vsub b a) ?N + lc * dot (vsub c a) ?N + ld * dot (vsub d a) ?N"
    by (rule dot_linear3) (simp_all only: vsub_sel assms(2-4) la, simp_all add: algebra_simps)
  moreover have "dot (vsub b a) ?N = 0" "dot (vsub c a) ?N = 0"
    using dot_cross_left [of "vsub b a" "vsub c a"] by (simp_all add: dot_commute)
  ultimately show ?thesis by simp
qed

lemma bary_not_outside:
  fixes a b c d :: EGS_Vector
  assumes "la + lb + lc + ld = 1" and "0 \<le> ld"
    and "vx p = la * vx a + lb * vx b + lc * vx c + ld * vx d"
    and "vy p = la * vy a + lb * vy b + lc * vy c + ld * vy d"
    and "vz p = la * vz a + lb * vz b + lc * vz c + ld * vz d"
  shows "\<not> point_outside_of_plane p a b c d"
proof -
  let ?t = "dot (vsub d a) (cross (vsub b a) (vsub c a))"
  have eq: "dot (vsub p a) (cross (vsub b a) (vsub c a)) * ?t = ld * (?t * ?t)"
    by (simp only: bary_plane [OF assms(1,3,4,5)] mult.assoc)
  have "0 \<le> ld * (?t * ?t)"
    using assms(2) zero_le_square [of ?t] by (rule mult_nonneg_nonneg)
  then show ?thesis
    unfolding point_outside_of_plane_def eq by simp
qed

lemma strictly_inside_insideElement:
  assumes "strictly_inside p (element_nodes m e)"
  shows "insideElement m e p"
proof -
  let ?n = "element_nodes m e"
  from assms obtain l0 l1 l2 l3 where
    l': "0 < l0" "0 < l1" "0 < l2" "0 < l3" "l0 + l1 + l2 + l3 = 1"
    and p: "p = bary_point ?n l0 l1 l2 l3"
    unfolding strictly_inside_def by blast
  from l' have l: "0 \<le> l0" "0 \<le> l1" "0 \<le> l2" "0 \<le> l3" "l0 + l1 + l2 + l3 = 1"
    by simp_all
  have x: "vx p = l0 * vx (nA ?n) + l1 * vx (nB ?n) + l2 * vx (nC ?n) + l3 * vx (nD ?n)"
    and y: "vy p = l0 * vy (nA ?n) + l1 * vy (nB ?n) + l2 * vy (nC ?n) + l3 * vy (nD ?n)"
    and z: "vz p = l0 * vz (nA ?n) + l1 * vz (nB ?n) + l2 * vz (nC ?n) + l3 * vz (nD ?n)"
    by (simp_all add: p bary_point_def)
  have 1: "\<not> point_outside_of_plane p (nA ?n) (nB ?n) (nC ?n) (nD ?n)"
    by (rule bary_not_outside [of l0 l1 l2 l3]) (use l x y z in linarith)+
  have 2: "\<not> point_outside_of_plane p (nA ?n) (nC ?n) (nD ?n) (nB ?n)"
    by (rule bary_not_outside [of l0 l2 l3 l1]) (use l x y z in linarith)+
  have 3: "\<not> point_outside_of_plane p (nA ?n) (nB ?n) (nD ?n) (nC ?n)"
    by (rule bary_not_outside [of l0 l1 l3 l2]) (use l x y z in linarith)+
  have 4: "\<not> point_outside_of_plane p (nB ?n) (nC ?n) (nD ?n) (nA ?n)"
    by (rule bary_not_outside [of l1 l2 l3 l0]) (use l x y z in linarith)+
  show ?thesis
    by (simp add: insideElement_def Let_def 1 2 3 4)
qed

text \<open>
  The root box of the volume tree covers the boxes of all elements, and the root of a mesh
  of fewer than \<^verbatim>\<open>n_vol\<close> elements is a leaf that holds them all.
\<close>

lemma widen_covers:
  "in_closed_box g p \<Longrightarrow> in_closed_box (widen g t) p"
  "in_closed_box t p \<Longrightarrow> in_closed_box (widen g t) p"
  by (auto simp: in_closed_box_def widen_def mk_box_def)

lemma fold_widen_covers:
  "in_closed_box g p \<or> (\<exists>e \<in> set es. in_closed_box (tet_box (en e)) p) \<Longrightarrow>
   in_closed_box (fold (\<lambda>e g. widen g (tet_box (en e))) es g) p"
proof (induction es arbitrary: g)
  case Nil
  then show ?case by simp
next
  case (Cons e es)
  have "in_closed_box (widen g (tet_box (en e))) p \<or>
      (\<exists>e' \<in> set es. in_closed_box (tet_box (en e')) p)"
    using Cons.prems widen_covers [of g p "tet_box (en e)"] widen_covers(2) [of "tet_box (en e)" p g]
    by auto
  from Cons.IH [OF this] show ?case by simp
qed

lemma g_bounds_covers:
  assumes "e \<in> set es" and "in_closed_box (tet_box (element_nodes m e)) p"
  shows "in_closed_box (g_bounds es m) p"
proof (cases es)
  case Nil
  with assms(1) show ?thesis by simp
next
  case (Cons h t)
  with assms have "in_closed_box (tet_box (element_nodes m h)) p \<or>
      (\<exists>e' \<in> set t. in_closed_box (tet_box (element_nodes m e')) p)"
    by auto
  from fold_widen_covers [OF this] Cons show ?thesis
    by (simp add: g_bounds_def)
qed

lemma expand_contains: "in_closed_box g p \<Longrightarrow> 0 < d \<Longrightarrow> contains (expand g d) p"
  by (simp add: in_closed_box_def contains_def expand_def mk_box_def)

lemma first_inside_find:
  "first_inside m es p = (case find (\<lambda>e. insideElement m e p) es of Some e \<Rightarrow> e | None \<Rightarrow> - 1)"
  by (induction es) simp_all

lemma first_inside_upt:
  assumes "0 \<le> e" and "e < int n" and "insideElement m e p"
  shows "0 \<le> first_inside m (map int [0 ..< n]) p \<and> first_inside m (map int [0 ..< n]) p \<le> e \<and>
         insideElement m (first_inside m (map int [0 ..< n]) p) p \<and>
         (\<forall>e'. 0 \<le> e' \<and> e' < first_inside m (map int [0 ..< n]) p \<longrightarrow> \<not> insideElement m e' p)"
proof (cases "find (\<lambda>e. insideElement m e p) (map int [0 ..< n])")
  case None
  then have all: "\<forall>k \<in> {0 ..< n}. \<not> insideElement m (int k) p"
    by (auto simp: find_None_iff)
  have "nat e \<in> {0 ..< n}" using assms(1,2) by simp
  with all have "\<not> insideElement m (int (nat e)) p" by blast
  with assms show ?thesis by simp
next
  case (Some r)
  then obtain i where i: "i < n" "insideElement m (int i) p" "r = int i"
      "\<forall>j<i. \<not> insideElement m (int j) p"
    by (auto simp: find_Some_iff)
  have r: "first_inside m (map int [0 ..< n]) p = int i"
    by (simp add: first_inside_find Some i(3))
  have le: "int i \<le> e"
  proof (rule ccontr)
    assume "\<not> int i \<le> e"
    then have "nat e < i" using assms(1) by linarith
    with i(4) have "\<not> insideElement m (int (nat e)) p" by blast
    with assms(1,3) show False by simp
  qed
  have "\<not> insideElement m e' p" if "0 \<le> e'" "e' < int i" for e'
  proof -
    from that have "nat e' < i" by linarith
    with i(4) have "\<not> insideElement m (int (nat e')) p" by blast
    with that(1) show ?thesis by simp
  qed
  with i(2) le show ?thesis by (simp add: r)
qed

lemma bbox_of_Node_ctor: "bbox_of (Node_ctor es bb n m) = bb"
  by (subst Node_ctor.simps) simp

lemma Node_ctor_cong:
  "element_nodes m = element_nodes m' \<Longrightarrow> Node_ctor es bb n m = Node_ctor es bb n m'"
proof (induction es bb n m rule: Node_ctor.induct)
  case (1 elts bbox n_max mesh)
  show ?case
    apply (subst Node_ctor.simps)
    apply (subst (2) Node_ctor.simps)
    using 1 by auto
qed

lemma g_bounds_cong: "element_nodes m = element_nodes m' \<Longrightarrow> g_bounds es m = g_bounds es m'"
  by (simp add: g_bounds_def)

lemma insideElement_cong:
  "element_nodes m = element_nodes m' \<Longrightarrow> insideElement m = insideElement m'"
  by (intro ext) (simp add: insideElement_def)

lemma ctor_volume_tree:
  assumes "EGS_Mesh_ctor els nds mats = Inr m"
  shows "volume_tree m =
           Node_ctor (map int [0 ..< length els])
             (expand (g_bounds (map int [0 ..< length els]) m) (1 / 10 ^ 8)) 200 m"
    and "els \<noteq> []"
proof -
  from assms obtain m1 m2 vt st where
    m1: "initializeElements els nds mats = Inr m1" and
    m2: "initializeNeighbours m1 = Inr m2" and
    oc: "initializeOctrees m2 = Inr (vt, st)" and
    m: "m = EGS_Mesh_data.extend (initializeNormals m2) (EGS_Mesh.fields vt st)"
    by (rule ctor_cases)
  have en: "element_nodes m = element_nodes m2"
    by (rule element_nodes_cong) (simp_all add: m extend_sel initializeNormals_fields)
  have n: "nat (num_elements m2) = length els"
    using ctor_num_elements [OF assms]
    by (simp add: m num_elements_def extend_sel initializeNormals_fields)
  let ?es = "map int [0 ..< length els]"
  from oc have vt: "EGS_Mesh_Octree ?es 200 m2 = Inr vt"
    by (auto simp: initializeOctrees_def Let_def n split: sum.splits)
  then have "vt = Node_ctor ?es (expand (g_bounds ?es m2) (1 / 10 ^ 8)) 200 m2" and ne: "?es \<noteq> []"
    by (auto simp: EGS_Mesh_Octree_def split: if_splits)
  then have "vt = Node_ctor ?es (expand (g_bounds ?es m) (1 / 10 ^ 8)) 200 m"
    using Node_ctor_cong [OF en] g_bounds_cong [OF en] by simp
  then show "volume_tree m = Node_ctor ?es (expand (g_bounds ?es m) (1 / 10 ^ 8)) 200 m"
    by (simp add: m extend_sel)
  from ne show "els \<noteq> []" by simp
qed

text \<open>
  On a mesh of fewer than two hundred elements \<^verbatim>\<open>isWhere\<close> finds, for a point strictly
  inside a region, the lowest region that \<^verbatim>\<open>insideElement\<close> accepts the point for; outside
  the root box it answers \<open>-1\<close> on every mesh.
\<close>

lemma isWhere_small_mesh:
  assumes "EGS_Mesh_ctor els nds mats = Inr m"
  shows "(\<not> contains (bbox_of (volume_tree m)) p \<longrightarrow> isWhere m p = - 1) \<and>
         bbox_of (volume_tree m) =
           expand (g_bounds (map int [0 ..< length els]) m) (1 / 10 ^ 8) \<and>
         (length els < 200 \<longrightarrow> 0 \<le> e \<longrightarrow> e < num_elements m \<longrightarrow>
          strictly_inside p (element_nodes m e) \<longrightarrow>
            0 \<le> isWhere m p \<and> isWhere m p \<le> e \<and> insideElement m (isWhere m p) p \<and>
            (\<forall>e'. 0 \<le> e' \<and> e' < isWhere m p \<longrightarrow> \<not> insideElement m e' p))"
proof -
  let ?es = "map int [0 ..< length els]"
  let ?bb = "expand (g_bounds ?es m) (1 / 10 ^ 8)"
  have vt: "volume_tree m = Node_ctor ?es ?bb 200 m"
    using assms by (rule ctor_volume_tree)
  have bb: "bbox_of (volume_tree m) = ?bb"
    by (simp add: vt bbox_of_Node_ctor)
  have out: "\<not> contains (bbox_of (volume_tree m)) p \<longrightarrow> isWhere m p = - 1"
    by (simp add: isWhere_def octree_isWhere_def)
  have small: "0 \<le> isWhere m p \<and> isWhere m p \<le> e \<and> insideElement m (isWhere m p) p \<and>
      (\<forall>e'. 0 \<le> e' \<and> e' < isWhere m p \<longrightarrow> \<not> insideElement m e' p)"
    if len: "length els < 200" and e: "0 \<le> e" "e < num_elements m"
      and si: "strictly_inside p (element_nodes m e)"
  proof -
    have n: "num_elements m = int (length els)"
      using assms by (rule ctor_num_elements)
    have leaf: "volume_tree m = Node ?es [] ?bb"
      unfolding vt using len by (subst Node_ctor.simps) simp
    have mem: "e \<in> set ?es"
      using e n by (auto simp: image_iff intro: bexI [of _ "nat e"])
    have "in_closed_box (g_bounds ?es m) p"
      using mem strictly_inside_tet_box [OF si] by (rule g_bounds_covers)
    then have c: "contains ?bb p"
      by (rule expand_contains) simp
    have w: "isWhere m p = first_inside m ?es p"
      unfolding isWhere_def octree_isWhere_def leaf
      using c by (simp add: node_isWhere.simps isLeaf_def)
    have ie: "insideElement m e p"
      using si by (rule strictly_inside_insideElement)
    show ?thesis
      unfolding w using e n by (intro first_inside_upt ie) simp_all
  qed
  from out bb small show ?thesis by blast
qed

lemma ex_strictly_inside: "strictly_inside ex_p (element_nodes ex_mesh 0)"
proof -
  have "ex_p = bary_point (element_nodes ex_mesh 0) (3 / 8) (1 / 4) (1 / 4) (1 / 8)"
    by (simp add: ex_mesh_element_nodes bary_point_def ex_p_def vadd_def vscale_def)
  then show ?thesis
    unfolding strictly_inside_def
    by (intro exI [of _ "3 / 8"] exI [of _ "1 / 4"] exI [of _ "1 / 8"] conjI) simp_all
qed

lemma isWhere_small_mesh_example:
  "EGS_Mesh_ctor ex_elements ex_nodes ex_media = Inr ex_mesh \<and>
   \<not> contains (bbox_of (volume_tree ex_mesh)) ex_x_out \<and> isWhere ex_mesh ex_x_out = - 1 \<and>
   length ex_elements < 200 \<and> 0 < num_elements ex_mesh \<and>
   strictly_inside ex_p (element_nodes ex_mesh 0) \<and> isWhere ex_mesh ex_p = 0"
proof -
  have c: "\<not> contains (bbox_of (volume_tree ex_mesh)) ex_x_out"
    by (simp add: ex_mesh_def contains_def ex_box_def mk_box_def ex_x_out_def)
  have l: "length ex_elements < 200" by (simp add: ex_elements_def)
  have n: "(0::int) \<le> 0" "0 < num_elements ex_mesh" by (simp_all add: ex_mesh_num_elements)
  from isWhere_small_mesh [OF ex_ctor_eq, of ex_x_out 0] c
  have 1: "isWhere ex_mesh ex_x_out = - 1" by blast
  from isWhere_small_mesh [OF ex_ctor_eq, of ex_p 0] l n ex_strictly_inside
  have 2: "isWhere ex_mesh ex_p = 0" by simp
  from ex_ctor_eq c 1 l n(2) ex_strictly_inside 2 show ?thesis by simp
qed

text \<open>
  Where two regions overlap the answer is the first of them: the position is strictly inside
  region \<open>1\<close> of the two overlapping tetrahedra, and the answer is region \<open>0\<close>.
\<close>

lemma ov_initializeElements:
  "initializeElements ov_elements ov_nodes ex_media =
     Inr \<lparr>elt_tags = [1, 2], elt_node_indices = [[0, 1, 2, 3], [0, 1, 2, 4]],
          nodes = [Vec 0 0 0, Vec 2 0 0, Vec 0 1 0, Vec 0 0 1, Vec 0 0 2],
          medium_names = [''water''], medium_indices = [0, 0],
          neighbours = [], boundary_faces = [], face_normals = []\<rparr>"
  by (simp add: initializeElements_def ov_elements_def ov_nodes_def ex_media_def int_max_def
      map_insert_def element_indices_def find_node_def Let_def)

lemma ov_neighbours:
  "tetrahedron_neighbours [[0, 1, 2, 3], [0, 1, 2, 4]] =
     Inr [[NONE, NONE, NONE, 1], [NONE, NONE, NONE, 0]]"
  by (simp add: tetrahedron_neighbours_def all_faces_def face_neighbour_def face_key_def Let_def)

lemma ov_initializeNeighbours:
  "initializeNeighbours
     \<lparr>elt_tags = [1, 2], elt_node_indices = [[0, 1, 2, 3], [0, 1, 2, 4]],
      nodes = [Vec 0 0 0, Vec 2 0 0, Vec 0 1 0, Vec 0 0 1, Vec 0 0 2],
      medium_names = [''water''], medium_indices = [0, 0],
      neighbours = [], boundary_faces = [], face_normals = []\<rparr> = Inr ov_data"
  by (simp add: initializeNeighbours_def ov_neighbours ov_data_def NONE_def)

lemma ov_element_nodes:
  "element_nodes ov_data 0 = Nodes (Vec 0 0 0) (Vec 2 0 0) (Vec 0 1 0) (Vec 0 0 1)"
  "element_nodes ov_data 1 = Nodes (Vec 0 0 0) (Vec 2 0 0) (Vec 0 1 0) (Vec 0 0 2)"
  by (simp_all add: element_nodes_def ov_data_def)

lemma ov_g_bounds: "expand (g_bounds [0, 1] ov_data) (1 / 100000000) = ov_box"
  by (simp add: g_bounds_def ov_element_nodes tet_box_def widen_def expand_def mk_box_def ov_box_def)

lemma ov_initializeOctrees:
  "initializeOctrees ov_data = Inr (Node [0, 1] [] ov_box, Node [0, 1] [] ov_box)"
proof -
  have n: "num_elements ov_data = 2" by (simp add: num_elements_def ov_data_def)
  have u: "[0 ..< 2] = [0, 1]" by (simp add: upt_rec)
  have b: "is_boundary ov_data 0" "is_boundary ov_data 1"
    by (simp_all add: is_boundary_def ov_data_def)
  have t1: "EGS_Mesh_Octree [0, 1] 200 ov_data = Inr (Node [0, 1] [] ov_box)"
    by (simp add: EGS_Mesh_Octree_def int_max_def ov_g_bounds Node_ctor.simps)
  have t2: "EGS_Mesh_Octree [0, 1] 100 ov_data = Inr (Node [0, 1] [] ov_box)"
    by (simp add: EGS_Mesh_Octree_def int_max_def ov_g_bounds Node_ctor.simps)
  show ?thesis
    by (simp add: initializeOctrees_def n u b t1 t2 Let_def)
qed

lemma ov_ctor_eq: "EGS_Mesh_ctor ov_elements ov_nodes ex_media = Inr ov_mesh"
  by (simp add: EGS_Mesh_ctor_def ov_initializeElements ov_initializeNeighbours
      ov_initializeOctrees ov_mesh_def)

lemma ov_mesh_element_nodes: "element_nodes ov_mesh = element_nodes ov_data"
  by (rule element_nodes_cong) (simp_all add: ov_mesh_def extend_sel initializeNormals_fields)

lemma ov_inside_both:
  "ex_p = bary_point (element_nodes ov_mesh 0) (3 / 8) (1 / 4) (1 / 4) (1 / 8)"
  "ex_p = bary_point (element_nodes ov_mesh 1) (7 / 16) (1 / 4) (1 / 4) (1 / 16)"
  by (simp_all add: ov_mesh_element_nodes ov_element_nodes bary_point_def ex_p_def vadd_def
      vscale_def)

lemma ov_isWhere: "isWhere ov_mesh ex_p = 0"
proof -
  have c: "contains ov_box ex_p"
    by (simp add: contains_def ov_box_def mk_box_def ex_p_def)
  have v: "volume_tree ov_mesh = Node [0, 1] [] ov_box"
    by (simp add: ov_mesh_def extend_sel)
  have i: "insideElement ov_mesh 0 ex_p"
    by (simp add: insideElement_def ov_mesh_element_nodes ov_element_nodes
        point_outside_of_plane_def dot_def ex_p_def)
  show ?thesis
    by (simp add: isWhere_def octree_isWhere_def v c node_isWhere.simps isLeaf_def i)
qed

lemma isWhere_overlap_first_match:
  "EGS_Mesh_ctor ov_elements ov_nodes ex_media = Inr ov_mesh \<and>
   1 < num_elements ov_mesh \<and>
   ex_p = bary_point (element_nodes ov_mesh 1) (7 / 16) (1 / 4) (1 / 4) (1 / 16) \<and>
   strictly_inside ex_p (element_nodes ov_mesh 1) \<and>
   isWhere ov_mesh ex_p = 0"
proof -
  have n: "1 < num_elements ov_mesh"
    by (simp add: num_elements_def ov_mesh_def extend_sel initializeNormals_fields ov_data_def)
  have s: "strictly_inside ex_p (element_nodes ov_mesh 1)"
    unfolding strictly_inside_def
    by (intro exI [of _ "7 / 16"] exI [of _ "1 / 4"] exI [of _ "1 / 16"] conjI ov_inside_both(2))
       simp_all
  from ov_ctor_eq n ov_inside_both(2) s ov_isWhere show ?thesis by simp
qed

lemma big_q_bary:
  "big_q = bary_point big_tet (4000000001 / 8000000004) (4000000001 / 8000000004)
             (1 / 8000000004) (1 / 8000000004)"
  by (simp add: big_q_def big_tet_def bary_point_def vadd_def vscale_def big_delta_def)

lemma big_q_strictly_inside: "strictly_inside big_q big_tet"
  unfolding strictly_inside_def
  by (intro exI [of _ "4000000001 / 8000000004"] exI [of _ "1 / 8000000004"] conjI big_q_bary)
     simp_all

lemma big_q_in_root: "contains big_root big_q"
  by (simp add: contains_def big_root_def big_q_def mk_box_def big_delta_def)

lemma big_q_octant: "findOctant (Node es cs big_root) big_q = 0"
  by (simp add: findOctant_def mid_x_def mid_y_def mid_z_def big_root_def mk_box_def big_q_def
      big_delta_def)

lemma big_q_isWhere_tree:
  assumes "length cs = 8" and "cs ! 0 = Node [] [] big_octant0"
  shows "octree_isWhere (Node [] cs big_root) big_q mesh = - 1"
proof -
  have leaf: "node_isWhere (Node [] [] big_octant0) big_q mesh = - 1"
    by (subst node_isWhere.simps) (simp add: isLeaf_def)
  have "cs \<noteq> []" using assms(1) by auto
  then have "node_isWhere (Node [] cs big_root) big_q mesh = node_isWhere (cs ! 0) big_q mesh"
    using assms(1) by (subst node_isWhere.simps) (simp add: isLeaf_def big_q_octant)
  then show ?thesis
    by (simp add: octree_isWhere_def big_q_in_root assms(2) leaf)
qed

lemma big_isWhere: "isWhere big_mesh big_q = - 1"
proof -
  from big_trees(1) obtain cs where
    cs: "big_volume_tree = Node [] cs big_root" "length cs = 8" "cs ! 0 = Node [] [] big_octant0"
    by blast
  have "octree_isWhere big_volume_tree big_q big_mesh = - 1"
    unfolding cs(1) using cs(2,3) by (rule big_q_isWhere_tree)
  then show ?thesis
    by (simp add: isWhere_def big_mesh_trees)
qed

text \<open>
  C4 (the code at a failing input). The constructor accepts the two hundred tetrahedra, which
  do not overlap. The position is strictly inside region \<open>0\<close>, close to the edge from node
  A to node B; \<^verbatim>\<open>insideElement\<close> accepts it for region \<open>0\<close> and the root box of the
  volume tree contains it, and \<^verbatim>\<open>isWhere\<close> answers \<open>-1\<close>: the separating axis test has
  dropped region \<open>0\<close> from the octant that holds the position, whose leaf is empty.
\<close>

theorem isWhere_misses_region:
  "EGS_Mesh_ctor big_elements big_nodes ex_media = Inr big_mesh \<and>
   element_nodes big_mesh 0 = big_tet \<and>
   big_q = bary_point big_tet (4000000001 / 8000000004) (4000000001 / 8000000004)
             (1 / 8000000004) (1 / 8000000004) \<and>
   strictly_inside big_q (element_nodes big_mesh 0) \<and>
   insideElement big_mesh 0 big_q \<and>
   contains (bbox_of (volume_tree big_mesh)) big_q \<and>
   isWhere big_mesh big_q = - 1"
proof -
  have 1: "element_nodes big_mesh 0 = big_tet"
    using big_element_nodes [of 0] by (simp add: big_mesh_element_nodes big_tets_nth)
  have 2: "strictly_inside big_q (element_nodes big_mesh 0)"
    by (simp only: 1 big_q_strictly_inside)
  have 3: "insideElement big_mesh 0 big_q"
    using 2 by (rule strictly_inside_insideElement)
  from big_trees(1) obtain cs where "big_volume_tree = Node [] cs big_root" by blast
  then have "bbox_of big_volume_tree = bbox_of (Node [] cs big_root)" by (rule arg_cong)
  then have "bbox_of big_volume_tree = big_root" by (simp only: Node.sel)
  then have 4: "contains (bbox_of (volume_tree big_mesh)) big_q"
    by (simp add: big_mesh_trees big_q_in_root)
  from big_ctor_eq 1 big_q_bary 2 3 4 big_isWhere show ?thesis
    by (simp only: ex_media_def simp_thms)
qed

end
